theory Spec2Isabelle
  imports Complex_Main
begin

section \<open>Python values, errors and dictionaries\<close>

text \<open>
  The scripts handle loosely typed data: decoded JSON documents and command-line switch
  tables. A value is one of Python's \<open>None\<close>, a \<open>bool\<close>, an (unbounded) \<open>int\<close>, a
  \<open>float\<close>, a \<open>str\<close>, a \<open>list\<close> or a \<open>dict\<close> with \<open>str\<close> keys: the values that
  the JSON decoder of the library produces. A \<open>float\<close> is a finite number (kept as the
  rational number it denotes), one of the two infinities, or \<open>nan\<close>.
  A dictionary is an association list in insertion order with pairwise distinct keys.
  A \<open>str\<close> is a list of code points below 256.
\<close>

datatype pyfloat = Finite rat | PosInf | NegInf | NaN

datatype pyval =
    PNone
  | PBool bool
  | PInt int
  | PFloat pyfloat
  | PStr string
  | PList "pyval list"
  | PDict "(string \<times> pyval) list"

type_synonym pydict = "(string \<times> pyval) list"

datatype error =
    TypeError
  | ValueError
  | KeyError
  | IndexError
  | AttributeError
  | OverflowError
  | JSONDecodeError
  | RegexError
  | NameError
  | NotModelled

text \<open>
  \<open>NotModelled\<close> is no exception of Python: it marks a step whose outcome the model does
  not represent, such as an exit code or a sum that is a \<open>float\<close>, or a dictionary key
  that is not a \<open>str\<close>.
\<close>

text \<open>\<open>d.get(k)\<close>: the value stored under \<open>k\<close>, or \<open>None\<close>.\<close>

definition dict_get :: "pydict \<Rightarrow> string \<Rightarrow> pyval" where
  "dict_get d k = (case map_of d k of None \<Rightarrow> PNone | Some v \<Rightarrow> v)"

text \<open>\<open>d[k] = v\<close>: an existing key keeps its position, a new key goes last.\<close>

fun dict_set :: "pydict \<Rightarrow> string \<Rightarrow> pyval \<Rightarrow> pydict" where
  "dict_set [] k v = [(k, v)]"
| "dict_set ((k', v') # d) k v =
     (if k' = k then (k, v) # d else (k', v') # dict_set d k v)"

text \<open>Python's truth value of an object.\<close>

fun truthy :: "pyval \<Rightarrow> bool" where
  "truthy PNone = False"
| "truthy (PBool b) = b"
| "truthy (PInt n) = (n \<noteq> 0)"
| "truthy (PFloat f) = (f \<noteq> Finite 0)"
| "truthy (PStr s) = (s \<noteq> [])"
| "truthy (PList xs) = (xs \<noteq> [])"
| "truthy (PDict d) = (d \<noteq> [])"

section \<open>Conversion to integers\<close>

definition newline :: char where
  "newline = CHR 0x0A"

definition is_digit :: "char \<Rightarrow> bool" where
  "is_digit c = (c \<in> set ''0123456789'')"

text \<open>
  The characters that \<open>str.strip()\<close> removes from both ends of a \<open>str\<close>, those for which
  \<open>str.isspace()\<close> holds: tab, line feed, vertical tab, form feed, carriage return, the
  separators 0x1C to 0x1F, space, 0x85 and 0xA0.
\<close>

definition is_space :: "char \<Rightarrow> bool" where
  "is_space c = (of_char c \<in> set [9, 10, 11, 12, 13, 28, 29, 30, 31, 32, 133, 160 :: nat])"

text \<open>
  The characters that \<open>int()\<close> skips at both ends of a \<open>str\<close>: tab, line feed, vertical
  tab, form feed, carriage return and space, and the two spaces 0x85 and 0xA0 outside
  ASCII. The separators 0x1C to 0x1F are not among them: \<open>int()\<close> rejects a string that
  holds one.
\<close>

definition is_int_space :: "char \<Rightarrow> bool" where
  "is_int_space c = (of_char c \<in> set [9, 10, 11, 12, 13, 32, 133, 160 :: nat])"

definition digit_value :: "char \<Rightarrow> int" where
  "digit_value c = int (of_char c) - 48"

definition decimal_value :: "string \<Rightarrow> int" where
  "decimal_value ds = foldl (\<lambda>a c. 10 * a + digit_value c) 0 ds"

definition strip :: "string \<Rightarrow> string" where
  "strip s = rev (dropWhile is_space (rev (dropWhile is_space s)))"

definition int_strip :: "string \<Rightarrow> string" where
  "int_strip s = rev (dropWhile is_int_space (rev (dropWhile is_int_space s)))"

text \<open>
  The digit part of an integer literal: digits, with single underscores allowed between
  two digits.
\<close>

fun digit_groups :: "string \<Rightarrow> bool" where
  "digit_groups [] = False"
| "digit_groups [c] = is_digit c"
| "digit_groups (c # d # cs) =
     (is_digit c \<and> (if d = CHR ''_'' then digit_groups cs else digit_groups (d # cs)))"

text \<open>
  \<open>int(s)\<close> for a \<open>str\<close>: \<open>None\<close> stands for the \<open>ValueError\<close> that Python raises. The
  string must be an integer literal: an optional sign and digits, with single underscores
  allowed between digits, and space around. Integers are unbounded, but the interpreter
  limits the number of digits of the string it converts (\<open>sys.get_int_max_str_digits()\<close>,
  4300 unless the interpreter is configured otherwise): \<open>maxd\<close> is that limit, 0 for an
  interpreter that has none. The digits are counted with their leading zeros and without
  the underscores.
\<close>

definition int_of_str :: "nat \<Rightarrow> string \<Rightarrow> int option" where
  "int_of_str maxd s =
     (let t = int_strip s;
          neg = (t \<noteq> [] \<and> hd t = CHR ''-'');
          body = (if t \<noteq> [] \<and> (hd t = CHR ''-'' \<or> hd t = CHR ''+'') then tl t else t)
      in if digit_groups body \<and> \<not> (maxd \<noteq> 0 \<and> maxd < length (filter is_digit body))
         then Some ((if neg then - 1 else 1) * decimal_value (filter is_digit body))
         else None)"

text \<open>
  \<open>int(x)\<close> for a \<open>float\<close>: the fractional part of a finite number is dropped; \<open>nan\<close> is
  a \<open>ValueError\<close> and an infinity an \<open>OverflowError\<close>.
\<close>

definition trunc_rat :: "rat \<Rightarrow> int" where
  "trunc_rat r = (if 0 \<le> r then \<lfloor>r\<rfloor> else \<lceil>r\<rceil>)"

fun int_of_float :: "pyfloat \<Rightarrow> error + int" where
  "int_of_float (Finite r) = Inr (trunc_rat r)"
| "int_of_float NaN = Inl ValueError"
| "int_of_float PosInf = Inl OverflowError"
| "int_of_float NegInf = Inl OverflowError"

text \<open>
  The match of \<open>^([0-9]+)[,].*$\<close> at the start of a string, returning group 1. The dot
  does not match a line feed, and \<open>$\<close> matches at the end or just before a final line
  feed, so the text after the comma has no line feed except possibly as its last
  character.
\<close>

definition line_tail :: "string \<Rightarrow> bool" where
  "line_tail r = (newline \<notin> set (butlast r))"

definition match_number_comma :: "string \<Rightarrow> string option" where
  "match_number_comma s =
     (let ds = takeWhile is_digit s; rest = dropWhile is_digit s
      in if ds \<noteq> [] \<and> rest \<noteq> [] \<and> hd rest = CHR '','' \<and> line_tail (tl rest)
         then Some ds else None)"

text \<open>
  \<open>ADPNCommandLineTool.convertto_numeric_value(switch, value)\<close>, on an interpreter with
  the digit limit \<open>maxd\<close>. With \<open>value\<close> left at \<open>None\<close> the switch table is read; a \<open>switch\<close>
  of \<open>None\<close> is no key of the table.
\<close>

definition convertto_numeric_value ::
  "nat \<Rightarrow> pydict \<Rightarrow> string option \<Rightarrow> pyval \<Rightarrow> error + int" where
  "convertto_numeric_value maxd sw switch value =
     (let rhs0 = (if value = PNone
                  then (case switch of None \<Rightarrow> PNone | Some k \<Rightarrow> dict_get sw k)
                  else value);
          m = match_number_comma (case rhs0 of PStr s \<Rightarrow> s | _ \<Rightarrow> []);
          rhs = (case m of Some g \<Rightarrow> PStr g | None \<Rightarrow> rhs0)
      in case rhs of
           PBool b \<Rightarrow> Inr (if b then 1 else 0)
         | PInt n \<Rightarrow> Inr n
         | PFloat f \<Rightarrow> int_of_float f
         | PStr s \<Rightarrow>
             (case int_of_str maxd s of
                Some n \<Rightarrow> Inr n
              | None \<Rightarrow> Inr (if length s > 0 then 1 else 0))
         | PNone \<Rightarrow> Inr 0
         | _ \<Rightarrow> Inl TypeError)"

text \<open>
  The claim of the specification names the pattern \<open>^(\d+),\<close>: one or more digits and a
  comma at the start of the string, with nothing required of the rest.
\<close>

definition spec_number_comma :: "string \<Rightarrow> string option" where
  "spec_number_comma s =
     (let ds = takeWhile is_digit s; rest = dropWhile is_digit s
      in if ds \<noteq> [] \<and> rest \<noteq> [] \<and> hd rest = CHR '','' then Some ds else None)"

section \<open>The command-line tool base class\<close>

text \<open>
  The fields of an \<open>ADPNCommandLineTool\<close> that the methods below read or write, and the two
  output streams of the process. A stream is the list of the texts written to it, one per
  call of \<open>print\<close>, each with its line end.
\<close>

record tool =
  scriptname :: string
  switches :: pydict
  verbose :: int
  debug :: int
  stored_exitcode :: int
  stdout :: "string list"
  stderr :: "string list"

datatype stream = Stdout | Stderr

definition print :: "stream \<Rightarrow> string \<Rightarrow> string \<Rightarrow> 'a tool_scheme \<Rightarrow> 'a tool_scheme" where
  "print s text end t =
     (case s of
        Stdout \<Rightarrow> t\<lparr>stdout := stdout t @ [text @ end]\<rparr>
      | Stderr \<Rightarrow> t\<lparr>stderr := stderr t @ [text @ end]\<rparr>)"

text \<open>
  A method that may raise returns the exception, if any, with the state it leaves behind.
\<close>

definition set_exitcode :: "int \<Rightarrow> 'a tool_scheme \<Rightarrow> error option \<times> 'a tool_scheme" where
  "set_exitcode code t =
     (if code \<ge> 0 \<and> code \<le> 255 then (None, t\<lparr>stored_exitcode := code\<rparr>)
      else (Some ValueError, t))"

text \<open>The property setter \<open>self.exitcode = code\<close>.\<close>

definition exitcode_setter :: "int \<Rightarrow> 'a tool_scheme \<Rightarrow> error option \<times> 'a tool_scheme" where
  "exitcode_setter code t = set_exitcode code t"

definition plain_text_output :: "'a tool_scheme \<Rightarrow> bool" where
  "plain_text_output t =
     (dict_get (switches t) ''output'' = PNone
      \<or> dict_get (switches t) ''output'' = PStr ''text/plain'')"

definition write_status ::
  "string \<Rightarrow> string option \<Rightarrow> bool \<Rightarrow> int \<Rightarrow> 'a tool_scheme \<Rightarrow> 'a tool_scheme" where
  "write_status message prolog is_notice verbosity t =
     (let prefix = (case prolog of
                      None \<Rightarrow> ''['' @ scriptname t @ ''] ''
                    | Some p \<Rightarrow> p @ '' '');
          strm = (if is_notice
                  then (if \<not> plain_text_output t \<and> verbosity > 0 then Stderr else Stdout)
                  else Stdout);
          text = (if is_notice then prefix @ message else message)
      in if verbosity \<le> verbose t then print strm text [newline] t else t)"

definition write_error ::
  "int option \<Rightarrow> string \<Rightarrow> string \<Rightarrow> 'a tool_scheme \<Rightarrow> error option \<times> 'a tool_scheme" where
  "write_error code message prefix t =
     (case (case code of None \<Rightarrow> (None, t) | Some c \<Rightarrow> exitcode_setter c t) of
        (Some e, t') \<Rightarrow> (Some e, t')
      | (None, t') \<Rightarrow>
          (None, print Stderr (prefix @ ''['' @ scriptname t' @ ''] '' @ message) [newline] t'))"

text \<open>
  The \<open>verbose\<close> setter in force (the later of the two definitions in the class).
\<close>

definition verbose_setter :: "nat \<Rightarrow> pyval \<Rightarrow> error + int" where
  "verbose_setter maxd rhs =
     (case rhs of
        PBool b \<Rightarrow> Inr (if b then 1 else 0)
      | PInt n \<Rightarrow> Inr n
      | PFloat f \<Rightarrow> int_of_float f
      | PStr s \<Rightarrow>
          (case int_of_str maxd s of
             Some n \<Rightarrow> Inr n
           | None \<Rightarrow> Inr (if length s > 0 then 1 else 0))
      | PNone \<Rightarrow> Inr 0
      | _ \<Rightarrow> Inl TypeError)"

text \<open>
  \<open>ADPNCommandLineTool.__init__\<close>, given the script name that the path resolves to, on an
  interpreter with the digit limit \<open>maxd\<close>. The exit code is set to 0 through the setter,
  then the verbosity and debug levels are read from the switches.
\<close>

definition init_tool :: "nat \<Rightarrow> string \<Rightarrow> pydict \<Rightarrow> error + tool" where
  "init_tool maxd name sw =
     (let t0 = \<lparr>scriptname = name, switches = sw, verbose = 0, debug = 0,
                stored_exitcode = 0, stdout = [], stderr = []\<rparr>
      in case exitcode_setter 0 t0 of
           (Some e, _) \<Rightarrow> Inl e
         | (None, t1) \<Rightarrow>
             (case verbose_setter maxd (if truthy (dict_get sw ''quiet'') then PInt 0
                                    else dict_get sw ''verbose'') of
                Inl e \<Rightarrow> Inl e
              | Inr v \<Rightarrow>
                  (case convertto_numeric_value maxd sw None (dict_get sw ''debug'') of
                     Inl e \<Rightarrow> Inl e
                   | Inr d \<Rightarrow>
                       Inr (t1\<lparr>verbose := (if d > v then d else v), debug := d\<rparr>))))"

definition exitcode_valid :: "'a tool_scheme \<Rightarrow> bool" where
  "exitcode_valid t = (0 \<le> stored_exitcode t \<and> stored_exitcode t \<le> 255)"

section \<open>The script pipeline: selecting values from the piped packet\<close>

text \<open>
  The match of \<open>^[@](.*)$\<close> at the start of a key, returning group 1: the text after
  the \<open>@\<close>, without a final line feed.
\<close>

definition match_at :: "string \<Rightarrow> string option" where
  "match_at key =
     (case key of
        [] \<Rightarrow> None
      | c # rest \<Rightarrow>
          if c = CHR ''@'' \<and> line_tail rest
          then Some (if rest \<noteq> [] \<and> last rest = newline then butlast rest else rest)
          else None)"

text \<open>\<open>len(x)\<close>: defined on strings, lists and dictionaries, a \<open>TypeError\<close> otherwise.\<close>

fun py_len :: "pyval \<Rightarrow> error + nat" where
  "py_len (PStr s) = Inr (length s)"
| "py_len (PList xs) = Inr (length xs)"
| "py_len (PDict d) = Inr (length d)"
| "py_len _ = Inl TypeError"

text \<open>
  The elements that iterating over a value yields: the items of a list, the characters of
  a string, the keys of a dictionary.
\<close>

fun py_iter :: "pyval \<Rightarrow> pyval list" where
  "py_iter (PList xs) = xs"
| "py_iter (PStr s) = map (\<lambda>c. PStr [c]) s"
| "py_iter (PDict d) = map (\<lambda>kv. PStr (fst kv)) d"
| "py_iter _ = []"

text \<open>\<open>x.get(k)\<close>: only a dictionary has the method.\<close>

fun obj_get :: "pyval \<Rightarrow> string \<Rightarrow> error + pyval" where
  "obj_get (PDict d) k = Inr (dict_get d k)"
| "obj_get _ k = Inl AttributeError"

text \<open>
  The loop of \<open>get_data\<close> over the \<open>parameters\<close> list: every element of length 2 is
  unpacked into a name and a value, and a value whose name equals the text after the
  \<open>@\<close> replaces the result. The loop does not stop at the first match.
\<close>

fun scan_parameters :: "string \<Rightarrow> pyval list \<Rightarrow> pyval \<Rightarrow> error + pyval" where
  "scan_parameters name [] result = Inr result"
| "scan_parameters name (pair # ps) result =
     (case py_len pair of
        Inl e \<Rightarrow> Inl e
      | Inr n \<Rightarrow>
          if n = 2
          then (case py_iter pair of
                  [k, v] \<Rightarrow> scan_parameters name ps (if k = PStr name then v else result)
                | _ \<Rightarrow> scan_parameters name ps result)
          else scan_parameters name ps result)"

text \<open>
  \<open>ADPNScriptPipeline.get_data(key)\<close>. The JSON store (\<open>myPyJSON\<close>) is not part of the
  sources at hand, so its outcome is an argument: \<open>None\<close> when there are no pipelines
  (nothing is read), otherwise the exception that \<open>accept\<close> raises on the piped lines or
  the value of \<open>allData\<close> after it.
\<close>

definition get_data :: "(error + pyval) option \<Rightarrow> string option \<Rightarrow> error + pyval" where
  "get_data accepted key =
     (case accepted of
        None \<Rightarrow> Inr PNone
      | Some (Inl e) \<Rightarrow> Inl e
      | Some (Inr allData) \<Rightarrow>
          (case key of
             None \<Rightarrow> Inr allData
           | Some k \<Rightarrow>
               (case obj_get allData k of
                  Inl e \<Rightarrow> Inl e
                | Inr result \<Rightarrow>
                    (case obj_get allData ''parameters'' of
                       Inl e \<Rightarrow> Inl e
                     | Inr (PList ps) \<Rightarrow>
                         (case match_at k of
                            Some name \<Rightarrow> scan_parameters name ps result
                          | None \<Rightarrow> Inr result)
                     | Inr _ \<Rightarrow> Inr result))))"

text \<open>
  The values that the \<open>parameters\<close> list pairs with a name, in the order of the list.
\<close>

definition matching_values :: "string \<Rightarrow> pyval list \<Rightarrow> pyval list" where
  "matching_values name ps =
     concat (map (\<lambda>p. case py_iter p of
                         [k, v] \<Rightarrow> if k = PStr name then [v] else []
                       | _ \<Rightarrow> []) ps)"

text \<open>
  Dictionaries are objects: a heap maps a reference (an index) to the dictionary stored
  there, and a new object takes the next free reference.
\<close>

type_synonym heap = "pydict list"

definition alloc :: "heap \<Rightarrow> pydict \<Rightarrow> nat \<times> heap" where
  "alloc h d = (length h, h @ [d])"

text \<open>
  \<open>ADPNScriptPipeline.backfilled(table, key, data_source)\<close>: \<open>{ **table }\<close> is a new
  dictionary with the items of \<open>table\<close>; the assignment \<open>result[key] = value\<close> updates
  that new object. The result is the reference returned, or the exception raised by
  \<open>get_data\<close>, with the heap left behind.
\<close>

definition backfilled ::
  "heap \<Rightarrow> (error + pyval) option \<Rightarrow> nat \<Rightarrow> string \<Rightarrow> string option
     \<Rightarrow> (error + nat) \<times> heap" where
  "backfilled h accepted table key data_source =
     (case alloc h (h ! table) of
        (result, h1) \<Rightarrow>
          if dict_get (h1 ! result) key = PNone
          then (case get_data accepted data_source of
                  Inl e \<Rightarrow> (Inl e, h1)
                | Inr v \<Rightarrow>
                    if v \<noteq> PNone
                    then (Inr result, h1[result := dict_set (h1 ! result) key v])
                    else (Inr result, h1))
          else (Inr result, h1))"

section \<open>The environment of a run\<close>

text \<open>
  What the scripts take from Python's library, from the file system and from their own
  documentation is not computed here but supplied: \<open>str()\<close> of a value and of a tuple,
  \<open>os.path.realpath\<close>, \<open>urllib.parse.quote\<close>, \<open>json.dumps\<close> with its indent,
  \<open>re.match\<close> with a pattern (\<open>None\<close> when the pattern does not compile, otherwise
  the test it performs on a string),
  \<open>codecs.escape_decode\<close> (\<open>None\<close> for its \<open>ValueError\<close>), the \<open>%\<close> formatting of a
  template with a dictionary (which fails with a \<open>KeyError\<close>, a \<open>TypeError\<close> or a
  \<open>ValueError\<close>), the usage text and the version of the script, and the interpreter's
  limit on the digits of a string that \<open>int()\<close> converts (0 for none).
\<close>

datatype format_failure = FormatKeyError | FormatTypeError | FormatValueError

record env =
  py_str :: "pyval \<Rightarrow> string"
  str_tuple :: "pyval list \<Rightarrow> string"
  realpath :: "string \<Rightarrow> string"
  url_quote :: "string \<Rightarrow> string"
  json_dumps :: "pyval \<Rightarrow> pyval \<Rightarrow> string"
  re_match :: "string \<Rightarrow> (string \<Rightarrow> bool) option"
  escape_decode :: "string \<Rightarrow> string option"
  percent_format :: "string \<Rightarrow> pydict \<Rightarrow> format_failure + string"
  usage :: string
  version :: string
  int_max_str_digits :: nat

text \<open>
  An exception that reaches \<open>execute\<close>, and the way a run ends: \<open>sys.exit\<close> with a code, an
  exception that nothing catches, or the return of \<open>execute\<close> to its caller.
\<close>

datatype exn =
    AssertionError "pyval list"
  | KeyboardInterrupt
  | FileNotFoundError
  | Raised error

datatype ending = Exit int | Uncaught exn | Returned

text \<open>\<open>sep.join(xs)\<close> for a list of strings.\<close>

fun join :: "string \<Rightarrow> string list \<Rightarrow> string" where
  "join sep [] = []"
| "join sep [x] = x"
| "join sep (x # y # ys) = x @ sep @ join sep (y # ys)"

text \<open>
  \<open>join\<close> accepts only strings: the items as strings, or the \<open>TypeError\<close> of the first
  item that is none.
\<close>

fun str_items :: "pyval list \<Rightarrow> error + string list" where
  "str_items [] = Inr []"
| "str_items (PStr s # xs) =
     (case str_items xs of Inl e \<Rightarrow> Inl e | Inr ss \<Rightarrow> Inr (s # ss))"
| "str_items (_ # xs) = Inl TypeError"

text \<open>Iteration over a value: a \<open>TypeError\<close> for a value that is not iterable.\<close>

definition py_iterable :: "pyval \<Rightarrow> error + pyval list" where
  "py_iterable v = (case py_len v of Inl e \<Rightarrow> Inl e | Inr _ \<Rightarrow> Inr (py_iter v))"

text \<open>
  \<open>ADPNCommandLineTool.switched(key, just_present)\<close> with the default \<open>None\<close>.
\<close>

definition switched :: "pydict \<Rightarrow> string \<Rightarrow> bool \<Rightarrow> bool" where
  "switched sw key just_present =
     (let result = dict_get sw key;
          present = (case result of PList xs \<Rightarrow> length xs > 0 | _ \<Rightarrow> result \<noteq> PNone)
      in if just_present then present else truthy result)"

text \<open>\<open>exit\<close> of the base class and of the packaging script: \<open>sys.exit(self.exitcode)\<close>.\<close>

definition tool_exit :: "'a tool_scheme \<Rightarrow> ending \<times> 'a tool_scheme" where
  "tool_exit t = (Exit (stored_exitcode t), t)"

definition display_usage :: "env \<Rightarrow> 'a tool_scheme \<Rightarrow> ending \<times> 'a tool_scheme" where
  "display_usage E t =
     (case exitcode_setter 0 (print Stdout (usage E) [newline] t) of
        (Some e, t') \<Rightarrow> (Uncaught (Raised e), t')
      | (None, t') \<Rightarrow> tool_exit t')"

definition display_version :: "env \<Rightarrow> 'a tool_scheme \<Rightarrow> ending \<times> 'a tool_scheme" where
  "display_version E t =
     (case exitcode_setter 0
             (print Stdout (scriptname t @ '' version '' @ version E) [newline] t) of
        (Some e, t') \<Rightarrow> (Uncaught (Raised e), t')
      | (None, t') \<Rightarrow> tool_exit t')"

text \<open>\<open>ADPNCommandLineTool.execute(terminate)\<close>.\<close>

definition tool_execute :: "env \<Rightarrow> bool \<Rightarrow> 'a tool_scheme \<Rightarrow> ending \<times> 'a tool_scheme" where
  "tool_execute E terminate t =
     (if switched (switches t) ''help'' False then display_usage E t
      else if switched (switches t) ''version'' False then display_version E t
      else if terminate then tool_exit t
      else (Returned, t))"

section \<open>The packaging script\<close>

text \<open>
  The names in \<open>req\<close> for which the switches hold no value. A list or a dictionary cannot
  be looked up (\<open>TypeError\<close>); a name that is no string is no key of the switches.
\<close>

fun missing_parameters :: "pydict \<Rightarrow> pyval list \<Rightarrow> error + pyval list" where
  "missing_parameters sw [] = Inr []"
| "missing_parameters sw (p # ps) =
     (case p of
        PList _ \<Rightarrow> Inl TypeError
      | PDict _ \<Rightarrow> Inl TypeError
      | _ \<Rightarrow>
          (case missing_parameters sw ps of
             Inl e \<Rightarrow> Inl e
           | Inr ms \<Rightarrow>
               Inr (if (case p of PStr k \<Rightarrow> dict_get sw k = PNone | _ \<Rightarrow> True)
                    then p # ms else ms)))"

text \<open>
  The \<open>BagIt\<close> branch of the handler, once the exit code \<open>n\<close> of the validation tool has
  been read from \<open>e.args[3]\<close>.
\<close>

definition report_bagit ::
  "env \<Rightarrow> pyval list \<Rightarrow> int \<Rightarrow> 'a tool_scheme \<Rightarrow> error option \<times> 'a tool_scheme" where
  "report_bagit E args n t =
     (case args ! 2 of
        PStr path \<Rightarrow>
          (case write_error (Some (100 + n))
                  (py_str E (args ! 1) @ '' on '' @ realpath E path @ '', exit code ''
                     @ py_str E (PInt n) @ ''. Output:'') [] t of
             (Some e, t1) \<Rightarrow> (Some e, t1)
           | (None, t1) \<Rightarrow>
               if length args < 5 then (Some IndexError, t1)
               else (case py_iterable (args ! 4) of
                       Inl e \<Rightarrow> (Some e, t1)
                     | Inr items \<Rightarrow>
                         (case str_items items of
                            Inl e \<Rightarrow> (Some e, t1)
                          | Inr ls \<Rightarrow> (None, print Stderr (join [newline] ls) [newline] t1))))
      | _ \<Rightarrow> (Some TypeError, t))"

text \<open>
  The handler of \<open>AssertionError\<close> in \<open>ADPNPackageContentScript.execute\<close>, on the arguments
  of the exception. An exception raised inside the handler is returned with the state at
  that point.
\<close>

definition handle_assertion ::
  "env \<Rightarrow> pyval list \<Rightarrow> 'a tool_scheme \<Rightarrow> error option \<times> 'a tool_scheme" where
  "handle_assertion E args t =
     (case args of
        [] \<Rightarrow> (Some IndexError, t)
      | a0 # _ \<Rightarrow>
          if a0 = PStr ''BagIt'' then
            (if length args < 4 then (Some IndexError, t)
             else (case args ! 3 of
                     PInt n \<Rightarrow> report_bagit E args n t
                   | PBool b \<Rightarrow> report_bagit E args (if b then 1 else 0) t
                   | PFloat _ \<Rightarrow> (Some NotModelled, t)
                   | _ \<Rightarrow> (Some TypeError, t)))
          else if a0 = PStr ''manifest'' then
            (if length args < 3 then (Some IndexError, t)
             else (case args ! 2 of
                     PStr path \<Rightarrow>
                       if length args < 4 then (Some IndexError, t)
                       else write_error (Some 4)
                              (py_str E (args ! 1) @ '' for '' @ realpath E path
                                 @ ''. Required boilerplate: '' @ py_str E (args ! 3)) [] t
                   | _ \<Rightarrow> (Some TypeError, t)))
          else if length args = 2 then
            (let t1 = print Stderr ''ERR:'' [newline] t;
                 t2 = print Stderr (str_tuple E args) [newline] t1
             in case py_iterable (args ! 1) of
                  Inl e \<Rightarrow> (Some e, t2)
                | Inr req \<Rightarrow>
                    (case missing_parameters (switches t2) req of
                       Inl e \<Rightarrow> (Some e, t2)
                     | Inr missing \<Rightarrow>
                         (case str_items missing of
                            Inl e \<Rightarrow> (Some e, t2)
                          | Inr names \<Rightarrow>
                              write_error (Some 2)
                                (''Required parameter missing: '' @ join '', '' names) [] t2)))
          else write_error (Some 2) (''Requirement failure: '' @ py_str E a0) [] t)"

text \<open>
  \<open>ADPNPackageContentScript.execute(terminate)\<close>. The statements of the \<open>try\<close> block work
  on the preservation package (\<open>ADPNPreservationPackage\<close>, which is not part of the sources
  at hand): their joint effect \<open>steps\<close> is an argument, giving the exception they raise, if
  any, and the state they leave.
\<close>

definition package_execute ::
  "env \<Rightarrow> ('a tool_scheme \<Rightarrow> exn option \<times> 'a tool_scheme) \<Rightarrow> bool \<Rightarrow> 'a tool_scheme
     \<Rightarrow> ending \<times> 'a tool_scheme" where
  "package_execute E steps terminate t =
     (case tool_execute E False t of
        (Returned, t0) \<Rightarrow>
          (case steps t0 of
             (None, t1) \<Rightarrow> if terminate then tool_exit t1 else (Returned, t1)
           | (Some (AssertionError args), t1) \<Rightarrow>
               (case handle_assertion E args t1 of
                  (Some e, t2) \<Rightarrow> (Uncaught (Raised e), t2)
                | (None, t2) \<Rightarrow> if terminate then tool_exit t2 else (Returned, t2))
           | (Some KeyboardInterrupt, t1) \<Rightarrow>
               (case write_error (Some 255) ''Keyboard Interrupt.'' (''^C'' @ [newline]) t1 of
                  (Some e, t2) \<Rightarrow> (Uncaught (Raised e), t2)
                | (None, t2) \<Rightarrow> if terminate then tool_exit t2 else (Returned, t2))
           | (Some FileNotFoundError, t1) \<Rightarrow>
               if stored_exitcode t1 = 3
               then (if terminate then tool_exit t1 else (Returned, t1))
               else (Uncaught FileNotFoundError, t1)
           | (Some (Raised e), t1) \<Rightarrow> (Uncaught (Raised e), t1))
      | (ended, t0) \<Rightarrow> (ended, t0))"

section \<open>An environment for the examples\<close>

text \<open>
  The examples need one environment to run in. This one prints an \<open>int\<close> in decimal, a
  string as it is and the constants by their names, leaves paths and quoted text
  unchanged, reads a pattern as literal text to be found at the start of the string, and
  has the digit limit 4300 of an interpreter left as it is installed.
\<close>

fun show_nat :: "nat \<Rightarrow> string" where
  "show_nat n =
     (if n < 10 then [char_of (48 + n)]
      else show_nat (n div 10) @ [char_of (48 + n mod 10)])"

definition show_int :: "int \<Rightarrow> string" where
  "show_int i = (if i < 0 then CHR ''-'' # show_nat (nat (- i)) else show_nat (nat i))"

fun show_scalar :: "pyval \<Rightarrow> string" where
  "show_scalar PNone = ''None''"
| "show_scalar (PBool b) = (if b then ''True'' else ''False'')"
| "show_scalar (PInt n) = show_int n"
| "show_scalar (PStr s) = s"
| "show_scalar _ = ''...''"

definition sample_env :: env where
  "sample_env =
     \<lparr>py_str = show_scalar,
      str_tuple = (\<lambda>xs. ''('' @ join '', '' (map show_scalar xs) @ '')''),
      realpath = (\<lambda>p. p),
      url_quote = (\<lambda>s. s),
      json_dumps = (\<lambda>v indent. show_scalar v),
      re_match = (\<lambda>p. Some (\<lambda>s. take (length p) s = p)),
      escape_decode = (\<lambda>s. Some s),
      percent_format = (\<lambda>s d. Inr s),
      usage = ''Usage'',
      version = ''2021.0823'',
      int_max_str_digits = 4300\<rparr>"

section \<open>The JSON query tool\<close>

text \<open>
  The JSON store (\<open>myPyJSON\<close>) is not part of the sources at hand. Its operations are
  arguments of the model, over a store state of any type: the constructor with its
  \<open>splat\<close> and \<open>cascade\<close> options, \<open>accept\<close> with its \<open>screen\<close> option (returning the
  exception it raises, if any, and the new state), \<open>select_where\<close> with a filter,
  the properties \<open>allData\<close> and \<open>raw\<close>, and \<open>add_prolog\<close>.
\<close>

record 's json_ops =
  new_store :: "bool \<Rightarrow> bool \<Rightarrow> 's"
  accept :: "bool \<Rightarrow> string list \<Rightarrow> 's \<Rightarrow> error option \<times> 's"
  select_where :: "(pyval \<Rightarrow> error + bool) \<Rightarrow> 's \<Rightarrow> error option \<times> 's"
  allData :: "'s \<Rightarrow> pyval"
  raw :: "'s \<Rightarrow> pyval"
  add_prolog :: "'s \<Rightarrow> string \<Rightarrow> string"

datatype flag = json_error | key_error | nothing_found | output_error

text \<open>
  An \<open>ADPNGetJSON\<close> object: the fields of the base class, the output line buffer, the
  error flags, the default format and the JSON store, created on first use. The field
  \<open>accept_calls\<close> is no field of the class: it records the \<open>screen\<close> option of every
  call of \<open>accept\<close> made by \<open>get_json_input\<close>, in order.
\<close>

record 's getjson = tool +
  output_lines :: "string list"
  flags :: "flag \<Rightarrow> pyval list"
  default_mime :: string
  json :: "'s option"
  accept_calls :: "bool list"

definition add_flag :: "flag \<Rightarrow> pyval \<Rightarrow> 's getjson \<Rightarrow> 's getjson" where
  "add_flag f v t = (if v \<noteq> PNone then t\<lparr>flags := (flags t)(f := flags t f @ [v])\<rparr> else t)"

definition test_flagged :: "flag \<Rightarrow> 's getjson \<Rightarrow> bool" where
  "test_flagged f t = (length (flags t f) > 0)"

text \<open>
  The \<open>exitcode\<close> property of \<open>ADPNGetJSON\<close>: reading it stores the code computed from
  the flags and returns it.
\<close>

definition getjson_exitcode :: "'s getjson \<Rightarrow> int \<times> 's getjson" where
  "getjson_exitcode t =
     (let c = (if test_flagged json_error t then 2
               else if test_flagged key_error t then 1
               else if test_flagged output_error t then 254
               else 0)
      in (c, t\<lparr>stored_exitcode := c\<rparr>))"

text \<open>\<open>exit\<close>: \<open>sys.exit(self.exitcode)\<close>, with the property above.\<close>

definition getjson_exit :: "'s getjson \<Rightarrow> ending \<times> 's getjson" where
  "getjson_exit t = (case getjson_exitcode t of (c, t') \<Rightarrow> (Exit c, t'))"

definition wants_splat :: "'s getjson \<Rightarrow> bool" where
  "wants_splat t = (dict_get (switches t) ''nosplat'' = PNone)"

definition wants_cascade :: "'s getjson \<Rightarrow> bool" where
  "wants_cascade t = (dict_get (switches t) ''cascade'' \<noteq> PNone)"

text \<open>\<open>s.split(c)\<close>: the pieces of \<open>s\<close> between the occurrences of \<open>c\<close>.\<close>

fun split_on :: "char \<Rightarrow> string \<Rightarrow> string list" where
  "split_on c [] = [[]]"
| "split_on c (x # xs) =
     (if x = c then [] # split_on c xs
      else (case split_on c xs of
              [] \<Rightarrow> [[x]]
            | y # ys \<Rightarrow> (x # y) # ys))"

text \<open>
  The list \<open>aSpec\<close> of \<open>get_output_format\<close>: the \<open>output\<close> switch, or the default format,
  split at the semicolons. Only a \<open>str\<close> has the method \<open>split\<close>.
\<close>

definition output_spec :: "'s getjson \<Rightarrow> error + string list" where
  "output_spec t =
     (case dict_get (switches t) ''output'' of
        PNone \<Rightarrow> Inr (split_on CHR '';'' (default_mime t))
      | PStr s \<Rightarrow> Inr (split_on CHR '';'' s)
      | _ \<Rightarrow> Inl AttributeError)"

definition fmt_at :: "string list \<Rightarrow> nat \<Rightarrow> string option" where
  "fmt_at aSpec index = (if index < length aSpec then Some (aSpec ! index) else None)"

definition get_output_format :: "'s getjson \<Rightarrow> nat \<Rightarrow> error + string option" where
  "get_output_format t index =
     (case output_spec t of Inl e \<Rightarrow> Inl e | Inr aSpec \<Rightarrow> Inr (fmt_at aSpec index))"

text \<open>
  The tests on the output format, on the switches and the list \<open>aSpec\<close>, and as the
  methods of the class.
\<close>

definition table_format :: "pydict \<Rightarrow> string list \<Rightarrow> bool" where
  "table_format sw aSpec =
     (let requested_table = (fmt_at aSpec 0 = Some ''text/tab-separated-values''
                             \<or> fmt_at aSpec 1 = Some ''table'');
          implies_table = (dict_get sw ''key'' = PNone \<and> fmt_at aSpec 0 = None)
      in implies_table \<or> requested_table)"

definition printf_format :: "pydict \<Rightarrow> string list \<Rightarrow> bool" where
  "printf_format sw aSpec =
     (fmt_at aSpec 0 = Some ''text/plain'' \<and> dict_get sw ''template'' \<noteq> PNone)"

definition json_format :: "string list \<Rightarrow> bool" where
  "json_format aSpec =
     (fmt_at aSpec 0 = Some ''json'' \<or> fmt_at aSpec 0 = Some ''application/json'')"

definition urlencoded_format :: "string list \<Rightarrow> bool" where
  "urlencoded_format aSpec =
     (fmt_at aSpec 0 = Some ''urlencode'' \<or> fmt_at aSpec 0 = Some ''multipart/form-data'')"

definition wants_table :: "'s getjson \<Rightarrow> error + bool" where
  "wants_table t =
     (case output_spec t of
        Inl e \<Rightarrow> Inl e
      | Inr aSpec \<Rightarrow> Inr (table_format (switches t) aSpec))"

definition wants_printf_output :: "'s getjson \<Rightarrow> error + bool" where
  "wants_printf_output t =
     (case output_spec t of
        Inl e \<Rightarrow> Inl e
      | Inr aSpec \<Rightarrow> Inr (printf_format (switches t) aSpec))"

definition wants_json_output :: "'s getjson \<Rightarrow> error + bool" where
  "wants_json_output t =
     (case output_spec t of Inl e \<Rightarrow> Inl e | Inr aSpec \<Rightarrow> Inr (json_format aSpec))"

text \<open>
  The match of \<open>^[/](.*)[/]$\<close> at the start of the value of a \<open>where\<close> filter, returning
  group 1: the text between the first slash and a last slash that ends the value, a final
  line feed apart.
\<close>

definition match_slashes :: "string \<Rightarrow> string option" where
  "match_slashes value =
     (let v = (if value \<noteq> [] \<and> last value = newline then butlast value else value)
      in if length v \<ge> 2 \<and> hd v = CHR ''/'' \<and> last v = CHR ''/''
            \<and> newline \<notin> set (butlast (tl v))
         then Some (butlast (tl v)) else None)"

text \<open>\<open>ADPNGetJSON.data_matches(item, key, value)\<close>.\<close>

definition data_matches :: "env \<Rightarrow> pyval \<Rightarrow> string \<Rightarrow> string \<Rightarrow> error + bool" where
  "data_matches E item key value =
     (case item of
        PDict d \<Rightarrow>
          (case match_slashes value of
             Some pattern \<Rightarrow>
               (case re_match E pattern of
                  None \<Rightarrow> Inl RegexError
                | Some test \<Rightarrow>
                    (case dict_get d key of
                       PStr subject \<Rightarrow> Inr (test subject)
                     | _ \<Rightarrow> Inl TypeError))
           | None \<Rightarrow>
               (case dict_get d key of
                  PStr s \<Rightarrow> Inr (s = value)
                | PInt n \<Rightarrow>
                    (case int_of_str (int_max_str_digits E) value of
                       None \<Rightarrow> Inl ValueError
                     | Some k \<Rightarrow> Inr (n = k))
                | PBool b \<Rightarrow>
                    (case int_of_str (int_max_str_digits E) value of
                       None \<Rightarrow> Inl ValueError
                     | Some k \<Rightarrow> Inr ((if b then 1 else 0) = k))
                | _ \<Rightarrow> Inr False))
      | _ \<Rightarrow> Inr True)"

text \<open>
  The property \<open>selected\<close>: the filter for the items of a list packet. With a \<open>where\<close>
  switch the specification is split at its first colon; a specification without a colon
  cannot be unpacked (\<open>ValueError\<close>), one that is no \<open>str\<close> has no \<open>split\<close>.
\<close>

definition selected :: "env \<Rightarrow> pydict \<Rightarrow> error + (pyval \<Rightarrow> error + bool)" where
  "selected E sw =
     (if truthy (dict_get sw ''where'')
      then (case dict_get sw ''where'' of
              PStr spec \<Rightarrow>
                if CHR '':'' \<in> set spec
                then Inr (\<lambda>x. data_matches E x (takeWhile (\<lambda>c. c \<noteq> CHR '':'') spec)
                                                 (tl (dropWhile (\<lambda>c. c \<noteq> CHR '':'') spec)))
                else Inl ValueError
            | _ \<Rightarrow> Inl AttributeError)
      else Inr (\<lambda>x. Inr True))"

definition is_multiline_output :: "string list \<Rightarrow> bool" where
  "is_multiline_output out = (length out > 1)"

text \<open>
  \<open>get_output_terminator()\<close>, called without argument: the lines counted are those of
  the output buffer.
\<close>

definition get_output_terminator :: "'s getjson \<Rightarrow> error + string" where
  "get_output_terminator t =
     (case wants_table t of
        Inl e \<Rightarrow> Inl e
      | Inr table \<Rightarrow>
          Inr (if table \<or> is_multiline_output (output_lines t) then [newline] else []))"

text \<open>
  \<open>get_output(value, key, pair)\<close> on the list \<open>aSpec\<close>: the rendered value, after the key
  and a tab when a pair is asked for.
\<close>

definition get_output :: "env \<Rightarrow> string list \<Rightarrow> pyval \<Rightarrow> pyval \<Rightarrow> bool \<Rightarrow> string list" where
  "get_output E aSpec value key pair =
     (let display_value = (if urlencoded_format aSpec then url_quote E (py_str E value)
                           else py_str E value)
      in if pair then [py_str E key @ [CHR 0x09] @ display_value] else [display_value])"

text \<open>
  \<open>add_output(value)\<close>: \<open>get_output\<close> always returns a list, which extends the buffer.
\<close>

definition add_output :: "env \<Rightarrow> pyval \<Rightarrow> 's getjson \<Rightarrow> error option \<times> 's getjson" where
  "add_output E value t =
     (case output_spec t of
        Inl e \<Rightarrow> (Some e, t)
      | Inr aSpec \<Rightarrow> (None, t\<lparr>output_lines := output_lines t @ get_output E aSpec value PNone False\<rparr>))"

text \<open>
  The match of \<open>^indent=(.*)$\<close> at the start of a format parameter, returning group 1.
\<close>

definition match_indent :: "string \<Rightarrow> string option" where
  "match_indent fmt =
     (if take 7 fmt = ''indent='' \<and> line_tail (drop 7 fmt)
      then Some (if drop 7 fmt \<noteq> [] \<and> last fmt = newline then butlast (drop 7 fmt)
                 else drop 7 fmt)
      else None)"

text \<open>
  \<open>get_json_indent()\<close>: an \<open>int\<close>, a \<open>str\<close> or \<open>None\<close>. Where \<open>int()\<close> raises
  \<open>ValueError\<close> the indent is the \<open>str()\<close> of the value.
\<close>

definition get_json_indent :: "env \<Rightarrow> pydict \<Rightarrow> string list \<Rightarrow> error + pyval" where
  "get_json_indent E sw aSpec =
     (let fmt = (case fmt_at aSpec 1 of None \<Rightarrow> [] | Some f \<Rightarrow> f)
      in case dict_get sw ''indent'' of
           PNone \<Rightarrow>
             (if fmt_at aSpec 1 = Some ''prettyprint'' then Inr (PInt 0)
              else (case match_indent fmt of
                      None \<Rightarrow> Inr PNone
                    | Some g \<Rightarrow>
                        (case int_of_str (int_max_str_digits E) g of
                           Some n \<Rightarrow> Inr (PInt n)
                         | None \<Rightarrow> Inr (PStr g))))
         | PStr s \<Rightarrow>
             (case int_of_str (int_max_str_digits E) s of
                Some n \<Rightarrow> Inr (PInt n)
              | None \<Rightarrow> Inr (PStr (py_str E (PStr s))))
         | PInt n \<Rightarrow> Inr (PInt n)
         | PBool b \<Rightarrow> Inr (PInt (if b then 1 else 0))
         | PFloat f \<Rightarrow>
             (case int_of_float f of
                Inr n \<Rightarrow> Inr (PInt n)
              | Inl e \<Rightarrow> if e = ValueError then Inr (PStr (py_str E (PFloat f))) else Inl e)
         | _ \<Rightarrow> Inl TypeError)"

text \<open>
  \<open>table[key]\<close> for a key taken from the requested keys: a missing key is a \<open>KeyError\<close>,
  a list or a dictionary cannot be a key (\<open>TypeError\<close>), and no other value is a key of a
  packet.
\<close>

definition subscript :: "pydict \<Rightarrow> pyval \<Rightarrow> error + pyval" where
  "subscript table key =
     (case key of
        PStr k \<Rightarrow> (case map_of table k of None \<Rightarrow> Inl KeyError | Some v \<Rightarrow> Inr v)
      | PList _ \<Rightarrow> Inl TypeError
      | PDict _ \<Rightarrow> Inl TypeError
      | _ \<Rightarrow> Inl KeyError)"

fun format_error :: "format_failure \<Rightarrow> error" where
  "format_error FormatKeyError = KeyError"
| "format_error FormatTypeError = TypeError"
| "format_error FormatValueError = ValueError"

text \<open>
  \<open>display_templated_text(text, table)\<close>: the table, extended by the fields \<open>$n\<close>, \<open>$t\<close>
  and \<open>$json\<close>, fills the template after its backslash escapes have been decoded.
\<close>

definition display_templated_text :: "env \<Rightarrow> pyval \<Rightarrow> pydict \<Rightarrow> error + string" where
  "display_templated_text E text table =
     (let data = dict_set (dict_set (dict_set table ''$n'' (PStr [newline]))
                                    ''$t'' (PStr [CHR 0x09]))
                          ''$json'' (PStr (json_dumps E (PDict table) PNone))
      in case text of
           PStr s \<Rightarrow>
             (case escape_decode E s of
                None \<Rightarrow> Inl ValueError
              | Some text_template \<Rightarrow>
                  (case percent_format E text_template data of
                     Inl f \<Rightarrow> Inl (format_error f)
                   | Inr result \<Rightarrow> Inr result))
         | _ \<Rightarrow> Inl TypeError)"

text \<open>The property \<open>data_keys\<close>: \<open>switches.get("key", [])\<close>.\<close>

definition data_keys :: "pydict \<Rightarrow> pyval" where
  "data_keys sw = (case map_of sw ''key'' of None \<Rightarrow> PList [] | Some v \<Rightarrow> v)"

text \<open>
  The keys that \<open>display_data_dict\<close> goes through: those of the table when no key is
  requested, else the requested ones.
\<close>

definition listed_keys :: "pydict \<Rightarrow> pyval \<Rightarrow> error + pyval list" where
  "listed_keys table keys =
     (if keys = PNone then Inr (map (\<lambda>kv. PStr (fst kv)) table)
      else (case py_len keys of
              Inl e \<Rightarrow> Inl e
            | Inr n \<Rightarrow>
                if n = 0 then Inr (map (\<lambda>kv. PStr (fst kv)) table) else Inr (py_iter keys)))"

definition tab :: char where
  "tab = CHR 0x09"

fun is_list :: "pyval \<Rightarrow> bool" where
  "is_list (PList xs) = True"
| "is_list _ = False"

text \<open>
  The accumulation \<open>{ **out, **{ key: value } }\<close> of the JSON rendering. The accumulator
  starts as the empty dictionary and stays a dictionary as long as keys are kept; a key
  whose value was found in the table is a \<open>str\<close>.
\<close>

fun merge_key :: "pyval \<Rightarrow> pyval \<Rightarrow> pyval \<Rightarrow> pyval" where
  "merge_key (PDict d) (PStr k) v = PDict (dict_set d k v)"
| "merge_key out key v = out"

text \<open>
  The second half of \<open>display_data_dict\<close>, after the loop over the keys: the rendering
  chosen by the output format is appended to the buffer. In the handler of the template's
  \<open>KeyError\<close> the variable \<open>key\<close> is the last key of the loop, and is unbound when the loop
  had no key.
\<close>

definition display_dict_output ::
  "env \<Rightarrow> pydict \<Rightarrow> pyval \<Rightarrow> string list \<Rightarrow> pyval \<Rightarrow> string list \<Rightarrow> pyval option
     \<Rightarrow> 's getjson \<Rightarrow> error option \<times> 's getjson" where
  "display_dict_output E table context aSpec out_json out_text key t =
     (if printf_format (switches t) aSpec then
        (case display_templated_text E (dict_get (switches t) ''template'') table of
           Inr text \<Rightarrow> (None, t\<lparr>output_lines := output_lines t @ [text]\<rparr>)
         | Inl e \<Rightarrow>
             if e = KeyError
             then (case key of
                     None \<Rightarrow> (Some NameError, t)
                   | Some k \<Rightarrow> (None, add_flag key_error k t))
             else (Some e, t))
      else if json_format aSpec then
        (case get_json_indent E (switches t) aSpec of
           Inl e \<Rightarrow> (Some e, t)
         | Inr indent \<Rightarrow>
             (None, t\<lparr>output_lines := output_lines t @ [json_dumps E out_json indent]\<rparr>))
      else if table_format (switches t) aSpec \<or> is_list context then
        (None, t\<lparr>output_lines := output_lines t @ [join [tab] out_text]\<rparr>)
      else (None, t\<lparr>output_lines := output_lines t @ out_text\<rparr>))"

text \<open>
  The branch of \<open>display_data_list\<close> for a selected item that is not parsed further: a
  list is joined with tabs into one line, any other value is rendered by \<open>add_output\<close>.
\<close>

definition display_item :: "env \<Rightarrow> pyval \<Rightarrow> 's getjson \<Rightarrow> error option \<times> 's getjson" where
  "display_item E item t =
     (case item of
        PList xs \<Rightarrow>
          (case str_items xs of
             Inl e \<Rightarrow> (Some e, t)
           | Inr ss \<Rightarrow> (None, t\<lparr>output_lines := output_lines t @ [join [tab] ss]\<rparr>))
      | _ \<Rightarrow> add_output E item t)"

text \<open>
  \<open>display_data\<close>, \<open>display_data_dict\<close> and \<open>display_data_list\<close>, with the loop of
  \<open>display_data_dict\<close> over the keys as \<open>display_keys\<close>. The loop carries the accumulator
  \<open>out\<close> (a value for the JSON rendering, lines for the others) and the last key it took
  up; \<open>n\<close> is the number of keys and \<open>paired\<close> tells whether lines are key and value
  pairs. \<open>display_data_dict\<close> catches the \<open>KeyError\<close> that ends the loop and flags the
  key.
\<close>

function
  display_data ::
    "env \<Rightarrow> pyval \<Rightarrow> pyval \<Rightarrow> pyval \<Rightarrow> nat \<Rightarrow> 's getjson \<Rightarrow> error option \<times> 's getjson"
  and display_data_dict ::
    "env \<Rightarrow> pydict \<Rightarrow> pyval \<Rightarrow> pyval \<Rightarrow> pyval \<Rightarrow> nat \<Rightarrow> 's getjson
       \<Rightarrow> error option \<times> 's getjson"
  and display_keys ::
    "env \<Rightarrow> pydict \<Rightarrow> pyval \<Rightarrow> pyval \<Rightarrow> nat \<Rightarrow> string list \<Rightarrow> nat \<Rightarrow> bool \<Rightarrow> pyval list
       \<Rightarrow> pyval \<times> string list \<times> pyval option \<Rightarrow> 's getjson
       \<Rightarrow> error option \<times> (pyval \<times> string list \<times> pyval option) \<times> 's getjson"
  and display_data_list ::
    "env \<Rightarrow> pyval list \<Rightarrow> pyval \<Rightarrow> pyval \<Rightarrow> nat \<Rightarrow> 's getjson \<Rightarrow> error option \<times> 's getjson"
where
  "display_data E table context parse depth t =
     (case table of
        PDict d \<Rightarrow>
          display_data_dict E d context parse (data_keys (switches t)) (depth + 1) t
      | PList xs \<Rightarrow> display_data_list E xs context parse (depth + 1) t
      | PNone \<Rightarrow> (if depth > 1 then add_output E table t else (None, t))
      | _ \<Rightarrow> add_output E table t)"
| "display_data_dict E table context parse keys depth t =
     (case listed_keys table keys of
        Inl e \<Rightarrow> (Some e, t)
      | Inr l_keys \<Rightarrow>
          (case output_spec t of
             Inl e \<Rightarrow> (Some e, t)
           | Inr aSpec \<Rightarrow>
               (case display_keys E table context parse depth aSpec (length l_keys)
                       (table_format (switches t) aSpec \<or> length l_keys > 1) l_keys
                       (PDict [], [], None) t of
                  (None, (out_json, out_text, key), t1) \<Rightarrow>
                    display_dict_output E table context aSpec out_json out_text key t1
                | (Some e, (out_json, out_text, key), t1) \<Rightarrow>
                    if e = KeyError
                    then display_dict_output E table context aSpec out_json out_text key
                           (add_flag key_error (case key of None \<Rightarrow> PNone | Some k \<Rightarrow> k) t1)
                    else (Some e, t1))))"
| "display_keys E table context parse depth aSpec n paired [] st t = (None, st, t)"
| "display_keys E table context parse depth aSpec n paired (key # keys) st t =
     (case subscript table key of
        Inl e \<Rightarrow> (Some e, (fst st, fst (snd st), Some key), t)
      | Inr v \<Rightarrow>
          if json_format aSpec then
            display_keys E table context parse depth aSpec n paired keys
              (if \<not> switched (switches t) ''without-key'' False
               then merge_key (fst st) key v else v,
               fst (snd st), Some key) t
          else if n < 2 \<and> is_list v then
            (case display_data_list E (py_iter v) context parse (depth + 1) t of
               (Some e, t1) \<Rightarrow> (Some e, (fst st, fst (snd st), Some key), t1)
             | (None, t1) \<Rightarrow>
                 display_keys E table context parse depth aSpec n paired keys
                   (fst st, fst (snd st), Some key) t1)
          else if n < 2 \<and> (case v of PDict d \<Rightarrow> True | _ \<Rightarrow> False) then
            (case display_data_dict E (case v of PDict d \<Rightarrow> d | _ \<Rightarrow> []) context parse
                    PNone (depth + 1) t of
               (Some e, t1) \<Rightarrow> (Some e, (fst st, fst (snd st), Some key), t1)
             | (None, t1) \<Rightarrow>
                 display_keys E table context parse depth aSpec n paired keys
                   (fst st, fst (snd st), Some key) t1)
          else
            display_keys E table context parse depth aSpec n paired keys
              (fst st, fst (snd st) @ get_output E aSpec v key paired, Some key) t)"
| "display_data_list E [] context parse depth t = (None, t)"
| "display_data_list E (item # items) context parse depth t =
     (case selected E (switches t) of
        Inl e \<Rightarrow> (Some e, t)
      | Inr ok \<Rightarrow>
          (case ok item of
             Inl e \<Rightarrow> (Some e, t)
           | Inr keep \<Rightarrow>
               if keep then
                 (case (if truthy parse
                        then display_data E item context (PInt 0) (depth + 1) t
                        else display_item E item t) of
                    (Some e, t1) \<Rightarrow> (Some e, t1)
                  | (None, t1) \<Rightarrow> display_data_list E items context parse depth t1)
               else display_data_list E items context parse depth t))"
  by pat_completeness auto

text \<open>
  The calls descend into the values of the table or the items of the list, and the loop
  over the keys goes down its list of keys.
\<close>

lemma size_map_of: "map_of d k = Some v \<Longrightarrow> size v < Suc (size_list (size_prod (\<lambda>x. 0) size) d)"
  by (induction d) (auto split: if_splits)

lemma size_subscript: "subscript table key = Inr v \<Longrightarrow> size v < Suc (size_list (size_prod (\<lambda>x. 0) size) table)"
  by (auto simp: subscript_def size_map_of split: pyval.splits option.splits)

lemma subscript_list_smaller:
  "subscript table key = Inr b \<Longrightarrow> is_list b \<Longrightarrow>
   size_list size (py_iter b) < size_list (size_prod (\<lambda>x. 0) size) table"
  by (cases b) (auto dest: size_subscript)

lemma subscript_dict_smaller:
  "subscript table key = Inr b \<Longrightarrow> (case b of PDict d \<Rightarrow> True | _ \<Rightarrow> False) \<Longrightarrow>
   size_list (size_prod (\<lambda>x. 0) size) (case b of PDict d \<Rightarrow> d | _ \<Rightarrow> [])
     < size_list (size_prod (\<lambda>x. 0) size) table"
  by (cases b) (auto dest: size_subscript)

termination display_data
  apply (relation "inv_image (less_than <*lex*> less_than <*lex*> less_than)
     (\<lambda>x. case x of
        Inl (Inl (E, table, context, parse, depth, t)) \<Rightarrow> (size table, 2::nat, 0::nat)
      | Inl (Inr (E, table, context, parse, keys, depth, t)) \<Rightarrow> (size (PDict table), 1, 0)
      | Inr (Inl (E, table, context, parse, depth, aSpec, n, paired, keys, st, t)) \<Rightarrow>
          (size (PDict table), 0, length keys)
      | Inr (Inr (E, items, context, parse, depth, t)) \<Rightarrow> (size (PList items), 0, 0))")
  apply (auto simp: subscript_list_smaller subscript_dict_smaller)
  done

text \<open>The equations are unfolded on demand only.\<close>

declare display_data.simps [simp del]
declare display_data_dict.simps [simp del]
declare display_keys.simps [simp del]
declare display_data_list.simps [simp del]


text \<open>
  The property \<open>json\<close>: the store is created on first use, with the options read from the
  switches.
\<close>

definition json_store :: "'s json_ops \<Rightarrow> 's getjson \<Rightarrow> 's \<times> 's getjson" where
  "json_store J t =
     (case json t of
        Some s \<Rightarrow> (s, t)
      | None \<Rightarrow>
          (let s = new_store J (wants_splat t) (wants_cascade t)
           in (s, t\<lparr>json := Some s\<rparr>)))"

text \<open>\<open>self.json.accept(lines, screen)\<close>, with the call recorded.\<close>

definition store_accept ::
  "'s json_ops \<Rightarrow> bool \<Rightarrow> string list \<Rightarrow> 's getjson \<Rightarrow> error option \<times> 's getjson" where
  "store_accept J screen lines t =
     (case json_store J t of
        (s, t0) \<Rightarrow>
          (case accept J screen lines s of
             (r, s') \<Rightarrow>
               (r, t0\<lparr>json := Some s', accept_calls := accept_calls t0 @ [screen]\<rparr>)))"

text \<open>\<open>self.json.select_where(self.selected)\<close>.\<close>

definition store_select_where ::
  "'s json_ops \<Rightarrow> env \<Rightarrow> 's getjson \<Rightarrow> error option \<times> 's getjson" where
  "store_select_where J E t =
     (case json_store J t of
        (s, t0) \<Rightarrow>
          (case selected E (switches t0) of
             Inl e \<Rightarrow> (Some e, t0)
           | Inr ok \<Rightarrow>
               (case select_where J ok s of
                  (r, s') \<Rightarrow> (r, t0\<lparr>json := Some s'\<rparr>))))"

text \<open>\<open>table = self.json.allData\<close>.\<close>

definition store_allData :: "'s json_ops \<Rightarrow> 's getjson \<Rightarrow> pyval \<times> 's getjson" where
  "store_allData J t = (case json_store J t of (s, t0) \<Rightarrow> (allData J s, t0))"

text \<open>
  The statements of the \<open>try\<close> block of \<open>get_json_input\<close> that work on the store:
  the lines read are accepted directly and the \<open>where\<close> filter is applied.
\<close>

definition direct_pass ::
  "'s json_ops \<Rightarrow> env \<Rightarrow> string list \<Rightarrow> 's getjson \<Rightarrow> error option \<times> 's getjson" where
  "direct_pass J E lines t =
     (case store_accept J False lines t of
        (Some e, t1) \<Rightarrow> (Some e, t1)
      | (None, t1) \<Rightarrow> store_select_where J E t1)"

text \<open>
  The handler of \<open>JSONDecodeError\<close> in \<open>get_json_input\<close>: the same lines are accepted again
  with \<open>screen=True\<close>. An exception raised here leaves \<open>get_json_input\<close>.
\<close>

definition screen_pass ::
  "'s json_ops \<Rightarrow> env \<Rightarrow> string list \<Rightarrow> 's getjson \<Rightarrow> (error + pyval) \<times> 's getjson" where
  "screen_pass J E lines t =
     (case store_accept J True lines t of
        (Some e, t1) \<Rightarrow> (Inl e, t1)
      | (None, t1) \<Rightarrow>
          (case store_select_where J E t1 of
             (Some e, t2) \<Rightarrow> (Inl e, t2)
           | (None, t2) \<Rightarrow>
               (case store_allData J t2 of (table, t3) \<Rightarrow> (Inr table, t3))))"

text \<open>
  The \<open>try\<close> statement of \<open>get_json_input\<close>: the table is read after the direct pass, or
  after the screen pass when the direct pass raises \<open>JSONDecodeError\<close>; any other exception
  leaves \<open>get_json_input\<close>.
\<close>

definition read_table ::
  "'s json_ops \<Rightarrow> env \<Rightarrow> string list \<Rightarrow> 's getjson \<Rightarrow> (error + pyval) \<times> 's getjson" where
  "read_table J E lines t =
     (case direct_pass J E lines t of
        (Some e, t1) \<Rightarrow>
          if e = JSONDecodeError then screen_pass J E lines t1 else (Inl e, t1)
      | (None, t1) \<Rightarrow>
          (case store_allData J t1 of (table, t2) \<Rightarrow> (Inr table, t2)))"

text \<open>The value of a \<open>bool\<close> or an \<open>int\<close> as an integer.\<close>

fun int_value :: "pyval \<Rightarrow> int option" where
  "int_value (PInt n) = Some n"
| "int_value (PBool b) = Some (if b then 1 else 0)"
| "int_value _ = None"

fun is_number :: "pyval \<Rightarrow> bool" where
  "is_number (PInt n) = True"
| "is_number (PBool b) = True"
| "is_number (PFloat f) = True"
| "is_number _ = False"

text \<open>
  \<open>a + b\<close>: strings and lists are concatenated, integers added; a sum of numbers with a
  \<open>float\<close> among them is not modelled; any other pair of operands is a \<open>TypeError\<close>.
\<close>

definition py_add :: "pyval \<Rightarrow> pyval \<Rightarrow> error + pyval" where
  "py_add a b =
     (case (a, b) of
        (PStr x, PStr y) \<Rightarrow> Inr (PStr (x @ y))
      | (PList x, PList y) \<Rightarrow> Inr (PList (x @ y))
      | _ \<Rightarrow>
          (case (int_value a, int_value b) of
             (Some m, Some n) \<Rightarrow> Inr (PInt (m + n))
           | _ \<Rightarrow> if is_number a \<and> is_number b then Inl NotModelled else Inl TypeError))"

text \<open>
  The \<open>key+\<close> switch of \<open>get_json_input\<close>: the value of \<open>value+\<close> is appended to the value
  that the table has for the key, or the value of \<open>value:\<close> replaces it.
\<close>

definition extend_table :: "pydict \<Rightarrow> pyval \<Rightarrow> error + pyval" where
  "extend_table sw table =
     (if switched sw ''key+'' False then
        (case table of
           PDict d \<Rightarrow>
             (case dict_get sw ''key+'' of
                PList _ \<Rightarrow> Inl TypeError
              | PDict _ \<Rightarrow> Inl TypeError
              | PStr key \<Rightarrow>
                  (let plus = dict_get sw ''value+'';
                       old_value = (if plus = PNone then PNone else dict_get d key);
                       new_value = (if plus = PNone then dict_get sw ''value:'' else plus)
                   in case (if old_value = PNone then Inr new_value
                            else if is_list old_value \<and> \<not> is_list new_value
                            then Inr (PList (py_iter old_value @ [new_value]))
                            else py_add old_value new_value) of
                        Inl e \<Rightarrow> Inl e
                      | Inr value \<Rightarrow> Inr (PDict (dict_set d key value)))
              | _ \<Rightarrow> Inl NotModelled)
         | _ \<Rightarrow> Inl AttributeError)
      else Inr table)"

text \<open>The \<open>into\<close> switch of \<open>get_json_input\<close>: the table becomes the value of one key.\<close>

definition wrap_table :: "pydict \<Rightarrow> pyval \<Rightarrow> error + pyval" where
  "wrap_table sw table =
     (if switched sw ''into'' False then
        (case dict_get sw ''into'' of
           PStr key \<Rightarrow> Inr (PDict [(key, table)])
         | PList _ \<Rightarrow> Inl TypeError
         | PDict _ \<Rightarrow> Inl TypeError
         | _ \<Rightarrow> Inl NotModelled)
      else Inr table)"

text \<open>\<open>ADPNGetJSON.get_json_input()\<close>, on the lines read from the input.\<close>

definition get_json_input ::
  "'s json_ops \<Rightarrow> env \<Rightarrow> string list \<Rightarrow> 's getjson \<Rightarrow> (error + pyval) \<times> 's getjson" where
  "get_json_input J E lines t =
     (case read_table J E lines t of
        (Inl e, t1) \<Rightarrow> (Inl e, t1)
      | (Inr table, t1) \<Rightarrow>
          (case extend_table (switches t1) table of
             Inl e \<Rightarrow> (Inl e, t1)
           | Inr table1 \<Rightarrow>
               (case wrap_table (switches t1) table1 of
                  Inl e \<Rightarrow> (Inl e, t1)
                | Inr table2 \<Rightarrow> (Inr table2, t1))))"

text \<open>\<open>format_line(line)\<close>: the line with the prolog and the epilog that are asked for.\<close>

definition format_line :: "'s json_ops \<Rightarrow> 's getjson \<Rightarrow> string \<Rightarrow> string" where
  "format_line J t line =
     (let out1 = (if \<not> switched (switches t) ''prolog'' False then line
                  else add_prolog J (fst (json_store J t)) line)
      in if \<not> switched (switches t) ''epilog'' False then out1 else out1 @ [newline])"

text \<open>
  \<open>ADPNDataConverter.write_output(template, end)\<close> on the lines of the buffer, with the
  default delimiter and no filter: nothing is printed for an empty buffer.
\<close>

definition write_output ::
  "(string \<Rightarrow> string) \<Rightarrow> string \<Rightarrow> string list \<Rightarrow> 'a tool_scheme \<Rightarrow> 'a tool_scheme" where
  "write_output tmpl end out t =
     (let fmt = map tmpl out
      in if length fmt > 0 then print Stdout (join [newline] fmt) end t else t)"

text \<open>
  The formatting pass that ends the \<open>try\<close> block of \<open>execute\<close>: the buffer is handed to an
  \<open>ADPNDataConverter\<close> and printed by its \<open>write_output\<close>, with \<open>format_line\<close> as the
  template and the terminator of \<open>get_output_terminator()\<close> as the end of the print.
\<close>

definition emit :: "'s json_ops \<Rightarrow> 's getjson \<Rightarrow> error option \<times> 's getjson" where
  "emit J t =
     (case get_output_terminator t of
        Inl e \<Rightarrow> (Some e, t)
      | Inr end \<Rightarrow> (None, write_output (format_line J t) end (output_lines t) t))"

text \<open>
  The \<open>try\<close> block of the query branch of \<open>execute\<close>: read the table, render it into the
  buffer, print the buffer.
\<close>

definition query ::
  "'s json_ops \<Rightarrow> env \<Rightarrow> string list \<Rightarrow> 's getjson \<Rightarrow> error option \<times> 's getjson" where
  "query J E lines t =
     (case get_json_input J E lines t of
        (Inl e, t1) \<Rightarrow> (Some e, t1)
      | (Inr table, t1) \<Rightarrow>
          (case display_data E table table (dict_get (switches t1) ''parse'') 0 t1 of
             (Some e, t2) \<Rightarrow> (Some e, t2)
           | (None, t2) \<Rightarrow> emit J t2))"

text \<open>
  The loop of \<open>execute\<close> over the flagged decode errors: unless \<open>quiet\<close> is switched, each
  is reported by \<open>write_error\<close> with code 2. Only a \<open>str\<close> has the method \<open>strip\<close>.
\<close>

fun report_json_errors :: "pyval list \<Rightarrow> 's getjson \<Rightarrow> error option \<times> 's getjson" where
  "report_json_errors [] t = (None, t)"
| "report_json_errors (err # errs) t =
     (if \<not> switched (switches t) ''quiet'' False then
        (case err of
           PStr s \<Rightarrow>
             (case write_error (Some 2)
                     (''JSON encoding error. Could not extract data or key-value pairs ''
                        @ ''from the provided data: '' @ [CHR 0x27] @ strip s @ [CHR 0x27])
                     [] t of
                (Some e, t1) \<Rightarrow> (Some e, t1)
              | (None, t1) \<Rightarrow> report_json_errors errs t1)
         | _ \<Rightarrow> (Some AttributeError, t))
      else report_json_errors errs t)"

text \<open>\<open>display_usage\<close> and \<open>display_version\<close>, ending with the \<open>exit\<close> of \<open>ADPNGetJSON\<close>.\<close>

definition getjson_display_usage :: "env \<Rightarrow> 's getjson \<Rightarrow> ending \<times> 's getjson" where
  "getjson_display_usage E t =
     (case exitcode_setter 0 (print Stdout (usage E) [newline] t) of
        (Some e, t') \<Rightarrow> (Uncaught (Raised e), t')
      | (None, t') \<Rightarrow> getjson_exit t')"

definition getjson_display_version :: "env \<Rightarrow> 's getjson \<Rightarrow> ending \<times> 's getjson" where
  "getjson_display_version E t =
     (case exitcode_setter 0
             (print Stdout (scriptname t @ '' version '' @ version E) [newline] t) of
        (Some e, t') \<Rightarrow> (Uncaught (Raised e), t')
      | (None, t') \<Rightarrow> getjson_exit t')"

text \<open>
  \<open>ADPNGetJSON.execute(terminate)\<close>. Of the three modes of the script the query mode is
  modelled; a run in the other two (\<open>--regex\<close>, and \<open>--key\<close> together with \<open>--value\<close>) is
  marked as not modelled.
\<close>

definition getjson_execute ::
  "'s json_ops \<Rightarrow> env \<Rightarrow> string list \<Rightarrow> bool \<Rightarrow> 's getjson \<Rightarrow> ending \<times> 's getjson" where
  "getjson_execute J E lines terminate t =
     (if switched (switches t) ''help'' False then getjson_display_usage E t
      else if switched (switches t) ''version'' False then getjson_display_version E t
      else if switched (switches t) ''regex'' False
              \<or> (switched (switches t) ''key'' False \<and> switched (switches t) ''value'' True)
      then (Uncaught (Raised NotModelled), t)
      else
        (case (case query J E lines t of
                 (None, t1) \<Rightarrow> (None, t1)
               | (Some e, t1) \<Rightarrow>
                   if e = JSONDecodeError
                   then (case json_store J t1 of
                           (s, t2) \<Rightarrow> (None, add_flag json_error (raw J s) t2))
                   else (Some e, t1)) of
           (Some e, t3) \<Rightarrow> (Uncaught (Raised e), t3)
         | (None, t3) \<Rightarrow>
             (case report_json_errors (flags t3 json_error) t3 of
                (Some e, t4) \<Rightarrow> (Uncaught (Raised e), t4)
              | (None, t4) \<Rightarrow> if terminate then getjson_exit t4 else (Returned, t4))))"

text \<open>
  The exit code that the claim of the specification assigns to the accumulated flags:
  decode error before key error before output error before success.
\<close>

definition flag_code :: "(flag \<Rightarrow> pyval list) \<Rightarrow> int" where
  "flag_code fl =
     (if fl json_error \<noteq> [] then 2
      else if fl key_error \<noteq> [] then 1
      else if fl output_error \<noteq> [] then 254
      else 0)"

section \<open>The JSON Packet Store of the specification\<close>

definition dquote :: char where
  "dquote = CHR 0x22"

definition backslash :: char where
  "backslash = CHR 0x5C"

text \<open>
  Modelled from the spec: the extraction of screen mode, which is part of \<open>myPyJSON\<close>
  (module \<open>myLockssScripts\<close>, not among the sources at hand). The specification says:
  search the line for the first balanced \<open>{...}\<close> substring, accounting for nested braces
  and quoted strings; its design notes ask for a scanner that tracks the quote state and
  the brace depth character by character. \<open>balanced_span\<close> scans the text after an opening
  brace up to the brace that closes it; \<open>first_balanced\<close> tries the opening braces of
  the line from left to right.
\<close>

fun balanced_span :: "nat \<Rightarrow> bool \<Rightarrow> bool \<Rightarrow> string \<Rightarrow> string option" where
  "balanced_span depth quoted escaped [] = None"
| "balanced_span depth quoted escaped (c # cs) =
     (if quoted then
        map_option (Cons c)
          (balanced_span depth (escaped \<or> c \<noteq> dquote) (\<not> escaped \<and> c = backslash) cs)
      else if c = dquote then map_option (Cons c) (balanced_span depth True False cs)
      else if c = CHR ''{'' then map_option (Cons c) (balanced_span (depth + 1) False False cs)
      else if c = CHR ''}'' then
        (if depth \<le> 1 then Some [c]
         else map_option (Cons c) (balanced_span (depth - 1) False False cs))
      else map_option (Cons c) (balanced_span depth False False cs))"

fun first_balanced :: "string \<Rightarrow> string option" where
  "first_balanced [] = None"
| "first_balanced (c # cs) =
     (if c = CHR ''{'' then
        (case balanced_span 1 False False cs of
           Some found \<Rightarrow> Some (c # found)
         | None \<Rightarrow> first_balanced cs)
      else first_balanced cs)"

text \<open>
  Modelled from the spec: the shallow top-level merge of the Packet Store (part of
  \<open>myPyJSON\<close>, not among the sources at hand): the keys of the later packet override
  those of the earlier one.
\<close>

definition merge_packet :: "pydict \<Rightarrow> pydict \<Rightarrow> pydict" where
  "merge_packet earlier later = foldl (\<lambda>d kv. dict_set d (fst kv) (snd kv)) earlier later"

text \<open>
  Modelled from the spec: \<open>accept\<close> of the Packet Store (\<open>myPyJSON.accept\<close>, not among
  the sources at hand), on the packet accumulated so far and a flag telling whether a line
  has yielded JSON. Each line is parsed directly as JSON (\<open>loads\<close> stands for the decoder
  of the library, \<open>None\<close> for its decode error); in screen mode a line that fails is
  searched for its first balanced \<open>{...}\<close> substring, and contributes nothing if that
  fails too; outside screen mode the failure is a decode error. Each parsed object is
  merged into the packet. The specification does not say what a parsed value that is no
  object contributes: that case is marked as not modelled.
\<close>

fun spec_accept_lines ::
  "(string \<Rightarrow> pyval option) \<Rightarrow> bool \<Rightarrow> string list \<Rightarrow> bool \<times> pydict
     \<Rightarrow> error option \<times> bool \<times> pydict" where
  "spec_accept_lines loads screen [] acc = (None, acc)"
| "spec_accept_lines loads screen (line # lines) acc =
     (case (case loads line of
              Some v \<Rightarrow> Some v
            | None \<Rightarrow>
                if screen
                then (case first_balanced line of None \<Rightarrow> None | Some found \<Rightarrow> loads found)
                else None) of
        Some (PDict d) \<Rightarrow>
          spec_accept_lines loads screen lines (True, merge_packet (snd acc) d)
      | Some _ \<Rightarrow> (Some NotModelled, acc)
      | None \<Rightarrow>
          if screen then spec_accept_lines loads screen lines acc
          else (Some JSONDecodeError, acc))"

text \<open>
  Modelled from the spec: the whole of \<open>accept\<close> (\<open>myPyJSON.accept\<close>, not among the
  sources at hand): it fails with a decode error when no line yields valid JSON.
\<close>

definition spec_accept ::
  "(string \<Rightarrow> pyval option) \<Rightarrow> bool \<Rightarrow> string list \<Rightarrow> pydict \<Rightarrow> error option \<times> pydict" where
  "spec_accept loads screen lines packet =
     (case spec_accept_lines loads screen lines (False, packet) of
        (Some e, (_, p)) \<Rightarrow> (Some e, p)
      | (None, (found, p)) \<Rightarrow> if found then (None, p) else (Some JSONDecodeError, p))"

text \<open>
  Modelled from the spec: splat mode of the Packet Store (part of \<open>myPyJSON\<close>, not among
  the sources at hand): a value that is a single-element sequence is unwrapped to that
  element.
\<close>

fun splat_value :: "pyval \<Rightarrow> pyval" where
  "splat_value (PList [x]) = x"
| "splat_value v = v"

definition spec_allData :: "bool \<Rightarrow> pydict \<Rightarrow> pyval" where
  "spec_allData splat packet =
     PDict (if splat then map (\<lambda>kv. (fst kv, splat_value (snd kv))) packet else packet)"

section \<open>A decoder and a store for the examples\<close>

text \<open>
  A decoder for a fragment of JSON, for the examples: objects, arrays, strings with the
  two-character escapes, integers and the three literals. It answers \<open>None\<close> to every
  other text. The fuel bounds the number of nested calls.
\<close>

definition is_json_space :: "char \<Rightarrow> bool" where
  "is_json_space c = (c = CHR '' '' \<or> c = tab \<or> c = newline \<or> c = CHR 0x0D)"

definition skip_ws :: "string \<Rightarrow> string" where
  "skip_ws s = dropWhile is_json_space s"

fun decode_string :: "string \<Rightarrow> (string \<times> string) option" where
  "decode_string [] = None"
| "decode_string [c] = (if c = dquote then Some ([], []) else None)"
| "decode_string (c # d # cs) =
     (if c = dquote then Some ([], d # cs)
      else if c = backslash then
        (case (if d = CHR ''n'' then Some newline
               else if d = CHR ''t'' then Some tab
               else if d = CHR ''r'' then Some (CHR 0x0D)
               else if d = dquote \<or> d = backslash \<or> d = CHR ''/'' then Some d
               else None) of
           None \<Rightarrow> None
         | Some x \<Rightarrow> map_option (\<lambda>r. (x # fst r, snd r)) (decode_string cs))
      else map_option (\<lambda>r. (c # fst r, snd r)) (decode_string (d # cs)))"

definition decode_number :: "string \<Rightarrow> (pyval \<times> string) option" where
  "decode_number s =
     (let neg = (s \<noteq> [] \<and> hd s = CHR ''-'');
          body = (if neg then tl s else s);
          ds = takeWhile is_digit body;
          rest = dropWhile is_digit body
      in if ds = [] \<or> (length ds > 1 \<and> hd ds = CHR ''0'')
            \<or> (rest \<noteq> [] \<and> hd rest \<in> set ''.eE'')
         then None
         else Some (PInt ((if neg then - 1 else 1) * decimal_value ds), rest))"

fun decode_value :: "nat \<Rightarrow> string \<Rightarrow> (pyval \<times> string) option"
  and decode_items :: "nat \<Rightarrow> string \<Rightarrow> (pyval list \<times> string) option"
  and decode_members :: "nat \<Rightarrow> string \<Rightarrow> (pydict \<times> string) option" where
  "decode_value 0 s = None"
| "decode_value (Suc n) s =
     (case skip_ws s of
        [] \<Rightarrow> None
      | c # r \<Rightarrow>
          if c = CHR ''{'' then
            (case skip_ws r of
               [] \<Rightarrow> None
             | c' # r' \<Rightarrow>
                 if c' = CHR ''}'' then Some (PDict [], r')
                 else map_option (\<lambda>x. (PDict (merge_packet [] (fst x)), snd x))
                        (decode_members n r))
          else if c = CHR ''['' then
            (case skip_ws r of
               [] \<Rightarrow> None
             | c' # r' \<Rightarrow>
                 if c' = CHR '']'' then Some (PList [], r')
                 else map_option (\<lambda>x. (PList (fst x), snd x)) (decode_items n r))
          else if c = dquote then map_option (\<lambda>x. (PStr (fst x), snd x)) (decode_string r)
          else if take 4 (c # r) = ''true'' then Some (PBool True, drop 4 (c # r))
          else if take 5 (c # r) = ''false'' then Some (PBool False, drop 5 (c # r))
          else if take 4 (c # r) = ''null'' then Some (PNone, drop 4 (c # r))
          else decode_number (c # r))"
| "decode_items 0 s = None"
| "decode_items (Suc n) s =
     (case decode_value n s of
        None \<Rightarrow> None
      | Some (v, r) \<Rightarrow>
          (case skip_ws r of
             [] \<Rightarrow> None
           | c # r' \<Rightarrow>
               if c = CHR '','' then map_option (\<lambda>x. (v # fst x, snd x)) (decode_items n r')
               else if c = CHR '']'' then Some ([v], r')
               else None))"
| "decode_members 0 s = None"
| "decode_members (Suc n) s =
     (case skip_ws s of
        [] \<Rightarrow> None
      | c # r \<Rightarrow>
          if c = dquote then
            (case decode_string r of
               None \<Rightarrow> None
             | Some (k, r1) \<Rightarrow>
                 (case skip_ws r1 of
                    [] \<Rightarrow> None
                  | c1 # r2 \<Rightarrow>
                      if c1 = CHR '':'' then
                        (case decode_value n r2 of
                           None \<Rightarrow> None
                         | Some (v, r3) \<Rightarrow>
                             (case skip_ws r3 of
                                [] \<Rightarrow> None
                              | c3 # r4 \<Rightarrow>
                                  if c3 = CHR '','' then
                                    map_option (\<lambda>x. ((k, v) # fst x, snd x))
                                      (decode_members n r4)
                                  else if c3 = CHR ''}'' then Some ([(k, v)], r4)
                                  else None))
                      else None))
          else None)"

definition decode_json :: "string \<Rightarrow> pyval option" where
  "decode_json s =
     (case decode_value (Suc (length s)) s of
        None \<Rightarrow> None
      | Some (v, r) \<Rightarrow> if skip_ws r = [] then Some v else None)"

text \<open>
  The store of the examples: a state made of the \<open>splat\<close> option, the text last
  accepted and the accumulated packet, with \<open>accept\<close> and \<open>allData\<close> as the
  specification describes them. A packet that is an object has no items to filter; the
  raw text is the text last accepted, and the prolog is empty.
\<close>

definition sample_store :: "(bool \<times> string \<times> pydict) json_ops" where
  "sample_store =
     \<lparr>new_store = (\<lambda>splat cascade. (splat, [], [])),
      accept = (\<lambda>screen lines s.
                  case spec_accept decode_json screen lines (snd (snd s)) of
                    (r, p) \<Rightarrow> (r, (fst s, join [newline] lines, p))),
      select_where = (\<lambda>ok s. (None, s)),
      allData = (\<lambda>s. spec_allData (fst s) (snd (snd s))),
      raw = (\<lambda>s. PStr (fst (snd s))),
      add_prolog = (\<lambda>s line. line)\<rparr>"

text \<open>
  \<open>ADPNGetJSON.__init__\<close>: the object of the base class, with an empty buffer, no flag
  and the default format \<open>text/plain\<close>.
\<close>

definition init_getjson :: "nat \<Rightarrow> string \<Rightarrow> pydict \<Rightarrow> error + 's getjson" where
  "init_getjson maxd name sw =
     (case init_tool maxd name sw of
        Inl e \<Rightarrow> Inl e
      | Inr t \<Rightarrow>
          Inr \<lparr>scriptname = scriptname t, switches = switches t, verbose = verbose t,
               debug = debug t, stored_exitcode = stored_exitcode t, stdout = stdout t,
               stderr = stderr t, output_lines = [], flags = (\<lambda>f. []),
               default_mime = ''text/plain'', json = None, accept_calls = []\<rparr>)"

section \<open>Inputs for the examples\<close>

text \<open>
  An \<open>ADPNGetJSON\<close> object as \<open>__init__\<close> leaves it for the given switches and no
  verbosity, with the store of the examples; and two lines of input: the packet
  \<open>{"a":1,"b":2}\<close>, and a packet inside other text.
\<close>

definition fresh_getjson :: "pydict \<Rightarrow> (bool \<times> string \<times> pydict) getjson" where
  "fresh_getjson sw =
     \<lparr>scriptname = ''adpn-json.py'', switches = sw, verbose = 0, debug = 0,
      stored_exitcode = 0, stdout = [], stderr = [], output_lines = [],
      flags = (\<lambda>f. []), default_mime = ''text/plain'', json = None, accept_calls = []\<rparr>"

definition packet_line :: string where
  "packet_line =
     ''{'' @ [dquote] @ ''a'' @ [dquote] @ '':1,'' @ [dquote] @ ''b'' @ [dquote] @ '':2}''"

definition noisy_line :: string where
  "noisy_line = ''Some noise {'' @ [dquote] @ ''k'' @ [dquote] @ '':1} trailing text''"

section \<open>Properties of the numeric conversion\<close>

lemma digit_not_space: "is_digit c \<Longrightarrow> \<not> is_int_space c"
  by (auto simp: is_digit_def is_int_space_def)

lemma digit_not_sign: "is_digit c \<Longrightarrow> c \<noteq> CHR ''-'' \<and> c \<noteq> CHR ''+'' \<and> c \<noteq> CHR ''_'' \<and> c \<noteq> CHR '',''"
  by (auto simp: is_digit_def)

lemma dropWhile_hd: "xs \<noteq> [] \<Longrightarrow> \<not> P (hd xs) \<Longrightarrow> dropWhile P xs = xs"
  by (cases xs) auto

lemma strip_digits:
  assumes "ds \<noteq> []" and "\<forall>c\<in>set ds. is_digit c"
  shows "int_strip ds = ds"
proof -
  have a: "dropWhile is_int_space ds = ds"
    using assms by (intro dropWhile_hd) (auto simp: digit_not_space)
  have "rev ds \<noteq> []" using assms by simp
  moreover have "\<not> is_int_space (hd (rev ds))"
    using assms by (simp add: hd_rev digit_not_space)
  ultimately have "dropWhile is_int_space (rev ds) = rev ds"
    by (rule dropWhile_hd)
  with a show ?thesis by (simp add: int_strip_def)
qed

lemma digit_groups_digits:
  "ds \<noteq> [] \<Longrightarrow> \<forall>c\<in>set ds. is_digit c \<Longrightarrow> digit_groups ds"
  by (induction ds rule: digit_groups.induct) (auto simp: digit_not_sign)

text \<open>
  \<open>int()\<close> of a string of digits is the number they denote, unless there are more digits
  than the interpreter converts.
\<close>

lemma int_of_str_digits:
  assumes "ds \<noteq> []" and "\<forall>c\<in>set ds. is_digit c"
  shows "int_of_str maxd ds
           = (if maxd \<noteq> 0 \<and> maxd < length ds then None else Some (decimal_value ds))"
proof -
  have h: "is_digit (hd ds)" using assms by (cases ds) auto
  have f: "filter is_digit ds = ds" using assms by (simp add: filter_id_conv)
  show ?thesis
    using assms h f digit_not_sign[OF h]
    by (simp add: int_of_str_def strip_digits digit_groups_digits Let_def)
qed

lemma match_number_comma_digits:
  assumes "ds \<noteq> []" and "\<forall>c\<in>set ds. is_digit c" and "line_tail r"
  shows "match_number_comma (ds @ CHR '','' # r) = Some ds"
proof -
  have t: "takeWhile is_digit (ds @ CHR '','' # r) = ds"
    using assms by (simp add: takeWhile_append2 is_digit_def)
  have d: "dropWhile is_digit (ds @ CHR '','' # r) = CHR '','' # r"
    using assms by (simp add: dropWhile_append2 is_digit_def)
  show ?thesis using assms by (simp add: match_number_comma_def t d)
qed

lemma match_number_comma_form:
  assumes "match_number_comma s = Some ds"
  shows "\<exists>r. s = ds @ CHR '','' # r \<and> ds \<noteq> [] \<and> (\<forall>c\<in>set ds. is_digit c) \<and> line_tail r"
proof -
  let ?rest = "dropWhile is_digit s"
  from assms have a: "ds = takeWhile is_digit s" "ds \<noteq> []" "?rest \<noteq> []"
    "hd ?rest = CHR '',''" "line_tail (tl ?rest)"
    by (auto simp: match_number_comma_def Let_def split: if_splits)
  have "s = ds @ ?rest" using a by simp
  moreover have "?rest = CHR '','' # tl ?rest" using a by (cases ?rest) auto
  moreover have "\<forall>c\<in>set ds. is_digit c" using a by (auto dest: set_takeWhileD)
  ultimately show ?thesis using a by metis
qed

text \<open>
  The pattern \<open>^([0-9]+)[,].*$\<close> matches exactly the strings made of one or more digits, a
  comma and a text without line feed before its last character.
\<close>

lemma match_number_comma_iff:
  "(match_number_comma s = Some ds)
     = (\<exists>r. s = ds @ CHR '','' # r \<and> ds \<noteq> [] \<and> (\<forall>c\<in>set ds. is_digit c) \<and> line_tail r)"
  using match_number_comma_form match_number_comma_digits by blast

lemma cnv_str_lit: "convertto_numeric_value maxd sw None (PStr s) =
   (case match_number_comma s of
      Some g \<Rightarrow> (case int_of_str maxd g of Some n \<Rightarrow> Inr n | None \<Rightarrow> Inr (if length g > 0 then 1 else 0))
    | None \<Rightarrow> (case int_of_str maxd s of Some n \<Rightarrow> Inr n | None \<Rightarrow> Inr (if length s > 0 then 1 else 0)))"
  by (simp add: convertto_numeric_value_def split: option.splits)

lemma match_empty: "match_number_comma [] = None"
  by (simp add: match_number_comma_def)

lemma int_of_str_empty: "int_of_str maxd [] = None"
  by (simp add: int_of_str_def int_strip_def)

text \<open>
  Claim C2, as amended. On an interpreter that converts strings of at most \<open>maxd\<close> digits
  (of any length when \<open>maxd\<close> is 0), \<open>convertto_numeric_value(v)\<close> returns: for an \<open>int\<close>,
  the number; for a \<open>bool\<close>, 0 or 1; for a finite \<open>float\<close>, the number truncated to an
  integer, while \<open>nan\<close> raises \<open>ValueError\<close> and an infinity \<open>OverflowError\<close>; for a string
  made of one or more digits, a comma and a text with no line feed other than a final
  one, the value of the leading digits, or 1 when there are more digits than the
  interpreter converts; for any other string, the integer that \<open>int()\<close> reads from it
  when \<open>int()\<close> accepts it, 1 when \<open>int()\<close> rejects it and it is not empty, 0 when it is
  empty; for \<open>None\<close>, 0; for a value of any other type (here a list or a dict),
  \<open>TypeError\<close>.
  A string is one of the first kind exactly when the pattern of the code matches it.
\<close>

theorem convertto_numeric_value_cases:
  "(v = PInt n \<longrightarrow> convertto_numeric_value maxd sw None v = Inr n)
   \<and> (v = PBool b \<longrightarrow> convertto_numeric_value maxd sw None v = Inr (if b then 1 else 0))
   \<and> (v = PFloat (Finite q) \<longrightarrow> convertto_numeric_value maxd sw None v = Inr (trunc_rat q))
   \<and> (v = PFloat NaN \<longrightarrow> convertto_numeric_value maxd sw None v = Inl ValueError)
   \<and> (v = PFloat PosInf \<or> v = PFloat NegInf \<longrightarrow>
        convertto_numeric_value maxd sw None v = Inl OverflowError)
   \<and> (ds \<noteq> [] \<and> (\<forall>c\<in>set ds. is_digit c) \<and> line_tail r \<and> v = PStr (ds @ CHR '','' # r) \<longrightarrow>
        convertto_numeric_value maxd sw None v
          = Inr (if maxd \<noteq> 0 \<and> maxd < length ds then 1 else decimal_value ds))
   \<and> ((match_number_comma s = None)
        = (\<forall>ds r. s = ds @ CHR '','' # r \<longrightarrow>
                    ds = [] \<or> (\<exists>c\<in>set ds. \<not> is_digit c) \<or> \<not> line_tail r))
   \<and> (v = PStr s \<and> match_number_comma s = None \<and> int_of_str maxd s = Some n \<longrightarrow>
        convertto_numeric_value maxd sw None v = Inr n)
   \<and> (v = PStr s \<and> match_number_comma s = None \<and> int_of_str maxd s = None \<and> s \<noteq> [] \<longrightarrow>
        convertto_numeric_value maxd sw None v = Inr 1)
   \<and> (v = PStr [] \<or> v = PNone \<longrightarrow> convertto_numeric_value maxd sw None v = Inr 0)
   \<and> (v \<noteq> PNone \<and> (\<forall>b. v \<noteq> PBool b) \<and> (\<forall>n. v \<noteq> PInt n) \<and> (\<forall>f. v \<noteq> PFloat f)
        \<and> (\<forall>s. v \<noteq> PStr s) \<longrightarrow>
        convertto_numeric_value maxd sw None v = Inl TypeError)"
proof -
  have 1: "convertto_numeric_value maxd sw None (PInt n) = Inr n"
    by (simp add: convertto_numeric_value_def match_empty)
  have 2: "convertto_numeric_value maxd sw None (PBool b) = Inr (if b then 1 else 0)"
    by (simp add: convertto_numeric_value_def match_empty)
  have 3: "convertto_numeric_value maxd sw None (PFloat f) = int_of_float f" for f
    by (simp add: convertto_numeric_value_def match_empty)
  have 4: "convertto_numeric_value maxd sw None (PStr (ds @ CHR '','' # r))
             = Inr (if maxd \<noteq> 0 \<and> maxd < length ds then 1 else decimal_value ds)"
    if "ds \<noteq> []" "\<forall>c\<in>set ds. is_digit c" "line_tail r"
    using that by (simp add: cnv_str_lit match_number_comma_digits int_of_str_digits)
  have 5: "(match_number_comma s = None)
        = (\<forall>ds r. s = ds @ CHR '','' # r \<longrightarrow>
                    ds = [] \<or> (\<exists>c\<in>set ds. \<not> is_digit c) \<or> \<not> line_tail r)"
  proof
    assume a: "match_number_comma s = None"
    show "\<forall>ds r. s = ds @ CHR '','' # r \<longrightarrow>
                    ds = [] \<or> (\<exists>c\<in>set ds. \<not> is_digit c) \<or> \<not> line_tail r"
    proof (intro allI impI)
      fix ds r assume s: "s = ds @ CHR '','' # r"
      show "ds = [] \<or> (\<exists>c\<in>set ds. \<not> is_digit c) \<or> \<not> line_tail r"
      proof (rule ccontr)
        assume "\<not> (ds = [] \<or> (\<exists>c\<in>set ds. \<not> is_digit c) \<or> \<not> line_tail r)"
        then have "match_number_comma (ds @ CHR '','' # r) = Some ds"
          by (intro match_number_comma_digits) auto
        with a s show False by simp
      qed
    qed
  next
    assume a: "\<forall>ds r. s = ds @ CHR '','' # r \<longrightarrow>
                    ds = [] \<or> (\<exists>c\<in>set ds. \<not> is_digit c) \<or> \<not> line_tail r"
    show "match_number_comma s = None"
    proof (cases "match_number_comma s")
      case None then show ?thesis .
    next
      case (Some ds)
      from match_number_comma_form [OF Some] a show ?thesis by blast
    qed
  qed
  have 6: "convertto_numeric_value maxd sw None (PStr s) = Inr n"
    if "match_number_comma s = None" "int_of_str maxd s = Some n"
    using that by (simp add: cnv_str_lit)
  have 7: "convertto_numeric_value maxd sw None (PStr s) = Inr 1"
    if "match_number_comma s = None" "int_of_str maxd s = None" "s \<noteq> []"
    using that by (simp add: cnv_str_lit)
  have 8: "convertto_numeric_value maxd sw None (PStr []) = Inr 0"
    by (simp add: cnv_str_lit match_empty int_of_str_empty)
  have 9: "convertto_numeric_value maxd sw None PNone = Inr 0"
    by (simp add: convertto_numeric_value_def match_empty)
  have 10: "convertto_numeric_value maxd sw None (PList xs) = Inl TypeError" for xs
    by (simp add: convertto_numeric_value_def match_empty)
  have 11: "convertto_numeric_value maxd sw None (PDict d) = Inl TypeError" for d
    by (simp add: convertto_numeric_value_def match_empty)
  have c1: "v = PInt n \<longrightarrow> convertto_numeric_value maxd sw None v = Inr n"
    using 1 by simp
  have c2: "v = PBool b \<longrightarrow> convertto_numeric_value maxd sw None v = Inr (if b then 1 else 0)"
    using 2 by simp
  have c3: "v = PFloat (Finite q) \<longrightarrow> convertto_numeric_value maxd sw None v = Inr (trunc_rat q)"
    by (simp add: 3)
  have c4: "v = PFloat NaN \<longrightarrow> convertto_numeric_value maxd sw None v = Inl ValueError"
    by (simp add: 3)
  have c5: "v = PFloat PosInf \<or> v = PFloat NegInf \<longrightarrow>
        convertto_numeric_value maxd sw None v = Inl OverflowError"
    by (auto simp: 3)
  have c6: "ds \<noteq> [] \<and> (\<forall>c\<in>set ds. is_digit c) \<and> line_tail r \<and> v = PStr (ds @ CHR '','' # r) \<longrightarrow>
        convertto_numeric_value maxd sw None v
          = Inr (if maxd \<noteq> 0 \<and> maxd < length ds then 1 else decimal_value ds)"
    using 4 by blast
  have c8: "v = PStr s \<and> match_number_comma s = None \<and> int_of_str maxd s = Some n \<longrightarrow>
        convertto_numeric_value maxd sw None v = Inr n"
    using 6 by blast
  have c9: "v = PStr s \<and> match_number_comma s = None \<and> int_of_str maxd s = None \<and> s \<noteq> [] \<longrightarrow>
        convertto_numeric_value maxd sw None v = Inr 1"
    using 7 by blast
  have c10: "v = PStr [] \<or> v = PNone \<longrightarrow> convertto_numeric_value maxd sw None v = Inr 0"
    using 8 9 by blast
  have c11: "v \<noteq> PNone \<and> (\<forall>b. v \<noteq> PBool b) \<and> (\<forall>n. v \<noteq> PInt n) \<and> (\<forall>f. v \<noteq> PFloat f)
        \<and> (\<forall>s. v \<noteq> PStr s) \<longrightarrow>
        convertto_numeric_value maxd sw None v = Inl TypeError"
    using 10 11 by (cases v) auto
  from c1 c2 c3 c4 c5 c6 5 c8 c9 c10 c11 show ?thesis
    by (intro conjI)
qed

theorem convertto_numeric_value_cases_witness:
  "convertto_numeric_value 4300 [] None (PInt 5) = Inr 5
   \<and> convertto_numeric_value 4300 [] None (PBool True) = Inr 1
   \<and> convertto_numeric_value 4300 [] None (PFloat (Finite (5 / 2))) = Inr 2
   \<and> convertto_numeric_value 4300 [] None (PFloat NaN) = Inl ValueError
   \<and> convertto_numeric_value 4300 [] None (PFloat PosInf) = Inl OverflowError
   \<and> convertto_numeric_value 4300 [] None (PStr ''3,ignored'') = Inr 3
   \<and> convertto_numeric_value 4300 [] None (PStr (replicate 4301 (CHR ''1'') @ '',x'')) = Inr 1
   \<and> convertto_numeric_value 0 [] None (PStr (replicate 4301 (CHR ''1'') @ '',x''))
       = Inr (decimal_value (replicate 4301 (CHR ''1'')))
   \<and> match_number_comma ''abc'' = None
   \<and> convertto_numeric_value 4300 [] None (PStr '' 42 '') = Inr 42
   \<and> convertto_numeric_value 4300 [] None (PStr ''abc'') = Inr 1
   \<and> convertto_numeric_value 4300 [] None (PStr []) = Inr 0
   \<and> convertto_numeric_value 4300 [] None PNone = Inr 0
   \<and> convertto_numeric_value 4300 [] None (PList []) = Inl TypeError
   \<and> convertto_numeric_value 4300 [] None (PDict [(''verbose'', PInt 1)]) = Inl TypeError"
proof -
  have d: "decimal_value ''3'' = 3" by code_simp
  have l: "line_tail ''ignored''" by code_simp
  have lx: "line_tail ''x''" by code_simp
  have g: "\<forall>c\<in>set ''3''. is_digit c" by (simp add: is_digit_def)
  have gr: "\<forall>c\<in>set (replicate 4301 (CHR ''1'')). is_digit c" by (simp add: is_digit_def)
  have nr: "replicate 4301 (CHR ''1'') \<noteq> []" by simp
  have i: "int_of_str 4300 ''abc'' = None" by code_simp
  have j: "int_of_str 4300 '' 42 '' = Some 42" by code_simp
  have t: "trunc_rat (5 / 2) = 2" by code_simp
  have 1: "convertto_numeric_value 4300 [] None (PInt 5) = Inr 5"
    using convertto_numeric_value_cases [where v = "PInt 5" and n = 5 and sw = "[]"] by simp
  have 2: "convertto_numeric_value 4300 [] None (PBool True) = Inr 1"
    using convertto_numeric_value_cases [where v = "PBool True" and b = True and sw = "[]"]
    by simp
  have 3: "convertto_numeric_value 4300 [] None (PFloat (Finite (5 / 2))) = Inr 2"
    using convertto_numeric_value_cases [where v = "PFloat (Finite (5 / 2))" and q = "5 / 2"
        and sw = "[]" and maxd = 4300] t
    by simp
  have 4: "convertto_numeric_value 4300 [] None (PFloat NaN) = Inl ValueError"
    using convertto_numeric_value_cases [where v = "PFloat NaN" and sw = "[]"] by simp
  have 5: "convertto_numeric_value 4300 [] None (PFloat PosInf) = Inl OverflowError"
    using convertto_numeric_value_cases [where v = "PFloat PosInf" and sw = "[]"] by simp
  have 6: "convertto_numeric_value 4300 [] None (PStr ''3,ignored'') = Inr 3"
    using convertto_numeric_value_cases [where v = "PStr ''3,ignored''" and ds = "''3''"
        and r = "''ignored''" and sw = "[]" and maxd = 4300] d l g
    by simp
  have 7: "convertto_numeric_value 4300 [] None (PStr (replicate 4301 (CHR ''1'') @ '',x'')) = Inr 1"
    using convertto_numeric_value_cases [where v = "PStr (replicate 4301 (CHR ''1'') @ '',x'')"
        and ds = "replicate 4301 (CHR ''1'')" and r = "''x''" and sw = "[]" and maxd = 4300]
      lx gr nr
    by simp
  have 8: "convertto_numeric_value 0 [] None (PStr (replicate 4301 (CHR ''1'') @ '',x''))
       = Inr (decimal_value (replicate 4301 (CHR ''1'')))"
    using convertto_numeric_value_cases [where v = "PStr (replicate 4301 (CHR ''1'') @ '',x'')"
        and ds = "replicate 4301 (CHR ''1'')" and r = "''x''" and sw = "[]" and maxd = 0]
      lx gr nr
    by simp
  have m: "match_number_comma ''abc'' = None"
  proof -
    have "\<forall>ds r. ''abc'' = ds @ CHR '','' # r \<longrightarrow>
                    ds = [] \<or> (\<exists>c\<in>set ds. \<not> is_digit c) \<or> \<not> line_tail r"
    proof (intro allI impI)
      fix ds r assume e: "''abc'' = ds @ CHR '','' # r"
      have "CHR '','' \<in> set (ds @ CHR '','' # r)" by simp
      then have "CHR '','' \<in> set ''abc''" using e by simp
      then show "ds = [] \<or> (\<exists>c\<in>set ds. \<not> is_digit c) \<or> \<not> line_tail r" by simp
    qed
    then show ?thesis
      using convertto_numeric_value_cases [where s = "''abc''"] by blast
  qed
  have m2: "match_number_comma '' 42 '' = None" by code_simp
  have 9: "convertto_numeric_value 4300 [] None (PStr '' 42 '') = Inr 42"
    using convertto_numeric_value_cases [where v = "PStr '' 42 ''" and s = "'' 42 ''"
        and sw = "[]" and maxd = 4300 and n = 42] m2 j
    by simp
  have 10: "convertto_numeric_value 4300 [] None (PStr ''abc'') = Inr 1"
    using convertto_numeric_value_cases [where v = "PStr ''abc''" and s = "''abc''"
        and sw = "[]" and maxd = 4300] m i
    by simp
  have 11: "convertto_numeric_value 4300 [] None (PStr []) = Inr 0"
    using convertto_numeric_value_cases [where v = "PStr []" and sw = "[]"] by simp
  have 12: "convertto_numeric_value 4300 [] None PNone = Inr 0"
    using convertto_numeric_value_cases [where v = "PNone" and sw = "[]"] by simp
  have 13: "convertto_numeric_value 4300 [] None (PList []) = Inl TypeError"
    using convertto_numeric_value_cases [where v = "PList []" and sw = "[]"]
    by simp
  have 14: "convertto_numeric_value 4300 [] None (PDict [(''verbose'', PInt 1)]) = Inl TypeError"
    using convertto_numeric_value_cases [where v = "PDict [(''verbose'', PInt 1)]" and sw = "[]"]
    by simp
  show ?thesis using 1 2 3 4 5 6 7 8 m 9 10 11 12 13 14 by simp
qed

text \<open>
  Claim C2 as the specification words it fails on a string whose text after the comma
  holds a line feed before its end: the string starts with digits and a comma, and the
  result is 1, not the value 3 of the leading digits.
\<close>

theorem convertto_numeric_value_line_feed_counterexample:
  "spec_number_comma (''3,a'' @ [newline] @ ''b'') = Some ''3''
   \<and> decimal_value ''3'' = 3
   \<and> convertto_numeric_value 4300 [] None (PStr (''3,a'' @ [newline] @ ''b'')) = Inr 1
   \<and> convertto_numeric_value 4300 [] None (PStr (''3,a'' @ [newline] @ ''b''))
       \<noteq> Inr (decimal_value ''3'')"
  by code_simp

section \<open>Properties of the exit code\<close>

lemma set_exitcode_cases:
  "set_exitcode code t =
     (if 0 \<le> code \<and> code \<le> 255 then (None, t\<lparr>stored_exitcode := code\<rparr>) else (Some ValueError, t))"
  by (simp add: set_exitcode_def)

lemma write_error_cases:
  "write_error copt message prefix t =
     (case copt of
        None \<Rightarrow> (None, print Stderr (prefix @ ''['' @ scriptname t @ ''] '' @ message) [newline] t)
      | Some c \<Rightarrow>
          (if 0 \<le> c \<and> c \<le> 255
           then (None, print Stderr (prefix @ ''['' @ scriptname t @ ''] '' @ message) [newline]
                         (t\<lparr>stored_exitcode := c\<rparr>))
           else (Some ValueError, t)))"
  by (simp add: write_error_def exitcode_setter_def set_exitcode_def split: option.splits)

lemma print_exitcode: "stored_exitcode (print s text e t) = stored_exitcode t"
  by (cases s) (simp_all add: print_def)

lemma init_tool_exitcode: "init_tool maxd name sw = Inr t0 \<Longrightarrow> stored_exitcode t0 = 0"
  by (auto simp: init_tool_def exitcode_setter_def set_exitcode_def Let_def
           split: sum.splits)

text \<open>
  Claim C10. Every operation that sets the exit code (\<open>set_exitcode\<close>, the \<open>exitcode\<close>
  setter, \<open>write_error\<close>) either stores a code between 0 and 255 or raises \<open>ValueError\<close>
  and leaves the tool as it was; so a stored exit code that is in range stays in range,
  and it is in range after \<open>__init__\<close>. An offset code \<open>100 + n\<close> with \<open>n\<close> above 155 is not
  stored: \<open>ValueError\<close> is raised.
\<close>

theorem exitcode_stays_in_range:
  assumes "exitcode_valid t"
  shows "(case set_exitcode code t of
            (None, t') \<Rightarrow> stored_exitcode t' = code \<and> 0 \<le> code \<and> code \<le> 255
          | (Some e, t') \<Rightarrow> e = ValueError \<and> t' = t)
       \<and> exitcode_setter code t = set_exitcode code t
       \<and> (case write_error copt message prefix t of
            (None, t') \<Rightarrow> (case copt of None \<Rightarrow> stored_exitcode t' = stored_exitcode t
                                     | Some c \<Rightarrow> stored_exitcode t' = c \<and> 0 \<le> c \<and> c \<le> 255)
          | (Some e, t') \<Rightarrow> e = ValueError \<and> t' = t)
       \<and> exitcode_valid (snd (set_exitcode code t))
       \<and> exitcode_valid (snd (exitcode_setter code t))
       \<and> exitcode_valid (snd (write_error copt message prefix t))
       \<and> (155 < n \<longrightarrow> set_exitcode (100 + n) t = (Some ValueError, t)
                      \<and> write_error (Some (100 + n)) message prefix t = (Some ValueError, t))
       \<and> (init_tool maxd name sw = Inr t0 \<longrightarrow> exitcode_valid t0)"
proof -
  have a: "case set_exitcode code t of
            (None, t') \<Rightarrow> stored_exitcode t' = code \<and> 0 \<le> code \<and> code \<le> 255
          | (Some e, t') \<Rightarrow> e = ValueError \<and> t' = t"
    by (simp add: set_exitcode_cases)
  have b: "exitcode_setter code t = set_exitcode code t"
    by (simp add: exitcode_setter_def)
  have c: "case write_error copt message prefix t of
            (None, t') \<Rightarrow> (case copt of None \<Rightarrow> stored_exitcode t' = stored_exitcode t
                                     | Some c \<Rightarrow> stored_exitcode t' = c \<and> 0 \<le> c \<and> c \<le> 255)
          | (Some e, t') \<Rightarrow> e = ValueError \<and> t' = t"
    by (simp add: write_error_cases print_exitcode split: option.splits)
  have d: "exitcode_valid (snd (set_exitcode code t))"
    using assms by (simp add: set_exitcode_cases exitcode_valid_def)
  have e: "exitcode_valid (snd (write_error copt message prefix t))"
    using assms by (simp add: write_error_cases exitcode_valid_def print_exitcode split: option.splits)
  have f: "155 < n \<longrightarrow> set_exitcode (100 + n) t = (Some ValueError, t)
                      \<and> write_error (Some (100 + n)) message prefix t = (Some ValueError, t)"
    by (simp add: set_exitcode_cases write_error_cases)
  have g: "init_tool maxd name sw = Inr t0 \<longrightarrow> exitcode_valid t0"
    by (auto simp: exitcode_valid_def dest: init_tool_exitcode)
  show ?thesis using a b c d e f g by simp
qed

theorem exitcode_stays_in_range_witness:
  "exitcode_valid \<lparr>scriptname = ''adpn-do-package.py'', switches = [], verbose = 1,
        debug = 0, stored_exitcode = 0, stdout = [], stderr = []\<rparr>
   \<and> (155::int) < 200
   \<and> set_exitcode (100 + 200) \<lparr>scriptname = ''adpn-do-package.py'', switches = [], verbose = 1,
        debug = 0, stored_exitcode = 0, stdout = [], stderr = []\<rparr> = (Some ValueError, \<lparr>scriptname = ''adpn-do-package.py'', switches = [], verbose = 1,
        debug = 0, stored_exitcode = 0, stdout = [], stderr = []\<rparr>)
   \<and> write_error (Some (100 + 200)) ''mismatch'' [] \<lparr>scriptname = ''adpn-do-package.py'', switches = [], verbose = 1,
        debug = 0, stored_exitcode = 0, stdout = [], stderr = []\<rparr> = (Some ValueError, \<lparr>scriptname = ''adpn-do-package.py'', switches = [], verbose = 1,
        debug = 0, stored_exitcode = 0, stdout = [], stderr = []\<rparr>)
   \<and> exitcode_valid (snd (set_exitcode 7 \<lparr>scriptname = ''adpn-do-package.py'', switches = [], verbose = 1,
        debug = 0, stored_exitcode = 0, stdout = [], stderr = []\<rparr>))
   \<and> exitcode_valid (snd (write_error (Some 4) ''mismatch'' [] \<lparr>scriptname = ''adpn-do-package.py'', switches = [], verbose = 1,
        debug = 0, stored_exitcode = 0, stdout = [], stderr = []\<rparr>))
   \<and> init_tool 4300 ''adpn-do-package.py'' [] = Inr \<lparr>scriptname = ''adpn-do-package.py'', switches = [], verbose = 0,
        debug = 0, stored_exitcode = 0, stdout = [], stderr = []\<rparr>
   \<and> exitcode_valid \<lparr>scriptname = ''adpn-do-package.py'', switches = [], verbose = 0,
        debug = 0, stored_exitcode = 0, stdout = [], stderr = []\<rparr>"
proof -
  let ?t = "\<lparr>scriptname = ''adpn-do-package.py'', switches = [], verbose = 1,
        debug = 0, stored_exitcode = 0, stdout = [], stderr = []\<rparr>"
  let ?init = "\<lparr>scriptname = ''adpn-do-package.py'', switches = [], verbose = 0,
        debug = 0, stored_exitcode = 0, stdout = [], stderr = []\<rparr>"
  have v: "exitcode_valid ?t" by (simp add: exitcode_valid_def)
  have i: "init_tool 4300 ''adpn-do-package.py'' [] = Inr ?init"
    by code_simp
  note th = exitcode_stays_in_range [OF v, where code = 7 and copt = "Some 4"
      and message = "''mismatch''" and prefix = "[]" and n = 200
      and name = "''adpn-do-package.py''" and sw = "[]" and ?t0.0 = ?init and maxd = 4300]
  have 1: "set_exitcode (100 + 200) ?t = (Some ValueError, ?t)
           \<and> write_error (Some (100 + 200)) ''mismatch'' [] ?t = (Some ValueError, ?t)"
    using th by simp
  have 2: "exitcode_valid (snd (set_exitcode 7 ?t))
           \<and> exitcode_valid (snd (write_error (Some 4) ''mismatch'' [] ?t))"
    using th by blast
  have 3: "exitcode_valid ?init" using th i by blast
  show ?thesis using v i 1 2 3 by simp
qed

section \<open>Properties of the diagnostic output\<close>

lemma print_streams:
  "stdout (print Stdout text e t) = stdout t @ [text @ e]"
  "stderr (print Stdout text e t) = stderr t"
  "stderr (print Stderr text e t) = stderr t @ [text @ e]"
  "stdout (print Stderr text e t) = stdout t"
  by (simp_all add: print_def)

text \<open>
  Claim C6, as amended. \<open>write_error\<close>, given no exit code or a code between 0 and 255,
  writes its message to standard error and nothing to standard output, as the caller's
  prefix, the script name in brackets and the message; given a code outside 0 to 255 it
  raises \<open>ValueError\<close> before it prints, and nothing is written. \<open>write_status\<close> writes
  only when the verbosity of the message is at most the tool's level; a notice goes to
  standard error when the output format is not plain text and the verbosity is positive,
  and to standard output otherwise, prefixed with the script name in brackets or with the
  prolog when one is given; a message that is no notice goes to standard output as it is.
\<close>

theorem write_status_write_error_streams:
  "((copt = None \<or> (\<exists>c. copt = Some c \<and> 0 \<le> c \<and> c \<le> 255)) \<longrightarrow>
      fst (write_error copt message prefix t) = None
      \<and> stderr (snd (write_error copt message prefix t))
          = stderr t @ [prefix @ ''['' @ scriptname t @ ''] '' @ message @ [newline]]
      \<and> stdout (snd (write_error copt message prefix t)) = stdout t)
   \<and> (copt = Some c \<and> (c < 0 \<or> 255 < c) \<longrightarrow>
        write_error copt message prefix t = (Some ValueError, t))
   \<and> (verbose t < verbosity \<longrightarrow> write_status message prolog is_notice verbosity t = t)
   \<and> (verbosity \<le> verbose t \<and> is_notice \<and> \<not> plain_text_output t \<and> 0 < verbosity \<longrightarrow>
        stderr (write_status message prolog is_notice verbosity t)
          = stderr t @ [(case prolog of None \<Rightarrow> ''['' @ scriptname t @ ''] ''
                                     | Some p \<Rightarrow> p @ '' '') @ message @ [newline]]
        \<and> stdout (write_status message prolog is_notice verbosity t) = stdout t)
   \<and> (verbosity \<le> verbose t \<and> is_notice \<and> (plain_text_output t \<or> verbosity \<le> 0) \<longrightarrow>
        stdout (write_status message prolog is_notice verbosity t)
          = stdout t @ [(case prolog of None \<Rightarrow> ''['' @ scriptname t @ ''] ''
                                     | Some p \<Rightarrow> p @ '' '') @ message @ [newline]]
        \<and> stderr (write_status message prolog is_notice verbosity t) = stderr t)
   \<and> (verbosity \<le> verbose t \<and> \<not> is_notice \<longrightarrow>
        stdout (write_status message prolog is_notice verbosity t)
          = stdout t @ [message @ [newline]]
        \<and> stderr (write_status message prolog is_notice verbosity t) = stderr t)"
proof -
  have e: "(copt = None \<or> (\<exists>c. copt = Some c \<and> 0 \<le> c \<and> c \<le> 255)) \<longrightarrow>
      fst (write_error copt message prefix t) = None
      \<and> stderr (snd (write_error copt message prefix t))
          = stderr t @ [prefix @ ''['' @ scriptname t @ ''] '' @ message @ [newline]]
      \<and> stdout (snd (write_error copt message prefix t)) = stdout t"
    by (auto simp: write_error_def exitcode_setter_def set_exitcode_def print_def)
  have r: "copt = Some c \<and> (c < 0 \<or> 255 < c) \<longrightarrow>
        write_error copt message prefix t = (Some ValueError, t)"
    by (auto simp: write_error_def exitcode_setter_def set_exitcode_def)
  have s1: "verbose t < verbosity \<longrightarrow> write_status message prolog is_notice verbosity t = t"
    by (simp add: write_status_def Let_def)
  have s2: "verbosity \<le> verbose t \<and> is_notice \<and> \<not> plain_text_output t \<and> 0 < verbosity \<longrightarrow>
        stderr (write_status message prolog is_notice verbosity t)
          = stderr t @ [(case prolog of None \<Rightarrow> ''['' @ scriptname t @ ''] ''
                                     | Some p \<Rightarrow> p @ '' '') @ message @ [newline]]
        \<and> stdout (write_status message prolog is_notice verbosity t) = stdout t"
    by (simp add: write_status_def Let_def print_streams)
  have s3: "verbosity \<le> verbose t \<and> is_notice \<and> (plain_text_output t \<or> verbosity \<le> 0) \<longrightarrow>
        stdout (write_status message prolog is_notice verbosity t)
          = stdout t @ [(case prolog of None \<Rightarrow> ''['' @ scriptname t @ ''] ''
                                     | Some p \<Rightarrow> p @ '' '') @ message @ [newline]]
        \<and> stderr (write_status message prolog is_notice verbosity t) = stderr t"
    by (auto simp: write_status_def Let_def print_streams)
  have s4: "verbosity \<le> verbose t \<and> \<not> is_notice \<longrightarrow>
        stdout (write_status message prolog is_notice verbosity t)
          = stdout t @ [message @ [newline]]
        \<and> stderr (write_status message prolog is_notice verbosity t) = stderr t"
    by (simp add: write_status_def Let_def print_streams)
  from e r s1 s2 s3 s4 show ?thesis by (intro conjI)
qed

theorem write_status_write_error_streams_witness:
  "stderr (snd (write_error (Some 2) ''failed'' []
      \<lparr>scriptname = ''adpn-json.py'', switches = [(''output'', PStr ''application/json'')],
        verbose = 1, debug = 0, stored_exitcode = 0, stdout = [], stderr = []\<rparr>))
     = [''[adpn-json.py] failed'' @ [newline]]
   \<and> stdout (snd (write_error (Some 2) ''failed'' []
      \<lparr>scriptname = ''adpn-json.py'', switches = [(''output'', PStr ''application/json'')],
        verbose = 1, debug = 0, stored_exitcode = 0, stdout = [], stderr = []\<rparr>))
     = []
   \<and> stderr (snd (write_error None ''failed'' ''^C''
      \<lparr>scriptname = ''adpn-json.py'', switches = [(''output'', PStr ''application/json'')],
        verbose = 1, debug = 0, stored_exitcode = 0, stdout = [], stderr = []\<rparr>))
     = [''^C[adpn-json.py] failed'' @ [newline]]
   \<and> write_error (Some 300) ''failed'' []
      \<lparr>scriptname = ''adpn-json.py'', switches = [(''output'', PStr ''application/json'')],
        verbose = 1, debug = 0, stored_exitcode = 0, stdout = [], stderr = []\<rparr>
     = (Some ValueError,
        \<lparr>scriptname = ''adpn-json.py'', switches = [(''output'', PStr ''application/json'')],
          verbose = 1, debug = 0, stored_exitcode = 0, stdout = [], stderr = []\<rparr>)
   \<and> write_status ''note'' None True 2
      \<lparr>scriptname = ''adpn-json.py'', switches = [(''output'', PStr ''application/json'')],
        verbose = 1, debug = 0, stored_exitcode = 0, stdout = [], stderr = []\<rparr>
     = \<lparr>scriptname = ''adpn-json.py'', switches = [(''output'', PStr ''application/json'')],
        verbose = 1, debug = 0, stored_exitcode = 0, stdout = [], stderr = []\<rparr>
   \<and> stderr (write_status ''note'' None True 1
      \<lparr>scriptname = ''adpn-json.py'', switches = [(''output'', PStr ''application/json'')],
        verbose = 1, debug = 0, stored_exitcode = 0, stdout = [], stderr = []\<rparr>)
     = [''[adpn-json.py] note'' @ [newline]]
   \<and> stdout (write_status ''note'' None True 0
      \<lparr>scriptname = ''adpn-json.py'', switches = [(''output'', PStr ''application/json'')],
        verbose = 1, debug = 0, stored_exitcode = 0, stdout = [], stderr = []\<rparr>)
     = [''[adpn-json.py] note'' @ [newline]]
   \<and> stdout (write_status ''data'' None False 0
      \<lparr>scriptname = ''adpn-json.py'', switches = [(''output'', PStr ''application/json'')],
        verbose = 1, debug = 0, stored_exitcode = 0, stdout = [], stderr = []\<rparr>)
     = [''data'' @ [newline]]"
proof -
  let ?t = "\<lparr>scriptname = ''adpn-json.py'', switches = [(''output'', PStr ''application/json'')],
        verbose = 1, debug = 0, stored_exitcode = 0, stdout = [], stderr = []\<rparr>"
  have p: "\<not> plain_text_output ?t" by (simp add: plain_text_output_def dict_get_def)
  have 1: "stderr (snd (write_error (Some 2) ''failed'' [] ?t)) = [''[adpn-json.py] failed'' @ [newline]]
           \<and> stdout (snd (write_error (Some 2) ''failed'' [] ?t)) = []"
    using write_status_write_error_streams [where copt = "Some 2" and message = "''failed''"
        and prefix = "[]" and t = ?t]
    by simp
  have 6: "stderr (snd (write_error None ''failed'' ''^C'' ?t))
             = [''^C[adpn-json.py] failed'' @ [newline]]"
    using write_status_write_error_streams [where copt = None and message = "''failed''"
        and prefix = "''^C''" and t = ?t]
    by simp
  have 7: "write_error (Some 300) ''failed'' [] ?t = (Some ValueError, ?t)"
    using write_status_write_error_streams [where copt = "Some 300" and c = 300
        and message = "''failed''" and prefix = "[]" and t = ?t]
    by simp
  have 2: "write_status ''note'' None True 2 ?t = ?t"
    using write_status_write_error_streams [where message = "''note''" and prolog = None
        and is_notice = True and verbosity = 2 and t = ?t]
    by simp
  have 3: "stderr (write_status ''note'' None True 1 ?t) = [''[adpn-json.py] note'' @ [newline]]"
    using write_status_write_error_streams [where message = "''note''" and prolog = None
        and is_notice = True and verbosity = 1 and t = ?t] p
    by simp
  have 4: "stdout (write_status ''note'' None True 0 ?t) = [''[adpn-json.py] note'' @ [newline]]"
    using write_status_write_error_streams [where message = "''note''" and prolog = None
        and is_notice = True and verbosity = 0 and t = ?t]
    by simp
  have 5: "stdout (write_status ''data'' None False 0 ?t) = [''data'' @ [newline]]"
    using write_status_write_error_streams [where message = "''data''" and prolog = None
        and is_notice = False and verbosity = 0 and t = ?t]
    by simp
  show ?thesis using 1 6 7 2 3 4 5 by simp
qed

text \<open>
  Claim C6 as the specification words it fails: with the packaging script's default
  switches (plain text output, verbosity 1) a status notice is printed on standard output,
  and nothing on standard error.
\<close>

theorem write_status_stdout_counterexample:
  "stdout (write_status ''* Checking BagIt packaging: /au'' None True 1
      \<lparr>scriptname = ''adpn-do-package.py'',
        switches = [(''output'', PStr ''text/plain''), (''verbose'', PInt 1),
                    (''quiet'', PBool False)],
        verbose = 1, debug = 0, stored_exitcode = 0, stdout = [], stderr = []\<rparr>)
     = [''[adpn-do-package.py] * Checking BagIt packaging: /au'' @ [newline]]
   \<and> stderr (write_status ''* Checking BagIt packaging: /au'' None True 1
      \<lparr>scriptname = ''adpn-do-package.py'',
        switches = [(''output'', PStr ''text/plain''), (''verbose'', PInt 1),
                    (''quiet'', PBool False)],
        verbose = 1, debug = 0, stored_exitcode = 0, stdout = [], stderr = []\<rparr>)
     = []"
  by code_simp

section \<open>Properties of the script pipeline\<close>

lemma scan_parameters_last:
  "\<forall>p\<in>set ps. \<exists>n. py_len p = Inr n \<Longrightarrow>
   scan_parameters name ps result = Inr (last (result # matching_values name ps))"
proof (induction ps arbitrary: result)
  case Nil
  then show ?case by (simp add: matching_values_def)
next
  case (Cons p ps)
  have ih: "scan_parameters name ps r = Inr (last (r # matching_values name ps))" for r
    using Cons by simp
  have mv: "matching_values name (p # ps) =
      (case py_iter p of [k, v] \<Rightarrow> if k = PStr name then [v] else [] | _ \<Rightarrow> [])
        @ matching_values name ps"
    by (simp add: matching_values_def)
  from Cons.prems obtain n where n: "py_len p = Inr n"
    by auto
  have len_iter: "length (py_iter p) = n"
    using n by (cases p) auto
  show ?case
  proof (cases "n = 2")
    case True
    then obtain k v where kv: "py_iter p = [k, v]"
      using len_iter by (metis (no_types, lifting) length_0_conv length_Suc_conv numeral_2_eq_2)
    show ?thesis
      using n True kv by (simp add: ih mv)
  next
    case False
    then have "(case py_iter p of [k, v] \<Rightarrow> if k = PStr name then [v] else [] | _ \<Rightarrow> []) = []"
      using len_iter by (auto split: list.splits)
    then show ?thesis using n False by (simp add: ih mv)
  qed
qed

text \<open>\<open>len()\<close> either answers or raises \<open>TypeError\<close>.\<close>

lemma py_len_cases: "(\<exists>n. py_len p = Inr n) \<or> py_len p = Inl TypeError"
  by (cases p) auto

text \<open>
  The loop goes through the whole list, so an entry without a length ends it with a
  \<open>TypeError\<close> wherever it stands.
\<close>

lemma scan_parameters_unsized:
  "\<exists>p\<in>set ps. \<not> (\<exists>n. py_len p = Inr n) \<Longrightarrow>
   scan_parameters name ps result = Inl TypeError"
proof (induction ps arbitrary: result)
  case Nil
  then show ?case by simp
next
  case (Cons p ps)
  show ?case
  proof (cases "\<exists>n. py_len p = Inr n")
    case False
    then have "py_len p = Inl TypeError" using py_len_cases [of p] by blast
    then show ?thesis by simp
  next
    case True
    then obtain n where n: "py_len p = Inr n" by blast
    from True Cons.prems have "\<exists>q\<in>set ps. \<not> (\<exists>n. py_len q = Inr n)" by auto
    then have ih: "scan_parameters name ps r = Inl TypeError" for r
      using Cons.IH by blast
    show ?thesis using n by (simp add: ih split: list.splits)
  qed
qed

text \<open>
  The pattern \<open>^[@](.*)$\<close> matches exactly the keys made of an \<open>@\<close> and a name without line
  feed, with or without one line feed after the name.
\<close>

lemma match_at_iff:
  "(match_at k = Some name)
     = (newline \<notin> set name \<and> (k = CHR ''@'' # name \<or> k = CHR ''@'' # name @ [newline]))"
proof
  assume m: "match_at k = Some name"
  then obtain rest where k: "k = CHR ''@'' # rest" and lt: "line_tail rest"
    and nm: "name = (if rest \<noteq> [] \<and> last rest = newline then butlast rest else rest)"
    by (auto simp: match_at_def split: list.splits if_splits)
  show "newline \<notin> set name \<and> (k = CHR ''@'' # name \<or> k = CHR ''@'' # name @ [newline])"
  proof (cases "rest \<noteq> [] \<and> last rest = newline")
    case True
    then have "name = butlast rest" and "rest = butlast rest @ [newline]"
      using nm append_butlast_last_id [of rest] by auto
    then show ?thesis using k lt by (auto simp: line_tail_def)
  next
    case False
    then have n: "name = rest" using nm by auto
    have "newline \<notin> set rest"
    proof (cases "rest = []")
      case True then show ?thesis by simp
    next
      case ne: False
      then have "rest = butlast rest @ [last rest]" by simp
      then have "set rest = set (butlast rest) \<union> {last rest}"
        by (metis Un_insert_right append_Nil2 list.simps(15) set_append empty_set)
      then show ?thesis using lt False ne by (auto simp: line_tail_def)
    qed
    then show ?thesis using k n by simp
  qed
next
  assume a: "newline \<notin> set name \<and> (k = CHR ''@'' # name \<or> k = CHR ''@'' # name @ [newline])"
  then have nl: "newline \<notin> set name" by simp
  from a consider "k = CHR ''@'' # name" | "k = CHR ''@'' # name @ [newline]" by blast
  then show "match_at k = Some name"
  proof cases
    case 1
    have "line_tail name" using nl by (auto simp: line_tail_def dest: in_set_butlastD)
    moreover have "\<not> (name \<noteq> [] \<and> last name = newline)" using nl last_in_set by metis
    ultimately show ?thesis using 1 by (auto simp: match_at_def)
  next
    case 2
    have "line_tail (name @ [newline])" using nl by (simp add: line_tail_def butlast_append)
    then show ?thesis using 2 by (simp add: match_at_def)
  qed
qed

lemma match_at_none:
  "(match_at k = None)
     = (\<forall>name. newline \<notin> set name \<longrightarrow>
                k \<noteq> CHR ''@'' # name \<and> k \<noteq> CHR ''@'' # name @ [newline])"
proof -
  have "(match_at k = None) = (\<forall>name. match_at k \<noteq> Some name)" by auto
  then show ?thesis by (simp only: match_at_iff) blast
qed

text \<open>
  Claim C1, as amended. For a packet that is a dictionary and a requested key: a key is of
  the form \<open>@name\<close> when it is an \<open>@\<close> followed by a name without line feed, a line feed
  after the name being ignored. A key that is not of that form is answered by the plain
  lookup, and so is every key when the packet has no top-level \<open>parameters\<close> list. For a
  key \<open>@name\<close> and a \<open>parameters\<close> list the list is gone through, whether or not the plain
  lookup of the literal key finds a value: if every entry has a length the result is the
  value of the last two-element entry whose first element equals \<open>name\<close>, and the result
  of the plain lookup when no entry matches; if some entry has no length (a number, a
  truth value or null) \<open>TypeError\<close> is raised.
\<close>

theorem get_data_parameters:
  "((\<forall>name. newline \<notin> set name \<longrightarrow>
              k \<noteq> CHR ''@'' # name \<and> k \<noteq> CHR ''@'' # name @ [newline]) \<longrightarrow>
        get_data (Some (Inr (PDict d))) (Some k) = Inr (dict_get d k))
   \<and> ((\<forall>ps. dict_get d ''parameters'' \<noteq> PList ps) \<longrightarrow>
        get_data (Some (Inr (PDict d))) (Some k) = Inr (dict_get d k))
   \<and> (newline \<notin> set name \<and> (k = CHR ''@'' # name \<or> k = CHR ''@'' # name @ [newline])
        \<and> dict_get d ''parameters'' = PList ps \<longrightarrow>
        get_data (Some (Inr (PDict d))) (Some k)
          = (if \<forall>p\<in>set ps. \<exists>n. py_len p = Inr n
             then Inr (last (dict_get d k # matching_values name ps))
             else Inl TypeError))"
proof -
  have 1: "(\<forall>name. newline \<notin> set name \<longrightarrow>
              k \<noteq> CHR ''@'' # name \<and> k \<noteq> CHR ''@'' # name @ [newline]) \<longrightarrow>
        get_data (Some (Inr (PDict d))) (Some k) = Inr (dict_get d k)"
  proof
    assume "\<forall>name. newline \<notin> set name \<longrightarrow>
              k \<noteq> CHR ''@'' # name \<and> k \<noteq> CHR ''@'' # name @ [newline]"
    then have "match_at k = None" unfolding match_at_none by blast
    then show "get_data (Some (Inr (PDict d))) (Some k) = Inr (dict_get d k)"
      by (simp add: get_data_def split: pyval.splits)
  qed
  have 2: "(\<forall>ps. dict_get d ''parameters'' \<noteq> PList ps) \<longrightarrow>
        get_data (Some (Inr (PDict d))) (Some k) = Inr (dict_get d k)"
    by (simp add: get_data_def split: pyval.splits)
  have 3: "newline \<notin> set name \<and> (k = CHR ''@'' # name \<or> k = CHR ''@'' # name @ [newline])
        \<and> dict_get d ''parameters'' = PList ps \<longrightarrow>
        get_data (Some (Inr (PDict d))) (Some k)
          = (if \<forall>p\<in>set ps. \<exists>n. py_len p = Inr n
             then Inr (last (dict_get d k # matching_values name ps))
             else Inl TypeError)"
  proof
    assume a: "newline \<notin> set name \<and> (k = CHR ''@'' # name \<or> k = CHR ''@'' # name @ [newline])
        \<and> dict_get d ''parameters'' = PList ps"
    then have m: "match_at k = Some name" unfolding match_at_iff by blast
    have g: "get_data (Some (Inr (PDict d))) (Some k) = scan_parameters name ps (dict_get d k)"
      using a m by (simp add: get_data_def)
    show "get_data (Some (Inr (PDict d))) (Some k)
          = (if \<forall>p\<in>set ps. \<exists>n. py_len p = Inr n
             then Inr (last (dict_get d k # matching_values name ps))
             else Inl TypeError)"
    proof (cases "\<forall>p\<in>set ps. \<exists>n. py_len p = Inr n")
      case True
      then show ?thesis using g scan_parameters_last [OF True] by simp
    next
      case False
      then have "\<exists>p\<in>set ps. \<not> (\<exists>n. py_len p = Inr n)" by blast
      from scan_parameters_unsized [OF this] False g show ?thesis by simp
    qed
  qed
  from 1 2 3 show ?thesis by (intro conjI)
qed

theorem get_data_parameters_witness:
  "get_data (Some (Inr (PDict [(''parameters'', PList [PList [PStr ''foo'', PStr ''bar'']])])))
      (Some ''@foo'') = Inr (PStr ''bar'')
   \<and> get_data (Some (Inr (PDict [(''parameters'', PList [PList [PStr ''foo'', PStr ''bar'']])])))
      (Some (''@foo'' @ [newline])) = Inr (PStr ''bar'')
   \<and> get_data (Some (Inr (PDict [(''parameters'', PList [PList [PStr ''foo'', PStr ''bar'']])])))
      (Some ''@missing'') = Inr PNone
   \<and> get_data (Some (Inr (PDict [(''parameters'', PList [PList [PStr ''foo'', PStr ''bar'']])])))
      (Some ''foo'') = Inr PNone
   \<and> get_data (Some (Inr (PDict [(''parameters'',
                                    PList [PList [PStr ''foo'', PStr ''bar''], PInt 5])])))
      (Some ''@foo'') = Inl TypeError
   \<and> get_data (Some (Inr (PDict [(''@foo'', PStr ''direct'')]))) (Some ''@foo'')
       = Inr (PStr ''direct'')"
proof -
  let ?d = "[(''parameters'', PList [PList [PStr ''foo'', PStr ''bar'']])]"
  let ?ps = "[PList [PStr ''foo'', PStr ''bar'']]"
  let ?d5 = "[(''parameters'', PList [PList [PStr ''foo'', PStr ''bar''], PInt 5])]"
  let ?ps5 = "[PList [PStr ''foo'', PStr ''bar''], PInt 5]"
  have p: "dict_get ?d ''parameters'' = PList ?ps" by code_simp
  have p5: "dict_get ?d5 ''parameters'' = PList ?ps5" by code_simp
  have s: "\<forall>p\<in>set ?ps. \<exists>n. py_len p = Inr n" by simp
  have s5: "\<not> (\<forall>p\<in>set ?ps5. \<exists>n. py_len p = Inr n)" by simp
  have n1: "newline \<notin> set ''foo''" by (simp add: newline_def)
  have n2: "newline \<notin> set ''missing''" by (simp add: newline_def)
  have v1: "last (dict_get ?d ''@foo'' # matching_values ''foo'' ?ps) = PStr ''bar''"
    by code_simp
  have v1n: "last (dict_get ?d (''@foo'' @ [newline]) # matching_values ''foo'' ?ps) = PStr ''bar''"
    by code_simp
  have v2: "last (dict_get ?d ''@missing'' # matching_values ''missing'' ?ps) = PNone"
    by code_simp
  have v3: "dict_get ?d ''foo'' = PNone" by code_simp
  have k3: "\<forall>name. newline \<notin> set name \<longrightarrow>
              ''foo'' \<noteq> CHR ''@'' # name \<and> ''foo'' \<noteq> CHR ''@'' # name @ [newline]"
    by simp
  have n4: "\<forall>ps. dict_get [(''@foo'', PStr ''direct'')] ''parameters'' \<noteq> PList ps"
    by (simp add: dict_get_def)
  have v4: "dict_get [(''@foo'', PStr ''direct'')] ''@foo'' = PStr ''direct''"
    by (simp add: dict_get_def)
  have 1: "get_data (Some (Inr (PDict ?d))) (Some ''@foo'') = Inr (PStr ''bar'')"
    using get_data_parameters [where k = "''@foo''" and d = ?d and name = "''foo''"
        and ps = ?ps] p s n1 v1
    by simp
  have 2: "get_data (Some (Inr (PDict ?d))) (Some (''@foo'' @ [newline])) = Inr (PStr ''bar'')"
    using get_data_parameters [where k = "''@foo'' @ [newline]" and d = ?d and name = "''foo''"
        and ps = ?ps] p s n1 v1n
    by simp
  have 3: "get_data (Some (Inr (PDict ?d))) (Some ''@missing'') = Inr PNone"
    using get_data_parameters [where k = "''@missing''" and d = ?d and name = "''missing''"
        and ps = ?ps] p s n2 v2
    by simp
  have 4: "get_data (Some (Inr (PDict ?d))) (Some ''foo'') = Inr PNone"
    using get_data_parameters [where k = "''foo''" and d = ?d] k3 v3
    by simp
  have 5: "get_data (Some (Inr (PDict ?d5))) (Some ''@foo'') = Inl TypeError"
    using get_data_parameters [where k = "''@foo''" and d = ?d5 and name = "''foo''"
        and ps = ?ps5] p5 s5 n1
    by simp
  have 6: "get_data (Some (Inr (PDict [(''@foo'', PStr ''direct'')]))) (Some ''@foo'')
       = Inr (PStr ''direct'')"
    using get_data_parameters [where k = "''@foo''" and d = "[(''@foo'', PStr ''direct'')]"]
      n4 v4
    by simp
  show ?thesis using 1 2 3 4 5 6 by simp
qed

text \<open>
  Claim C1 as the specification words it fails: the plain lookup of the literal key
  \<open>@foo\<close> succeeds, and still the \<open>parameters\<close> list decides the result.
\<close>

theorem get_data_override_counterexample:
  "dict_get [(''@foo'', PStr ''direct''),
             (''parameters'', PList [PList [PStr ''foo'', PStr ''bar'']])] ''@foo''
     = PStr ''direct''
   \<and> get_data (Some (Inr (PDict [(''@foo'', PStr ''direct''),
             (''parameters'', PList [PList [PStr ''foo'', PStr ''bar'']])]))) (Some ''@foo'')
     = Inr (PStr ''bar'')"
  by code_simp

lemma map_of_dict_set: "map_of (dict_set d k v) = (map_of d)(k \<mapsto> v)"
  by (induction d k v rule: dict_set.induct) auto

lemma dict_get_dict_set: "dict_get (dict_set d k v) k = v"
  by (simp add: dict_get_def map_of_dict_set)

text \<open>
  Claim C9. \<open>backfilled\<close> returns a new dictionary and leaves every dictionary that
  existed before, the input table among them, as it was. In the result every key other
  than the named one is bound as in the table; when the table has a value other than
  \<open>None\<close> for the named key the result equals the table; the result differs from the table
  only when the named key had no value, and then by binding it to the value selected from
  the piped packet.
\<close>

theorem backfilled_frame:
  assumes "table < length h"
  shows "case backfilled h accepted table key data_source of
           (r, h') \<Rightarrow>
             (\<forall>a. a < length h \<longrightarrow> h' ! a = h ! a)
             \<and> (case r of
                  Inl e \<Rightarrow>
                    dict_get (h ! table) key = PNone \<and> get_data accepted data_source = Inl e
                | Inr res \<Rightarrow>
                    res = length h \<and> res \<noteq> table \<and> res < length h'
                    \<and> (\<forall>k'. k' \<noteq> key \<longrightarrow> map_of (h' ! res) k' = map_of (h ! table) k')
                    \<and> (dict_get (h ! table) key \<noteq> PNone \<longrightarrow> h' ! res = h ! table)
                    \<and> (h' ! res \<noteq> h ! table \<longrightarrow>
                         dict_get (h ! table) key = PNone
                         \<and> (\<exists>v. v \<noteq> PNone \<and> get_data accepted data_source = Inr v
                                \<and> h' ! res = dict_set (h ! table) key v
                                \<and> dict_get (h' ! res) key = v)))"
proof -
  let ?h1 = "h @ [h ! table]"
  show ?thesis
  proof (cases "dict_get (h ! table) key = PNone")
    case False
    then have "backfilled h accepted table key data_source = (Inr (length h), ?h1)"
      by (simp add: backfilled_def alloc_def)
    then show ?thesis using False assms by (simp add: nth_append)
  next
    case none: True
    show ?thesis
    proof (cases "get_data accepted data_source")
      case (Inl e)
      then have "backfilled h accepted table key data_source = (Inl e, ?h1)"
        using none by (simp add: backfilled_def alloc_def)
      then show ?thesis using none Inl by (simp add: nth_append)
    next
      case (Inr v)
      show ?thesis
      proof (cases "v = PNone")
        case True
        then have "backfilled h accepted table key data_source = (Inr (length h), ?h1)"
          using none Inr by (simp add: backfilled_def alloc_def)
        then show ?thesis using none assms by (simp add: nth_append)
      next
        case False
        then have b: "backfilled h accepted table key data_source
            = (Inr (length h), ?h1[length h := dict_set (h ! table) key v])"
          using none Inr by (simp add: backfilled_def alloc_def)
        show ?thesis
          using none assms False Inr
          by (simp add: b nth_append map_of_dict_set dict_get_dict_set)
      qed
    qed
  qed
qed

theorem backfilled_frame_witness:
  "(0::nat) < length [[(''a'', PInt 1), (''b'', PNone)]]
   \<and> [[(''a'', PInt 1), (''b'', PNone)], [(''a'', PInt 1), (''b'', PInt 7)]] ! 0
       = [[(''a'', PInt 1), (''b'', PNone)]] ! 0
   \<and> map_of ([[(''a'', PInt 1), (''b'', PNone)], [(''a'', PInt 1), (''b'', PInt 7)]] ! 1) ''a''
       = map_of ([[(''a'', PInt 1), (''b'', PNone)]] ! 0) ''a''
   \<and> backfilled [[(''a'', PInt 1), (''b'', PNone)]] (Some (Inr (PDict [(''x'', PInt 7)])))
        0 ''b'' (Some ''x'')
       = (Inr 1, [[(''a'', PInt 1), (''b'', PNone)], [(''a'', PInt 1), (''b'', PInt 7)]])"
proof -
  let ?h = "[[(''a'', PInt 1), (''b'', PNone)]]"
  let ?h' = "[[(''a'', PInt 1), (''b'', PNone)], [(''a'', PInt 1), (''b'', PInt 7)]]"
  have l: "(0::nat) < length ?h" by simp
  have b: "backfilled ?h (Some (Inr (PDict [(''x'', PInt 7)]))) 0 ''b'' (Some ''x'')
       = (Inr 1, ?h')"
    by code_simp
  have f: "(\<forall>a. a < length ?h \<longrightarrow> ?h' ! a = ?h ! a)
        \<and> (\<forall>k'. k' \<noteq> ''b'' \<longrightarrow> map_of (?h' ! 1) k' = map_of (?h ! 0) k')"
    using backfilled_frame [OF l, where accepted = "Some (Inr (PDict [(''x'', PInt 7)]))"
        and key = "''b''" and data_source = "Some ''x''"]
    unfolding b by simp
  then have "?h' ! 0 = ?h ! 0" and "map_of (?h' ! 1) ''a'' = map_of (?h ! 0) ''a''"
    by simp_all
  then show ?thesis using l b by simp
qed

section \<open>Properties of the packaging script\<close>

lemma str_items_map: "str_items (map PStr xs) = Inr xs"
  by (induction xs) auto

lemma missing_parameters_names:
  "missing_parameters sw (map PStr names)
     = Inr (map PStr (filter (\<lambda>k. dict_get sw k = PNone) names))"
  by (induction names) auto

lemma tool_execute_plain:
  "\<not> switched (switches t) ''help'' False \<Longrightarrow> \<not> switched (switches t) ''version'' False \<Longrightarrow>
   tool_execute E False t = (Returned, t)"
  by (simp add: tool_execute_def)

lemma write_error_in_range:
  "0 \<le> c \<Longrightarrow> c \<le> 255 \<Longrightarrow>
   write_error (Some c) message prefix t
     = (None, print Stderr (prefix @ ''['' @ scriptname t @ ''] '' @ message) [newline]
                (t\<lparr>stored_exitcode := c\<rparr>))"
  by (simp add: write_error_def exitcode_setter_def set_exitcode_def)

lemma write_error_out_of_range:
  "255 < c \<Longrightarrow> write_error (Some c) message prefix t = (Some ValueError, t)"
  by (simp add: write_error_def exitcode_setter_def set_exitcode_def)

lemma handle_missing_parameter:
  assumes "m \<noteq> PStr ''BagIt''" "m \<noteq> PStr ''manifest''"
  shows "\<exists>t'. handle_assertion E [m, PList (map PStr names)] t = (None, t')
              \<and> stored_exitcode t' = 2"
  using assms
  by (simp add: handle_assertion_def py_iterable_def missing_parameters_names str_items_map
        write_error_in_range print_exitcode Let_def)

lemma handle_manifest:
  "\<exists>t'. handle_assertion E [PStr ''manifest'', m, PStr path, phrase] t = (None, t')
        \<and> stored_exitcode t' = 4"
  by (simp add: handle_assertion_def write_error_in_range print_exitcode)

lemma handle_bagit_stored:
  assumes "0 \<le> 100 + n" "n \<le> 155"
  shows "\<exists>t'. handle_assertion E [PStr ''BagIt'', m, PStr path, PInt n, PList (map PStr ls)] t
                = (None, t')
              \<and> stored_exitcode t' = 100 + n"
  using assms
  by (simp add: handle_assertion_def report_bagit_def write_error_in_range py_iterable_def
        str_items_map print_exitcode)

lemma handle_bagit_overflow:
  assumes "155 < n"
  shows "handle_assertion E [PStr ''BagIt'', m, PStr path, PInt n, out] t = (Some ValueError, t)"
  using assms
  by (simp add: handle_assertion_def report_bagit_def write_error_out_of_range)

lemma package_execute_assertion:
  assumes "\<not> switched (switches t) ''help'' False" "\<not> switched (switches t) ''version'' False"
    and "steps t = (Some (AssertionError args), u)"
  shows "package_execute E steps True t =
           (case handle_assertion E args u of
              (Some e, t2) \<Rightarrow> (Uncaught (Raised e), t2)
            | (None, t2) \<Rightarrow> (Exit (stored_exitcode t2), t2))"
  using assms
  by (simp add: package_execute_def tool_execute_plain tool_exit_def split: prod.splits option.splits)

text \<open>
  Claim C7, as amended. In a run of the packaging script without \<open>--help\<close> and
  \<open>--version\<close> whose steps fail with an \<open>AssertionError\<close>: a missing required parameter (a
  message and the list of the required names) ends the run with exit code 2; a manifest
  mismatch ends it with exit code 4; a failure of the BagIt validation with the tool's exit
  code \<open>n\<close> ends it with exit code \<open>100 + n\<close> as long as \<open>100 + n\<close> is between 0 and 255; for
  \<open>n\<close> above 155 no exit code is set, and the \<open>ValueError\<close> of the exit-code setter ends
  the run.
\<close>

theorem package_execute_exit_codes:
  assumes "\<not> switched (switches t) ''help'' False"
    and "\<not> switched (switches t) ''version'' False"
  shows "(steps t = (Some (AssertionError [m, PList (map PStr names)]), u)
            \<and> m \<noteq> PStr ''BagIt'' \<and> m \<noteq> PStr ''manifest'' \<longrightarrow>
          fst (package_execute E steps True t) = Exit 2)
       \<and> (steps t = (Some (AssertionError [PStr ''manifest'', m, PStr path, phrase]), u) \<longrightarrow>
          fst (package_execute E steps True t) = Exit 4)
       \<and> (steps t = (Some (AssertionError
                       [PStr ''BagIt'', m, PStr path, PInt n, PList (map PStr ls)]), u)
            \<and> 0 \<le> 100 + n \<and> n \<le> 155 \<longrightarrow>
          fst (package_execute E steps True t) = Exit (100 + n))
       \<and> (steps t = (Some (AssertionError [PStr ''BagIt'', m, PStr path, PInt n, out]), u)
            \<and> 155 < n \<longrightarrow>
          package_execute E steps True t = (Uncaught (Raised ValueError), u))"
proof -
  have 1: "fst (package_execute E steps True t) = Exit 2"
    if s: "steps t = (Some (AssertionError [m, PList (map PStr names)]), u)"
      and m: "m \<noteq> PStr ''BagIt''" "m \<noteq> PStr ''manifest''"
  proof -
    obtain t' where "handle_assertion E [m, PList (map PStr names)] u = (None, t')"
      "stored_exitcode t' = 2"
      using handle_missing_parameter [OF m] by blast
    then show ?thesis
      using package_execute_assertion [where steps = steps and E = E, OF assms s] by simp
  qed
  have 2: "fst (package_execute E steps True t) = Exit 4"
    if s: "steps t = (Some (AssertionError [PStr ''manifest'', m, PStr path, phrase]), u)"
  proof -
    obtain t' where "handle_assertion E [PStr ''manifest'', m, PStr path, phrase] u = (None, t')"
      "stored_exitcode t' = 4"
      using handle_manifest by blast
    then show ?thesis
      using package_execute_assertion [where steps = steps and E = E, OF assms s] by simp
  qed
  have 3: "fst (package_execute E steps True t) = Exit (100 + n)"
    if s: "steps t = (Some (AssertionError
                       [PStr ''BagIt'', m, PStr path, PInt n, PList (map PStr ls)]), u)"
      and n: "0 \<le> 100 + n" "n \<le> 155"
  proof -
    obtain t' where "handle_assertion E [PStr ''BagIt'', m, PStr path, PInt n, PList (map PStr ls)] u
                = (None, t')" "stored_exitcode t' = 100 + n"
      using handle_bagit_stored [OF n] by blast
    then show ?thesis
      using package_execute_assertion [where steps = steps and E = E, OF assms s] by simp
  qed
  have 4: "package_execute E steps True t = (Uncaught (Raised ValueError), u)"
    if s: "steps t = (Some (AssertionError [PStr ''BagIt'', m, PStr path, PInt n, out]), u)"
      and n: "155 < n"
  proof -
    have "handle_assertion E [PStr ''BagIt'', m, PStr path, PInt n, out] u
            = (Some ValueError, u)"
      using n by (rule handle_bagit_overflow)
    then show ?thesis
      using package_execute_assertion [where steps = steps and E = E, OF assms s] by simp
  qed
  show ?thesis using 1 2 3 4 by blast
qed


theorem package_execute_exit_codes_witness:
  "fst (package_execute sample_env
         (\<lambda>t. (Some (AssertionError [PStr ''Required parameters'', PList [PStr ''base_url'']]), t))
         True \<lparr>scriptname = ''adpn-do-package.py'', switches = [(''subdirectory'', PStr ''au1'')],
        verbose = 1, debug = 0, stored_exitcode = 0, stdout = [], stderr = []\<rparr>) = Exit 2
   \<and> fst (package_execute sample_env
         (\<lambda>t. (Some (AssertionError [PStr ''manifest'', PStr ''Manifest mismatch'',
                   PStr ''/au/manifest.html'', PStr ''ADPNet'']), t))
         True \<lparr>scriptname = ''adpn-do-package.py'', switches = [(''subdirectory'', PStr ''au1'')],
        verbose = 1, debug = 0, stored_exitcode = 0, stdout = [], stderr = []\<rparr>) = Exit 4
   \<and> fst (package_execute sample_env
         (\<lambda>t. (Some (AssertionError [PStr ''BagIt'', PStr ''BagIt validation failed'',
                   PStr ''/au'', PInt 3, PList [PStr ''line'']]), t))
         True \<lparr>scriptname = ''adpn-do-package.py'', switches = [(''subdirectory'', PStr ''au1'')],
        verbose = 1, debug = 0, stored_exitcode = 0, stdout = [], stderr = []\<rparr>) = Exit 103
   \<and> package_execute sample_env
         (\<lambda>t. (Some (AssertionError [PStr ''BagIt'', PStr ''BagIt validation failed'',
                   PStr ''/au'', PInt 200, PList [PStr ''line'']]), t))
         True \<lparr>scriptname = ''adpn-do-package.py'', switches = [(''subdirectory'', PStr ''au1'')],
        verbose = 1, debug = 0, stored_exitcode = 0, stdout = [], stderr = []\<rparr> = (Uncaught (Raised ValueError), \<lparr>scriptname = ''adpn-do-package.py'', switches = [(''subdirectory'', PStr ''au1'')],
        verbose = 1, debug = 0, stored_exitcode = 0, stdout = [], stderr = []\<rparr>)"
proof -
  let ?t = "\<lparr>scriptname = ''adpn-do-package.py'', switches = [(''subdirectory'', PStr ''au1'')],
        verbose = 1, debug = 0, stored_exitcode = 0, stdout = [], stderr = []\<rparr>"
  have h: "\<not> switched (switches ?t) ''help'' False" by code_simp
  have v: "\<not> switched (switches ?t) ''version'' False" by code_simp
  have 1: "fst (package_execute sample_env
         (\<lambda>t. (Some (AssertionError [PStr ''Required parameters'', PList [PStr ''base_url'']]), t))
         True ?t) = Exit 2"
    using package_execute_exit_codes [OF h v, where E = sample_env and u = ?t
        and steps = "\<lambda>t. (Some (AssertionError [PStr ''Required parameters'',
                       PList [PStr ''base_url'']]), t)"
        and m = "PStr ''Required parameters''" and names = "[''base_url'']"]
    by simp
  have 2: "fst (package_execute sample_env
         (\<lambda>t. (Some (AssertionError [PStr ''manifest'', PStr ''Manifest mismatch'',
                   PStr ''/au/manifest.html'', PStr ''ADPNet'']), t))
         True ?t) = Exit 4"
    using package_execute_exit_codes [OF h v, where E = sample_env and u = ?t
        and steps = "\<lambda>t. (Some (AssertionError [PStr ''manifest'', PStr ''Manifest mismatch'',
                   PStr ''/au/manifest.html'', PStr ''ADPNet'']), t)"
        and m = "PStr ''Manifest mismatch''" and path = "''/au/manifest.html''"
        and phrase = "PStr ''ADPNet''"]
    by simp
  have 3: "fst (package_execute sample_env
         (\<lambda>t. (Some (AssertionError [PStr ''BagIt'', PStr ''BagIt validation failed'',
                   PStr ''/au'', PInt 3, PList [PStr ''line'']]), t))
         True ?t) = Exit 103"
    using package_execute_exit_codes [OF h v, where E = sample_env and u = ?t
        and steps = "\<lambda>t. (Some (AssertionError [PStr ''BagIt'', PStr ''BagIt validation failed'',
                   PStr ''/au'', PInt 3, PList [PStr ''line'']]), t)"
        and m = "PStr ''BagIt validation failed''" and path = "''/au''" and n = 3
        and ls = "[''line'']"]
    by simp
  have 4: "package_execute sample_env
         (\<lambda>t. (Some (AssertionError [PStr ''BagIt'', PStr ''BagIt validation failed'',
                   PStr ''/au'', PInt 200, PList [PStr ''line'']]), t))
         True ?t = (Uncaught (Raised ValueError), ?t)"
    using package_execute_exit_codes [OF h v, where E = sample_env and u = ?t
        and steps = "\<lambda>t. (Some (AssertionError [PStr ''BagIt'', PStr ''BagIt validation failed'',
                   PStr ''/au'', PInt 200, PList [PStr ''line'']]), t)"
        and m = "PStr ''BagIt validation failed''" and path = "''/au''" and n = 200
        and out = "PList [PStr ''line'']"]
    by simp
  show ?thesis using 1 2 3 4 by simp
qed

text \<open>
  Claim C7 as the specification words it fails for a validation tool that ends with exit
  code 200: the packaging script does not exit with code 300, nor with any code of its
  own; the exit-code setter raises \<open>ValueError\<close>, which the handler does not catch, and
  the stored exit code is still 0.
\<close>

theorem package_execute_bagit_counterexample:
  "package_execute sample_env
     (\<lambda>t. (Some (AssertionError [PStr ''BagIt'', PStr ''BagIt validation failed'',
               PStr ''/au'', PInt 200, PList [PStr ''line'']]), t))
     True \<lparr>scriptname = ''adpn-do-package.py'', switches = [(''subdirectory'', PStr ''au1'')],
        verbose = 1, debug = 0, stored_exitcode = 0, stdout = [], stderr = []\<rparr> = (Uncaught (Raised ValueError), \<lparr>scriptname = ''adpn-do-package.py'', switches = [(''subdirectory'', PStr ''au1'')],
        verbose = 1, debug = 0, stored_exitcode = 0, stdout = [], stderr = []\<rparr>)
   \<and> fst (package_execute sample_env
     (\<lambda>t. (Some (AssertionError [PStr ''BagIt'', PStr ''BagIt validation failed'',
               PStr ''/au'', PInt 200, PList [PStr ''line'']]), t))
     True \<lparr>scriptname = ''adpn-do-package.py'', switches = [(''subdirectory'', PStr ''au1'')],
        verbose = 1, debug = 0, stored_exitcode = 0, stdout = [], stderr = []\<rparr>) \<noteq> Exit (100 + 200)"
  by code_simp

section \<open>Properties of the JSON query tool\<close>

text \<open>
  The object that the examples start from is the one \<open>__init__\<close> builds when the switches
  set neither \<open>quiet\<close> nor \<open>verbose\<close> nor \<open>debug\<close>.
\<close>

lemma init_getjson_fresh:
  assumes "dict_get sw ''quiet'' = PNone" "dict_get sw ''verbose'' = PNone"
    "dict_get sw ''debug'' = PNone"
  shows "init_getjson maxd ''adpn-json.py'' sw = Inr (fresh_getjson sw)"
proof -
  have "init_tool maxd ''adpn-json.py'' sw
          = Inr \<lparr>scriptname = ''adpn-json.py'', switches = sw, verbose = 0, debug = 0,
                 stored_exitcode = 0, stdout = [], stderr = []\<rparr>"
    using assms
    by (simp add: init_tool_def exitcode_setter_def set_exitcode_def verbose_setter_def
          convertto_numeric_value_def match_empty)
  then show ?thesis by (simp add: init_getjson_def fresh_getjson_def)
qed

lemma get_output_terminator_eq:
  "wants_table t = Inr b \<Longrightarrow>
   get_output_terminator t = Inr (if b \<or> 1 < length (output_lines t) then [newline] else [])"
  by (simp add: get_output_terminator_def is_multiline_output_def)

lemma write_output_stdout:
  "out \<noteq> [] \<Longrightarrow>
   write_output tmpl e out t = t\<lparr>stdout := stdout t @ [join [newline] (map tmpl out) @ e]\<rparr>"
  by (simp add: write_output_def print_def Let_def)

lemma write_output_empty: "write_output tmpl e [] t = t"
  by (simp add: write_output_def)

lemma emit_eq:
  "wants_table t = Inr b \<Longrightarrow>
   emit J t = (None, write_output (format_line J t)
                       (if b \<or> 1 < length (output_lines t) then [newline] else [])
                       (output_lines t) t)"
  by (simp add: emit_def get_output_terminator_eq)

text \<open>
  Claim C5, as amended. In the formatting pass the buffer of output entries is printed
  once: each entry goes through \<open>format_line\<close>, the entries are joined by line feeds, and
  the text ends with the terminator, which is a line feed if table mode is active or the
  buffer holds more than one entry, and nothing otherwise. For an empty buffer nothing is
  printed. \<open>format_line\<close> puts the prolog of the store before an entry when \<open>prolog\<close> is
  switched and a line feed after it when \<open>epilog\<close> is switched. So a single entry outside
  table mode is emitted as it is, with nothing after it, when neither \<open>prolog\<close> nor
  \<open>epilog\<close> is switched, and is followed by a line feed when \<open>epilog\<close> is switched. The
  query branch of \<open>execute\<close> ends with this pass whenever the input was read and the table
  rendered into the buffer.
\<close>

theorem output_terminator_rule:
  assumes "wants_table t = Inr b"
  shows "get_output_terminator t
           = Inr (if b \<or> 1 < length (output_lines t) then [newline] else [])
       \<and> (output_lines t = [] \<longrightarrow> emit J t = (None, t))
       \<and> (output_lines t \<noteq> [] \<longrightarrow>
            emit J t =
              (None, t\<lparr>stdout := stdout t @
                 [join [newline] (map (format_line J t) (output_lines t))
                    @ (if b \<or> 1 < length (output_lines t) then [newline] else [])]\<rparr>))
       \<and> format_line J t line
            = (if switched (switches t) ''prolog'' False
               then add_prolog J (fst (json_store J t)) line else line)
              @ (if switched (switches t) ''epilog'' False then [newline] else [])
       \<and> (\<not> b \<and> output_lines t = [line] \<and> \<not> switched (switches t) ''prolog'' False
            \<and> \<not> switched (switches t) ''epilog'' False \<longrightarrow>
            emit J t = (None, t\<lparr>stdout := stdout t @ [line]\<rparr>))
       \<and> (\<not> b \<and> output_lines t = [line] \<and> \<not> switched (switches t) ''prolog'' False
            \<and> switched (switches t) ''epilog'' False \<longrightarrow>
            emit J t = (None, t\<lparr>stdout := stdout t @ [line @ [newline]]\<rparr>))
       \<and> (get_json_input J E lines ta = (Inr table, tb)
            \<and> display_data E table table (dict_get (switches tb) ''parse'') 0 tb = (None, t)
            \<longrightarrow> query J E lines ta = emit J t)"
proof -
  note em = emit_eq [OF assms, of J]
  have 1: "get_output_terminator t
           = Inr (if b \<or> 1 < length (output_lines t) then [newline] else [])"
    by (rule get_output_terminator_eq [OF assms])
  have 2: "output_lines t = [] \<longrightarrow> emit J t = (None, t)"
    by (simp add: em write_output_empty)
  have 3: "output_lines t \<noteq> [] \<longrightarrow>
            emit J t =
              (None, t\<lparr>stdout := stdout t @
                 [join [newline] (map (format_line J t) (output_lines t))
                    @ (if b \<or> 1 < length (output_lines t) then [newline] else [])]\<rparr>)"
    by (simp add: em write_output_stdout)
  have 4: "format_line J t line
            = (if switched (switches t) ''prolog'' False
               then add_prolog J (fst (json_store J t)) line else line)
              @ (if switched (switches t) ''epilog'' False then [newline] else [])"
    by (simp add: format_line_def Let_def)
  have 5: "\<not> b \<and> output_lines t = [line] \<and> \<not> switched (switches t) ''prolog'' False
            \<and> \<not> switched (switches t) ''epilog'' False \<longrightarrow>
            emit J t = (None, t\<lparr>stdout := stdout t @ [line]\<rparr>)"
    by (simp add: em write_output_stdout 4)
  have 6: "\<not> b \<and> output_lines t = [line] \<and> \<not> switched (switches t) ''prolog'' False
            \<and> switched (switches t) ''epilog'' False \<longrightarrow>
            emit J t = (None, t\<lparr>stdout := stdout t @ [line @ [newline]]\<rparr>)"
    by (simp add: em write_output_stdout 4)
  have 7: "get_json_input J E lines ta = (Inr table, tb)
            \<and> display_data E table table (dict_get (switches tb) ''parse'') 0 tb = (None, t)
            \<longrightarrow> query J E lines ta = emit J t"
    by (simp add: query_def)
  from 1 2 3 4 5 6 7 show ?thesis by (intro conjI)
qed

theorem output_terminator_rule_witness:
  "stdout (snd (query sample_store sample_env [packet_line]
                  (fresh_getjson [(''key'', PList [PStr ''a''])]))) = [''1'']
   \<and> stdout (snd (query sample_store sample_env [packet_line]
                  (fresh_getjson [(''key'', PList [PStr ''a'']),
                                  (''epilog'', PStr ''epilog'')])))
        = [''1'' @ [newline]]
   \<and> stdout (snd (query sample_store sample_env [packet_line]
                  (fresh_getjson [(''key'', PList [PStr ''a'', PStr ''b''])])))
        = [''a'' @ [tab] @ ''1'' @ [newline] @ ''b'' @ [tab] @ ''2'' @ [newline]]
   \<and> stdout (snd (query sample_store sample_env [packet_line]
                  (fresh_getjson [(''key'', PList [PStr ''a'', PStr ''b'']),
                                  (''output'', PStr ''text/tab-separated-values'')])))
        = [''a'' @ [tab] @ ''1'' @ [tab] @ ''b'' @ [tab] @ ''2'' @ [newline]]
   \<and> stdout (snd (query sample_store sample_env [packet_line]
                  (fresh_getjson [(''key'', PList [PStr ''missing''])]))) = []"
proof -
  let ?table = "PDict [(''a'', PInt 1), (''b'', PInt 2)]"
  have 1: "stdout (snd (query sample_store sample_env [packet_line]
                  (fresh_getjson [(''key'', PList [PStr ''a''])]))) = [''1'']"
  proof -
    let ?t = "fresh_getjson [(''key'', PList [PStr ''a''])]"
    let ?t1 = "snd (get_json_input sample_store sample_env [packet_line] ?t)"
    let ?t2 = "snd (display_data sample_env ?table ?table (dict_get (switches ?t1) ''parse'') 0 ?t1)"
    have "fst (get_json_input sample_store sample_env [packet_line] ?t) = Inr ?table"
      by code_simp
    then have a1: "get_json_input sample_store sample_env [packet_line] ?t = (Inr ?table, ?t1)"
      by (simp add: prod_eq_iff)
    have "fst (display_data sample_env ?table ?table (dict_get (switches ?t1) ''parse'') 0 ?t1)
            = None"
      by code_simp
    then have a2: "display_data sample_env ?table ?table (dict_get (switches ?t1) ''parse'') 0 ?t1
            = (None, ?t2)"
      by (simp add: prod_eq_iff)
    have a3: "wants_table ?t2 = Inr False" by code_simp
    have a4: "output_lines ?t2 = [''1'']" by code_simp
    have a5: "stdout ?t2 = []" by code_simp
    have a6: "\<not> switched (switches ?t2) ''prolog'' False
              \<and> \<not> switched (switches ?t2) ''epilog'' False"
      by code_simp
    note th = output_terminator_rule [OF a3, where J = sample_store and E = sample_env
        and lines = "[packet_line]" and ta = ?t and tb = ?t1 and table = ?table
        and line = "''1''"]
    have "query sample_store sample_env [packet_line] ?t = emit sample_store ?t2"
      using th a1 a2 by blast
    moreover have "emit sample_store ?t2 = (None, ?t2\<lparr>stdout := stdout ?t2 @ [''1'']\<rparr>)"
      using th a4 a6 by blast
    ultimately show ?thesis by (simp add: a5)
  qed
  have 2: "stdout (snd (query sample_store sample_env [packet_line]
                  (fresh_getjson [(''key'', PList [PStr ''a'']),
                                  (''epilog'', PStr ''epilog'')])))
        = [''1'' @ [newline]]"
  proof -
    let ?t = "fresh_getjson [(''key'', PList [PStr ''a'']), (''epilog'', PStr ''epilog'')]"
    let ?t1 = "snd (get_json_input sample_store sample_env [packet_line] ?t)"
    let ?t2 = "snd (display_data sample_env ?table ?table (dict_get (switches ?t1) ''parse'') 0 ?t1)"
    have "fst (get_json_input sample_store sample_env [packet_line] ?t) = Inr ?table"
      by code_simp
    then have a1: "get_json_input sample_store sample_env [packet_line] ?t = (Inr ?table, ?t1)"
      by (simp add: prod_eq_iff)
    have "fst (display_data sample_env ?table ?table (dict_get (switches ?t1) ''parse'') 0 ?t1)
            = None"
      by code_simp
    then have a2: "display_data sample_env ?table ?table (dict_get (switches ?t1) ''parse'') 0 ?t1
            = (None, ?t2)"
      by (simp add: prod_eq_iff)
    have a3: "wants_table ?t2 = Inr False" by code_simp
    have a4: "output_lines ?t2 = [''1'']" by code_simp
    have a5: "stdout ?t2 = []" by code_simp
    have a6: "\<not> switched (switches ?t2) ''prolog'' False
              \<and> switched (switches ?t2) ''epilog'' False"
      by code_simp
    note th = output_terminator_rule [OF a3, where J = sample_store and E = sample_env
        and lines = "[packet_line]" and ta = ?t and tb = ?t1 and table = ?table
        and line = "''1''"]
    have "query sample_store sample_env [packet_line] ?t = emit sample_store ?t2"
      using th a1 a2 by blast
    moreover have "emit sample_store ?t2
                     = (None, ?t2\<lparr>stdout := stdout ?t2 @ [''1'' @ [newline]]\<rparr>)"
      using th a4 a6 by blast
    ultimately show ?thesis by (simp add: a5)
  qed
  have 3: "stdout (snd (query sample_store sample_env [packet_line]
                  (fresh_getjson [(''key'', PList [PStr ''a'', PStr ''b''])])))
        = [''a'' @ [tab] @ ''1'' @ [newline] @ ''b'' @ [tab] @ ''2'' @ [newline]]"
  proof -
    let ?t = "fresh_getjson [(''key'', PList [PStr ''a'', PStr ''b''])]"
    let ?t1 = "snd (get_json_input sample_store sample_env [packet_line] ?t)"
    let ?t2 = "snd (display_data sample_env ?table ?table (dict_get (switches ?t1) ''parse'') 0 ?t1)"
    have "fst (get_json_input sample_store sample_env [packet_line] ?t) = Inr ?table"
      by code_simp
    then have a1: "get_json_input sample_store sample_env [packet_line] ?t = (Inr ?table, ?t1)"
      by (simp add: prod_eq_iff)
    have "fst (display_data sample_env ?table ?table (dict_get (switches ?t1) ''parse'') 0 ?t1)
            = None"
      by code_simp
    then have a2: "display_data sample_env ?table ?table (dict_get (switches ?t1) ''parse'') 0 ?t1
            = (None, ?t2)"
      by (simp add: prod_eq_iff)
    have a3: "wants_table ?t2 = Inr False" by code_simp
    have a4: "output_lines ?t2 \<noteq> [] \<and> 1 < length (output_lines ?t2)" by code_simp
    have a5: "stdout ?t2 = []" by code_simp
    have a6: "join [newline] (map (format_line sample_store ?t2) (output_lines ?t2)) @ [newline]
                = ''a'' @ [tab] @ ''1'' @ [newline] @ ''b'' @ [tab] @ ''2'' @ [newline]"
      by code_simp
    note th = output_terminator_rule [OF a3, where J = sample_store and E = sample_env
        and lines = "[packet_line]" and ta = ?t and tb = ?t1 and table = ?table]
    have "query sample_store sample_env [packet_line] ?t = emit sample_store ?t2"
      using th a1 a2 by blast
    moreover have "emit sample_store ?t2
            = (None, ?t2\<lparr>stdout := stdout ?t2 @
                 [join [newline] (map (format_line sample_store ?t2) (output_lines ?t2))
                    @ [newline]]\<rparr>)"
      using th a4 by simp
    ultimately show ?thesis by (simp add: a5 a6)
  qed
  have 4: "stdout (snd (query sample_store sample_env [packet_line]
                  (fresh_getjson [(''key'', PList [PStr ''a'', PStr ''b'']),
                                  (''output'', PStr ''text/tab-separated-values'')])))
        = [''a'' @ [tab] @ ''1'' @ [tab] @ ''b'' @ [tab] @ ''2'' @ [newline]]"
  proof -
    let ?t = "fresh_getjson [(''key'', PList [PStr ''a'', PStr ''b'']),
                             (''output'', PStr ''text/tab-separated-values'')]"
    let ?t1 = "snd (get_json_input sample_store sample_env [packet_line] ?t)"
    let ?t2 = "snd (display_data sample_env ?table ?table (dict_get (switches ?t1) ''parse'') 0 ?t1)"
    have "fst (get_json_input sample_store sample_env [packet_line] ?t) = Inr ?table"
      by code_simp
    then have a1: "get_json_input sample_store sample_env [packet_line] ?t = (Inr ?table, ?t1)"
      by (simp add: prod_eq_iff)
    have "fst (display_data sample_env ?table ?table (dict_get (switches ?t1) ''parse'') 0 ?t1)
            = None"
      by code_simp
    then have a2: "display_data sample_env ?table ?table (dict_get (switches ?t1) ''parse'') 0 ?t1
            = (None, ?t2)"
      by (simp add: prod_eq_iff)
    have a3: "wants_table ?t2 = Inr True" by code_simp
    have a4: "output_lines ?t2 \<noteq> []" by code_simp
    have a5: "stdout ?t2 = []" by code_simp
    have a6: "join [newline] (map (format_line sample_store ?t2) (output_lines ?t2)) @ [newline]
                = ''a'' @ [tab] @ ''1'' @ [tab] @ ''b'' @ [tab] @ ''2'' @ [newline]"
      by code_simp
    note th = output_terminator_rule [OF a3, where J = sample_store and E = sample_env
        and lines = "[packet_line]" and ta = ?t and tb = ?t1 and table = ?table]
    have "query sample_store sample_env [packet_line] ?t = emit sample_store ?t2"
      using th a1 a2 by blast
    moreover have "emit sample_store ?t2
            = (None, ?t2\<lparr>stdout := stdout ?t2 @
                 [join [newline] (map (format_line sample_store ?t2) (output_lines ?t2))
                    @ [newline]]\<rparr>)"
      using th a4 by simp
    ultimately show ?thesis by (simp add: a5 a6)
  qed
  have 5: "stdout (snd (query sample_store sample_env [packet_line]
                  (fresh_getjson [(''key'', PList [PStr ''missing''])]))) = []"
  proof -
    let ?t = "fresh_getjson [(''key'', PList [PStr ''missing''])]"
    let ?t1 = "snd (get_json_input sample_store sample_env [packet_line] ?t)"
    let ?t2 = "snd (display_data sample_env ?table ?table (dict_get (switches ?t1) ''parse'') 0 ?t1)"
    have "fst (get_json_input sample_store sample_env [packet_line] ?t) = Inr ?table"
      by code_simp
    then have a1: "get_json_input sample_store sample_env [packet_line] ?t = (Inr ?table, ?t1)"
      by (simp add: prod_eq_iff)
    have "fst (display_data sample_env ?table ?table (dict_get (switches ?t1) ''parse'') 0 ?t1)
            = None"
      by code_simp
    then have a2: "display_data sample_env ?table ?table (dict_get (switches ?t1) ''parse'') 0 ?t1
            = (None, ?t2)"
      by (simp add: prod_eq_iff)
    have a3: "wants_table ?t2 = Inr False" by code_simp
    have a4: "output_lines ?t2 = []" by code_simp
    have a5: "stdout ?t2 = []" by code_simp
    note th = output_terminator_rule [OF a3, where J = sample_store and E = sample_env
        and lines = "[packet_line]" and ta = ?t and tb = ?t1 and table = ?table]
    have "query sample_store sample_env [packet_line] ?t = emit sample_store ?t2"
      using th a1 a2 by blast
    moreover have "emit sample_store ?t2 = (None, ?t2)"
      using th a4 by blast
    ultimately show ?thesis by (simp add: a5)
  qed
  show ?thesis using 1 2 3 4 5 by simp
qed

text \<open>
  Claim C5 as the specification words it fails when \<open>epilog\<close> is switched: the key \<open>a\<close> of
  the packet \<open>{"a":1,"b":2}\<close> is rendered as the single entry \<open>1\<close>, table mode is not
  active and the terminator is empty, and yet the text emitted ends with a line feed,
  which \<open>format_line\<close> has put after the entry.
\<close>

theorem output_terminator_epilog_counterexample:
  "output_lines (snd (display_data sample_env (PDict [(''a'', PInt 1), (''b'', PInt 2)])
                        (PDict [(''a'', PInt 1), (''b'', PInt 2)]) PNone 0
                        (fresh_getjson [(''key'', PList [PStr ''a'']),
                                        (''epilog'', PStr ''epilog'')])))
     = [''1'']
   \<and> wants_table (snd (display_data sample_env (PDict [(''a'', PInt 1), (''b'', PInt 2)])
                        (PDict [(''a'', PInt 1), (''b'', PInt 2)]) PNone 0
                        (fresh_getjson [(''key'', PList [PStr ''a'']),
                                        (''epilog'', PStr ''epilog'')])))
     = Inr False
   \<and> get_output_terminator
        (snd (display_data sample_env (PDict [(''a'', PInt 1), (''b'', PInt 2)])
                (PDict [(''a'', PInt 1), (''b'', PInt 2)]) PNone 0
                (fresh_getjson [(''key'', PList [PStr ''a'']),
                                (''epilog'', PStr ''epilog'')])))
     = Inr []
   \<and> stdout (snd (emit sample_store
        (snd (display_data sample_env (PDict [(''a'', PInt 1), (''b'', PInt 2)])
                (PDict [(''a'', PInt 1), (''b'', PInt 2)]) PNone 0
                (fresh_getjson [(''key'', PList [PStr ''a'']),
                                (''epilog'', PStr ''epilog'')])))))
     = [''1'' @ [newline]]
   \<and> stdout (snd (query sample_store sample_env [packet_line]
                  (fresh_getjson [(''key'', PList [PStr ''a'']),
                                  (''epilog'', PStr ''epilog'')])))
     = [''1'' @ [newline]]"
  by code_simp

lemma json_store_fields:
  "accept_calls (snd (json_store J t)) = accept_calls t"
  "switches (snd (json_store J t)) = switches t"
  "flags (snd (json_store J t)) = flags t"
  "output_lines (snd (json_store J t)) = output_lines t"
  "default_mime (snd (json_store J t)) = default_mime t"
  "stdout (snd (json_store J t)) = stdout t"
  "stderr (snd (json_store J t)) = stderr t"
  by (simp_all add: json_store_def Let_def split: option.splits)

lemma store_accept_fields:
  "accept_calls (snd (store_accept J screen lines t)) = accept_calls t @ [screen]"
  "switches (snd (store_accept J screen lines t)) = switches t"
  "flags (snd (store_accept J screen lines t)) = flags t"
  "output_lines (snd (store_accept J screen lines t)) = output_lines t"
  "default_mime (snd (store_accept J screen lines t)) = default_mime t"
  "stdout (snd (store_accept J screen lines t)) = stdout t"
  "stderr (snd (store_accept J screen lines t)) = stderr t"
  using json_store_fields [of J t]
  by (auto simp: store_accept_def split: prod.splits)

lemma store_select_where_fields:
  "accept_calls (snd (store_select_where J E t)) = accept_calls t"
  "switches (snd (store_select_where J E t)) = switches t"
  "flags (snd (store_select_where J E t)) = flags t"
  "output_lines (snd (store_select_where J E t)) = output_lines t"
  "default_mime (snd (store_select_where J E t)) = default_mime t"
  "stdout (snd (store_select_where J E t)) = stdout t"
  "stderr (snd (store_select_where J E t)) = stderr t"
  using json_store_fields [of J t]
  by (auto simp: store_select_where_def split: prod.splits sum.splits)

lemma store_allData_fields:
  "accept_calls (snd (store_allData J t)) = accept_calls t"
  "switches (snd (store_allData J t)) = switches t"
  "flags (snd (store_allData J t)) = flags t"
  "output_lines (snd (store_allData J t)) = output_lines t"
  "default_mime (snd (store_allData J t)) = default_mime t"
  "stdout (snd (store_allData J t)) = stdout t"
  "stderr (snd (store_allData J t)) = stderr t"
  using json_store_fields [of J t]
  by (auto simp: store_allData_def split: prod.splits)

lemma direct_pass_fields:
  "accept_calls (snd (direct_pass J E lines t)) = accept_calls t @ [False]"
  "switches (snd (direct_pass J E lines t)) = switches t"
  "flags (snd (direct_pass J E lines t)) = flags t"
  "output_lines (snd (direct_pass J E lines t)) = output_lines t"
  "default_mime (snd (direct_pass J E lines t)) = default_mime t"
  "stdout (snd (direct_pass J E lines t)) = stdout t"
  "stderr (snd (direct_pass J E lines t)) = stderr t"
  using store_accept_fields [of J False lines t]
    store_select_where_fields [of J E "snd (store_accept J False lines t)"]
  by (auto simp: direct_pass_def split: prod.splits option.splits)

lemma screen_pass_fields:
  "accept_calls (snd (screen_pass J E lines t)) = accept_calls t @ [True]"
  "switches (snd (screen_pass J E lines t)) = switches t"
  "flags (snd (screen_pass J E lines t)) = flags t"
  "output_lines (snd (screen_pass J E lines t)) = output_lines t"
  "default_mime (snd (screen_pass J E lines t)) = default_mime t"
  "stdout (snd (screen_pass J E lines t)) = stdout t"
  "stderr (snd (screen_pass J E lines t)) = stderr t"
  using store_accept_fields [of J True lines t]
    store_select_where_fields [of J E "snd (store_accept J True lines t)"]
    store_allData_fields [of J "snd (store_select_where J E (snd (store_accept J True lines t)))"]
  by (auto simp: screen_pass_def split: prod.splits option.splits)


lemma read_table_direct:
  "fst (direct_pass J E lines t) \<noteq> Some JSONDecodeError \<Longrightarrow>
   accept_calls (snd (read_table J E lines t)) = accept_calls t @ [False]"
  using direct_pass_fields(1) [of J E lines t]
    store_allData_fields(1) [of J "snd (direct_pass J E lines t)"]
  by (auto simp: read_table_def split: prod.splits option.splits)

lemma read_table_screen:
  "fst (direct_pass J E lines t) = Some JSONDecodeError \<Longrightarrow>
   read_table J E lines t = screen_pass J E lines (snd (direct_pass J E lines t))"
  by (auto simp: read_table_def split: prod.splits option.splits)

lemma get_json_input_state:
  "snd (get_json_input J E lines t) = snd (read_table J E lines t)"
  by (auto simp: get_json_input_def split: prod.splits sum.splits)

text \<open>
  Claim C4. \<open>get_json_input\<close> calls \<open>accept\<close> first without \<open>screen\<close>. When that direct pass
  raises no decode error, \<open>accept\<close> is not called again, and a pass that ends without
  exception yields the table of the store as it stands. When the direct pass raises
  \<open>JSONDecodeError\<close>, \<open>accept\<close> is called once more, with \<open>screen=True\<close> and the same lines,
  and the table is the one this screen pass yields. With the store of the specification
  the line \<open>Some noise {"k":1} trailing text\<close> fails the direct pass and yields the packet
  \<open>{"k": 1}\<close>.
\<close>

theorem screen_only_after_decode_error:
  "(fst (direct_pass J E lines t) \<noteq> Some JSONDecodeError \<longrightarrow>
      accept_calls (snd (get_json_input J E lines t)) = accept_calls t @ [False])
   \<and> (fst (direct_pass J E lines t) = None \<longrightarrow>
      read_table J E lines t = (case store_allData J (snd (direct_pass J E lines t)) of
                                  (table, t') \<Rightarrow> (Inr table, t')))
   \<and> (fst (direct_pass J E lines t) = Some JSONDecodeError \<longrightarrow>
      accept_calls (snd (get_json_input J E lines t)) = accept_calls t @ [False, True]
      \<and> read_table J E lines t = screen_pass J E lines (snd (direct_pass J E lines t)))
   \<and> accept_calls (snd (direct_pass J E lines t)) = accept_calls t @ [False]
   \<and> accept_calls (snd (screen_pass J E lines u)) = accept_calls u @ [True]
   \<and> fst (direct_pass sample_store sample_env [noisy_line] (fresh_getjson []))
        = Some JSONDecodeError
   \<and> fst (get_json_input sample_store sample_env [noisy_line] (fresh_getjson []))
        = Inr (PDict [(''k'', PInt 1)])
   \<and> accept_calls (snd (get_json_input sample_store sample_env [noisy_line] (fresh_getjson [])))
        = [False, True]"
proof -
  have 1: "fst (direct_pass J E lines t) \<noteq> Some JSONDecodeError \<longrightarrow>
      accept_calls (snd (get_json_input J E lines t)) = accept_calls t @ [False]"
    by (simp add: get_json_input_state read_table_direct)
  have 2: "fst (direct_pass J E lines t) = None \<longrightarrow>
      read_table J E lines t = (case store_allData J (snd (direct_pass J E lines t)) of
                                  (table, t') \<Rightarrow> (Inr table, t'))"
    by (auto simp: read_table_def split: prod.splits option.splits)
  have 3: "fst (direct_pass J E lines t) = Some JSONDecodeError \<longrightarrow>
      accept_calls (snd (get_json_input J E lines t)) = accept_calls t @ [False, True]
      \<and> read_table J E lines t = screen_pass J E lines (snd (direct_pass J E lines t))"
    by (simp add: get_json_input_state read_table_screen screen_pass_fields(1)
          direct_pass_fields(1))
  have 4: "accept_calls (snd (direct_pass J E lines t)) = accept_calls t @ [False]"
    by (rule direct_pass_fields(1))
  have 5: "accept_calls (snd (screen_pass J E lines u)) = accept_calls u @ [True]"
    by (rule screen_pass_fields(1))
  have 6: "fst (direct_pass sample_store sample_env [noisy_line] (fresh_getjson []))
        = Some JSONDecodeError"
    by code_simp
  have 7: "fst (get_json_input sample_store sample_env [noisy_line] (fresh_getjson []))
        = Inr (PDict [(''k'', PInt 1)])"
    by code_simp
  have 8: "accept_calls (snd (get_json_input sample_store sample_env [noisy_line]
                                (fresh_getjson [])))
        = [False, True]"
    by code_simp
  show ?thesis using 1 2 3 4 5 6 7 8 by blast
qed

theorem screen_only_after_decode_error_witness:
  "fst (direct_pass sample_store sample_env [packet_line] (fresh_getjson [])) = None
   \<and> accept_calls (snd (get_json_input sample_store sample_env [packet_line]
                          (fresh_getjson []))) = [False]
   \<and> fst (read_table sample_store sample_env [packet_line] (fresh_getjson []))
       = Inr (PDict [(''a'', PInt 1), (''b'', PInt 2)])
   \<and> fst (direct_pass sample_store sample_env [noisy_line] (fresh_getjson []))
       = Some JSONDecodeError
   \<and> accept_calls (snd (get_json_input sample_store sample_env [noisy_line]
                          (fresh_getjson []))) = [False, True]
   \<and> fst (screen_pass sample_store sample_env [noisy_line]
            (snd (direct_pass sample_store sample_env [noisy_line] (fresh_getjson []))))
       = Inr (PDict [(''k'', PInt 1)])"
proof -
  let ?t = "fresh_getjson [] :: (bool \<times> string \<times> pydict) getjson"
  have c: "accept_calls ?t = []" by (simp add: fresh_getjson_def)
  have d1: "fst (direct_pass sample_store sample_env [packet_line] ?t) = None"
    by code_simp
  have a1: "fst (case store_allData sample_store
                        (snd (direct_pass sample_store sample_env [packet_line] ?t)) of
                   (table, t') \<Rightarrow> (Inr table :: error + pyval, t'))
              = Inr (PDict [(''a'', PInt 1), (''b'', PInt 2)])"
    by code_simp
  have d2: "fst (direct_pass sample_store sample_env [noisy_line] ?t) = Some JSONDecodeError"
    by code_simp
  have a2: "fst (read_table sample_store sample_env [noisy_line] ?t)
              = Inr (PDict [(''k'', PInt 1)])"
    by code_simp
  note th1 = screen_only_after_decode_error [where J = sample_store and E = sample_env
      and lines = "[packet_line]" and t = ?t and u = ?t]
  note th2 = screen_only_after_decode_error [where J = sample_store and E = sample_env
      and lines = "[noisy_line]" and t = ?t and u = ?t]
  have 1: "accept_calls (snd (get_json_input sample_store sample_env [packet_line] ?t))
             = [False]"
    using th1 d1 c by simp
  have 2: "fst (read_table sample_store sample_env [packet_line] ?t)
             = Inr (PDict [(''a'', PInt 1), (''b'', PInt 2)])"
    using th1 d1 a1 by simp
  have 3: "accept_calls (snd (get_json_input sample_store sample_env [noisy_line] ?t))
             = [False, True]"
    using th2 d2 c by simp
  have 4: "fst (screen_pass sample_store sample_env [noisy_line]
            (snd (direct_pass sample_store sample_env [noisy_line] ?t)))
             = Inr (PDict [(''k'', PInt 1)])"
    using th2 d2 a2 by simp
  show ?thesis using d1 1 2 d2 3 4 by simp
qed

lemma getjson_exit_code:
  "getjson_exit t = (Exit (flag_code (flags t)), t\<lparr>stored_exitcode := flag_code (flags t)\<rparr>)"
  by (simp add: getjson_exit_def getjson_exitcode_def test_flagged_def flag_code_def Let_def)

lemma getjson_exit_flags:
  "getjson_exit t = (x, t') \<Longrightarrow> x = Exit (flag_code (flags t'))"
  by (auto simp: getjson_exit_code)

lemma print_flags: "flags (print s text e t) = flags t"
  by (cases s) (simp_all add: print_def)

lemma getjson_display_usage_flags:
  "getjson_display_usage E t = (Exit c, t') \<Longrightarrow> c = flag_code (flags t')"
  by (auto simp: getjson_display_usage_def exitcode_setter_def set_exitcode_def
        dest: getjson_exit_flags split: prod.splits option.splits if_splits)

lemma getjson_display_version_flags:
  "getjson_display_version E t = (Exit c, t') \<Longrightarrow> c = flag_code (flags t')"
  by (auto simp: getjson_display_version_def exitcode_setter_def set_exitcode_def
        dest: getjson_exit_flags split: prod.splits option.splits if_splits)

lemma getjson_execute_exit:
  assumes "getjson_execute J E lines terminate t = (Exit c, t')"
  shows "c = flag_code (flags t')"
proof (cases "switched (switches t) ''help'' False")
  case True
  then show ?thesis using assms
    by (auto simp: getjson_execute_def dest: getjson_display_usage_flags)
next
  case h: False
  show ?thesis
  proof (cases "switched (switches t) ''version'' False")
    case True
    then show ?thesis using assms h
      by (auto simp: getjson_execute_def dest: getjson_display_version_flags)
  next
    case v: False
    show ?thesis
      using assms h v
      by (auto simp: getjson_execute_def dest: getjson_exit_flags
            split: if_splits prod.splits option.splits)
  qed
qed


lemma read_table_fields:
  "switches (snd (read_table J E lines t)) = switches t"
  "flags (snd (read_table J E lines t)) = flags t"
  "default_mime (snd (read_table J E lines t)) = default_mime t"
proof -
  let ?d = "snd (direct_pass J E lines t)"
  have "switches (snd (read_table J E lines t)) = switches t
      \<and> flags (snd (read_table J E lines t)) = flags t
      \<and> default_mime (snd (read_table J E lines t)) = default_mime t"
    using direct_pass_fields [of J E lines t] screen_pass_fields [of J E lines ?d]
      store_allData_fields [of J ?d]
    by (auto simp: read_table_def split: prod.splits option.splits)
  then show "switches (snd (read_table J E lines t)) = switches t"
    "flags (snd (read_table J E lines t)) = flags t"
    "default_mime (snd (read_table J E lines t)) = default_mime t"
    by simp_all
qed

lemma get_json_input_fields:
  assumes "get_json_input J E lines t = (r, t1)"
  shows "switches t1 = switches t" "flags t1 = flags t" "default_mime t1 = default_mime t"
  using assms get_json_input_state [of J E lines t] read_table_fields [of J E lines t]
  by simp_all

lemma display_keys_single_missing:
  "map_of d k = None \<Longrightarrow>
   display_keys E d ctx parse depth aSpec n paired [PStr k] st u
     = (Some KeyError, (fst st, fst (snd st), Some (PStr k)), u)"
  by (simp add: display_keys.simps subscript_def)

lemma display_keys_missing:
  assumes "2 \<le> n" and "\<exists>k\<in>set ks. map_of d k = None"
  shows "\<exists>oj ot k'. display_keys E d ctx parse depth aSpec n paired (map PStr ks) st u
           = (Some KeyError, (oj, ot, Some (PStr k')), u)"
  using assms(2)
proof (induction ks arbitrary: st)
  case Nil
  then show ?case by simp
next
  case (Cons k0 ks)
  show ?case
  proof (cases "map_of d k0")
    case None
    then show ?thesis by (simp add: display_keys.simps subscript_def)
  next
    case (Some v)
    then have rest: "\<exists>k\<in>set ks. map_of d k = None" using Cons.prems by auto
    have n: "\<not> n < 2" using assms(1) by simp
    show ?thesis
      using Some n Cons.IH [OF rest]
      by (simp add: display_keys.simps subscript_def)
  qed
qed

lemma display_keys_reaches_missing:
  assumes "k \<in> set ks" and "map_of d k = None"
  shows "\<exists>oj ot k'. display_keys E d ctx parse depth aSpec (length ks) paired (map PStr ks) st u
           = (Some KeyError, (oj, ot, Some (PStr k')), u)"
proof (cases "2 \<le> length ks")
  case True
  then show ?thesis using assms display_keys_missing by blast
next
  case False
  then have "length ks \<le> 1" by simp
  then have "ks = [k]" using assms(1) by (cases ks) auto
  then show ?thesis
    using display_keys_single_missing [OF assms(2), of E ctx parse depth aSpec "length ks"
        paired st u]
    by simp
qed

lemma get_json_indent_default:
  "dict_get sw ''indent'' = PNone \<Longrightarrow> \<exists>v. get_json_indent E sw aSpec = Inr v"
  by (auto simp: get_json_indent_def Let_def split: option.splits)

lemma display_dict_output_plain:
  assumes "dict_get (switches u) ''template'' = PNone"
    and "dict_get (switches u) ''indent'' = PNone"
  shows "\<exists>u'. display_dict_output E table ctx aSpec oj ot key u = (None, u')
              \<and> flags u' = flags u \<and> switches u' = switches u
              \<and> default_mime u' = default_mime u"
proof -
  obtain v where "get_json_indent E (switches u) aSpec = Inr v"
    using get_json_indent_default [OF assms(2)] by blast
  then show ?thesis
    using assms(1) by (simp add: display_dict_output_def printf_format_def)
qed

lemma add_flag_fields:
  "switches (add_flag f v u) = switches u"
  "default_mime (add_flag f v u) = default_mime u"
  "v \<noteq> PNone \<Longrightarrow> flags (add_flag f v u) f \<noteq> []"
  "f' \<noteq> f \<Longrightarrow> flags (add_flag f v u) f' = flags u f'"
  by (simp_all add: add_flag_def)

lemma display_data_dict_missing_key:
  assumes keys: "keys = PList (map PStr ks)" and k: "k \<in> set ks" "map_of d k = None"
    and spec: "output_spec u = Inr aSpec"
    and tmpl: "dict_get (switches u) ''template'' = PNone"
    and ind: "dict_get (switches u) ''indent'' = PNone"
  shows "\<exists>u'. display_data_dict E d ctx parse keys depth u = (None, u')
              \<and> flags u' key_error \<noteq> [] \<and> flags u' json_error = flags u json_error
              \<and> switches u' = switches u \<and> default_mime u' = default_mime u"
proof -
  have ne: "ks \<noteq> []" using k(1) by auto
  have lk: "listed_keys d keys = Inr (map PStr ks)"
    using ne by (simp add: listed_keys_def keys)
  obtain oj ot k' where loop:
    "display_keys E d ctx parse depth aSpec (length ks)
       (table_format (switches u) aSpec \<or> length ks > 1) (map PStr ks)
       (PDict [], [], None) u
     = (Some KeyError, (oj, ot, Some (PStr k')), u)"
    using display_keys_reaches_missing [OF k] by blast
  let ?u1 = "add_flag key_error (PStr k') u"
  have dd: "display_data_dict E d ctx parse keys depth u
      = display_dict_output E d ctx aSpec oj ot (Some (PStr k')) ?u1"
    using loop by (simp add: display_data_dict.simps lk spec)
  obtain u' where out: "display_dict_output E d ctx aSpec oj ot (Some (PStr k')) ?u1 = (None, u')"
    "flags u' = flags ?u1" "switches u' = switches ?u1" "default_mime u' = default_mime ?u1"
    using display_dict_output_plain [of ?u1 E d ctx aSpec oj ot "Some (PStr k')"] tmpl ind
    by (auto simp: add_flag_fields)
  show ?thesis
    using dd out by (simp add: add_flag_fields)
qed


lemma write_output_flags: "flags (write_output tmpl e out t) = flags t"
  by (simp add: write_output_def print_flags Let_def)

lemma output_spec_cong:
  "switches u' = switches u \<Longrightarrow> default_mime u' = default_mime u \<Longrightarrow>
   output_spec u' = output_spec u"
  by (simp add: output_spec_def split: pyval.splits)

lemma getjson_missing_key_exit:
  assumes nohelp: "\<not> switched (switches t) ''help'' False"
    and noversion: "\<not> switched (switches t) ''version'' False"
    and noregex: "\<not> switched (switches t) ''regex'' False"
    and kv: "\<not> (switched (switches t) ''key'' False \<and> switched (switches t) ''value'' True)"
    and table: "get_json_input J E lines t = (Inr (PDict d), t1)"
    and keys: "data_keys (switches t) = PList (map PStr ks)"
    and k: "k \<in> set ks" "map_of d k = None"
    and fresh: "flags t json_error = []"
    and out: "dict_get (switches t) ''output'' = PNone
              \<or> (\<exists>s. dict_get (switches t) ''output'' = PStr s)"
    and tmpl: "dict_get (switches t) ''template'' = PNone"
    and ind: "dict_get (switches t) ''indent'' = PNone"
  shows "fst (getjson_execute J E lines True t) = Exit 1"
proof -
  note same = get_json_input_fields [OF table]
  obtain aSpec where spec: "output_spec t1 = Inr aSpec"
    using out by (auto simp: output_spec_def same)
  have dd: "display_data E (PDict d) (PDict d) (dict_get (switches t1) ''parse'') 0 t1
      = display_data_dict E d (PDict d) (dict_get (switches t1) ''parse'')
          (data_keys (switches t1)) 1 t1"
    by (simp add: display_data.simps)
  obtain t2 where t2: "display_data_dict E d (PDict d) (dict_get (switches t1) ''parse'')
          (data_keys (switches t1)) 1 t1 = (None, t2)"
    "flags t2 key_error \<noteq> []" "flags t2 json_error = flags t1 json_error"
    "switches t2 = switches t1" "default_mime t2 = default_mime t1"
    using display_data_dict_missing_key [OF _ k spec, of "data_keys (switches t1)" E
        "PDict d" "dict_get (switches t1) ''parse''" 1]
      keys tmpl ind
    by (auto simp: same)
  have "output_spec t2 = Inr aSpec"
    using spec output_spec_cong [OF t2(4,5)] by simp
  then obtain e where e: "get_output_terminator t2 = Inr e"
    by (simp add: get_output_terminator_def wants_table_def)
  let ?t3 = "write_output (format_line J t2) e (output_lines t2) t2"
  have q: "query J E lines t = (None, ?t3)"
    using t2(1) by (simp add: query_def emit_def table dd e)
  have f3: "flags ?t3 = flags t2" by (rule write_output_flags)
  have j3: "flags ?t3 json_error = []" using f3 t2(3) same(2) fresh by simp
  have k3: "flags ?t3 key_error \<noteq> []" using f3 t2(2) by simp
  have "getjson_execute J E lines True t = getjson_exit ?t3"
    using nohelp noversion noregex kv by (auto simp: getjson_execute_def q j3)
  then show ?thesis
    using j3 k3 by (simp add: getjson_exit_code flag_code_def)
qed

text \<open>
  Claim C3. The \<open>exit\<close> of the JSON query tool ends the process with the code that the
  flags determine, whatever exit code was stored before: 2 if a decode error is flagged,
  else 1 if a key error is flagged, else 254 if an output error is flagged, else 0; and
  every run that ends with an exit code ends with the code of the flags it has accumulated.
  In a run of the query mode whose input was decoded into a packet, with the default
  template and indent, a requested key that the packet does not have ends the run with
  exit code 1.
\<close>

theorem exit_code_from_flags:
  "fst (getjson_exit t) = Exit (flag_code (flags t))
   \<and> flags (snd (getjson_exit t)) = flags t
   \<and> (getjson_execute J E lines terminate t = (Exit c, t') \<longrightarrow> c = flag_code (flags t'))
   \<and> (\<not> switched (switches t) ''help'' False \<and> \<not> switched (switches t) ''version'' False
        \<and> \<not> switched (switches t) ''regex'' False
        \<and> \<not> (switched (switches t) ''key'' False \<and> switched (switches t) ''value'' True)
        \<and> get_json_input J E lines t = (Inr (PDict d), t1)
        \<and> data_keys (switches t) = PList (map PStr ks)
        \<and> k \<in> set ks \<and> map_of d k = None
        \<and> flags t json_error = []
        \<and> (dict_get (switches t) ''output'' = PNone
            \<or> (\<exists>s. dict_get (switches t) ''output'' = PStr s))
        \<and> dict_get (switches t) ''template'' = PNone
        \<and> dict_get (switches t) ''indent'' = PNone
       \<longrightarrow> fst (getjson_execute J E lines True t) = Exit 1)"
proof -
  have 1: "fst (getjson_exit t) = Exit (flag_code (flags t))"
    by (simp add: getjson_exit_code)
  have 2: "flags (snd (getjson_exit t)) = flags t"
    by (simp add: getjson_exit_code)
  have 3: "getjson_execute J E lines terminate t = (Exit c, t') \<longrightarrow> c = flag_code (flags t')"
    using getjson_execute_exit by blast
  show ?thesis
    using 1 2 3 getjson_missing_key_exit [of t J E lines d t1 ks k] by blast
qed

theorem exit_code_from_flags_witness:
  "fst (getjson_execute sample_store sample_env
          [''{'' @ [dquote] @ ''a'' @ [dquote] @ '':1}'']
          True (fresh_getjson [(''key'', PList [PStr ''missing''])])) = Exit 1
   \<and> flag_code (flags (snd (getjson_execute sample_store sample_env
          [''{'' @ [dquote] @ ''a'' @ [dquote] @ '':1}'']
          True (fresh_getjson [(''key'', PList [PStr ''missing''])])))) = 1
   \<and> stdout (snd (getjson_execute sample_store sample_env
          [''{'' @ [dquote] @ ''a'' @ [dquote] @ '':1}'']
          True (fresh_getjson [(''key'', PList [PStr ''missing''])]))) = []"
proof -
  let ?t = "fresh_getjson [(''key'', PList [PStr ''missing''])]"
  let ?lines = "[''{'' @ [dquote] @ ''a'' @ [dquote] @ '':1}'']"
  let ?t1 = "snd (get_json_input sample_store sample_env ?lines ?t)"
  let ?r = "getjson_execute sample_store sample_env ?lines True ?t"
  have h: "\<not> switched (switches ?t) ''help'' False \<and> \<not> switched (switches ?t) ''version'' False
        \<and> \<not> switched (switches ?t) ''regex'' False
        \<and> \<not> (switched (switches ?t) ''key'' False \<and> switched (switches ?t) ''value'' True)"
    by code_simp
  have "fst (get_json_input sample_store sample_env ?lines ?t) = Inr (PDict [(''a'', PInt 1)])"
    by code_simp
  then have i: "get_json_input sample_store sample_env ?lines ?t
                  = (Inr (PDict [(''a'', PInt 1)]), ?t1)"
    by (simp add: prod_eq_iff)
  have dk: "data_keys (switches ?t) = PList (map PStr [''missing''])" by code_simp
  have m: "map_of [(''a'', PInt 1)] ''missing'' = None" by simp
  have f: "flags ?t json_error = []" by (simp add: fresh_getjson_def)
  have o: "dict_get (switches ?t) ''output'' = PNone" by code_simp
  have tm: "dict_get (switches ?t) ''template'' = PNone" by code_simp
  have ind: "dict_get (switches ?t) ''indent'' = PNone" by code_simp
  note th = exit_code_from_flags [where J = sample_store and E = sample_env
      and lines = ?lines and t = ?t and ?t1.0 = ?t1 and d = "[(''a'', PInt 1)]"
      and ks = "[''missing'']" and k = "''missing''" and terminate = True
      and c = 1 and t' = "snd ?r"]
  have 1: "fst ?r = Exit 1"
    using th h i dk m f o tm ind by simp
  then have "?r = (Exit 1, snd ?r)" by (simp add: prod_eq_iff)
  then have 2: "flag_code (flags (snd ?r)) = 1"
    using th by simp
  have 3: "stdout (snd ?r) = []" by code_simp
  show ?thesis using 1 2 3 by simp
qed

text \<open>
  What \<open>data_matches\<close> answers where it answers: for a pattern between slashes and a field
  that is a string, the test of the pattern on the field; for a literal value, equality
  with a string field, and equality of an integer field with the value read as an
  integer.
\<close>

lemma data_matches_answers:
  "match_slashes value = Some p \<Longrightarrow> re_match E p = Some test \<Longrightarrow> dict_get d key = PStr s \<Longrightarrow>
     data_matches E (PDict d) key value = Inr (test s)"
  "match_slashes value = None \<Longrightarrow> dict_get d key = PStr s \<Longrightarrow>
     data_matches E (PDict d) key value = Inr (s = value)"
  "match_slashes value = None \<Longrightarrow> dict_get d key = PInt n \<Longrightarrow>
   int_of_str (int_max_str_digits E) value = Some i \<Longrightarrow>
     data_matches E (PDict d) key value = Inr (n = i)"
  by (simp_all add: data_matches_def)

text \<open>
  With a pattern between slashes, an item whose field is not a string is neither kept nor
  dropped: \<open>data_matches\<close> raises.
\<close>

lemma data_matches_pattern_raises:
  assumes "match_slashes value = Some p" and "\<forall>s. dict_get d key \<noteq> PStr s"
  shows "\<exists>e. data_matches E (PDict d) key value = Inl e"
  using assms
  by (cases "dict_get d key"; cases "re_match E p") (simp_all add: data_matches_def)

text \<open>
  Claim C8, at the input where the code fails it. The packet is the list of the one item
  \<open>{"a": 1}\<close>. With the filter \<open>b:/x/\<close> the item has no field \<open>b\<close>, with \<open>a:/x/\<close> its
  field is an integer: in both cases \<open>re.match\<close> is applied to a value that is no string
  and \<open>data_matches\<close> raises \<open>TypeError\<close>, which ends \<open>display_data_list\<close>, where the claim
  has the item dropped. With the filter \<open>a:abc\<close> the integer field is compared with
  \<open>int("abc")\<close>, a \<open>ValueError\<close>.
\<close>

theorem data_matches_missing_field_raises:
  "match_slashes ''/x/'' = Some ''x''
   \<and> data_matches sample_env (PDict [(''a'', PInt 1)]) ''b'' ''/x/'' = Inl TypeError
   \<and> data_matches sample_env (PDict [(''a'', PInt 1)]) ''a'' ''/x/'' = Inl TypeError
   \<and> data_matches sample_env (PDict [(''a'', PInt 1)]) ''a'' ''abc'' = Inl ValueError
   \<and> fst (display_data_list sample_env [PDict [(''a'', PInt 1)]]
             (PList [PDict [(''a'', PInt 1)]]) PNone 1
             (fresh_getjson [(''where'', PStr ''b:/x/'')])) = Some TypeError
   \<and> output_lines (snd (display_data_list sample_env [PDict [(''a'', PInt 1)]]
             (PList [PDict [(''a'', PInt 1)]]) PNone 1
             (fresh_getjson [(''where'', PStr ''b:/x/'')]))) = []"
  by code_simp

end
